theory Spec2Isabelle
  imports Complex_Main "HOL-Library.Word"
begin

section \<open>The transceiver loop of examples/arduino-rx-web/arduino-rx-web.cpp\<close>

text \<open>
  The file drives two SDL audio devices (playback and capture) around one GGWave engine.
  Its state is a handful of globals (\<open>g_devIdInp\<close>, \<open>g_devIdOut\<close>, the two obtained
  specs, \<open>g_ggWave\<close>) and two function-local statics of \<open>GGWave_mainLoop\<close>
  (\<open>tLastNoData\<close>, \<open>dataInp\<close>). The model passes that state explicitly, together with
  the state of the SDL devices the handles refer to and a trace of the calls made to SDL and
  to the engine. One call of \<open>GGWave_init\<close> or \<open>GGWave_mainLoop\<close> is one step; the audio
  subsystem does not touch the queues inside a step.
\<close>

subsection \<open>Data\<close>

type_synonym byte = "8 word"
type_synonym SDL_AudioDeviceID = "32 word"
type_synonym SDL_AudioFormat = "16 word"

text \<open>The fields of \<open>SDL_AudioSpec\<close> that the file reads or writes.\<close>

record SDL_AudioSpec =
  freq :: int
  format :: SDL_AudioFormat
  channels :: "8 word"
  samples :: "16 word"

text \<open>\<open>SDL_zero\<close> of a spec.\<close>

definition SDL_zero :: SDL_AudioSpec where
  "SDL_zero = \<lparr>freq = 0, format = 0, channels = 0, samples = 0\<rparr>"

text \<open>
  The sample formats of SDL_audio.h, which is not part of the repository: the values of a
  little-endian host, where the \<open>SYS\<close> names are the \<open>LSB\<close> ones.
\<close>

definition AUDIO_U8 :: SDL_AudioFormat where "AUDIO_U8 = 0x0008"
definition AUDIO_S8 :: SDL_AudioFormat where "AUDIO_S8 = 0x8008"
definition AUDIO_U16SYS :: SDL_AudioFormat where "AUDIO_U16SYS = 0x0010"
definition AUDIO_S16SYS :: SDL_AudioFormat where "AUDIO_S16SYS = 0x8010"
definition AUDIO_S32SYS :: SDL_AudioFormat where "AUDIO_S32SYS = 0x8020"
definition AUDIO_F32SYS :: SDL_AudioFormat where "AUDIO_F32SYS = 0x8120"

definition SDL_FALSE :: int where "SDL_FALSE = 0"
definition SDL_TRUE :: int where "SDL_TRUE = 1"

text \<open>The engine's sample formats (\<open>GGWave::SampleFormat\<close>).\<close>

datatype SampleFormat =
    GGWAVE_SAMPLE_FORMAT_UNDEFINED
  | GGWAVE_SAMPLE_FORMAT_U8
  | GGWAVE_SAMPLE_FORMAT_I8
  | GGWAVE_SAMPLE_FORMAT_U16
  | GGWAVE_SAMPLE_FORMAT_I16
  | GGWAVE_SAMPLE_FORMAT_F32

datatype OperatingModeFlag = GGWAVE_OPERATING_MODE_RX_AND_TX | GGWAVE_OPERATING_MODE_USE_DSS

datatype MarkerThreshold = kDefaultSoundMarkerThreshold

text \<open>The aggregate handed to the constructor of \<open>GGWave\<close> at lines 231-241.\<close>

record Parameters =
  p_payloadLength :: int
  p_sampleRateInp :: int
  p_sampleRateOut :: int
  p_sampleRate :: int
  p_samplesPerFrame :: int
  p_soundMarkerThreshold :: MarkerThreshold
  p_sampleFormatInp :: SampleFormat
  p_sampleFormatOut :: SampleFormat
  p_operatingMode :: "OperatingModeFlag list"

text \<open>
  The class \<open>GGWave\<close> is declared in ggwave/ggwave.h, outside the repository's sources
  given here. The file uses it through the member functions below only, so the model takes
  them as a parameter: a record of functions over an engine state \<open>'e\<close>. Member functions
  that change the engine return the new engine state.
\<close>

record 'e GGWave_class =
  new_GGWave :: "Parameters \<Rightarrow> 'e"
  init :: "'e \<Rightarrow> int \<Rightarrow> byte list \<Rightarrow> int \<Rightarrow> int \<Rightarrow> 'e"
  txHasData :: "'e \<Rightarrow> bool"
  samplesPerFrame :: "'e \<Rightarrow> int"
  sampleSizeInp :: "'e \<Rightarrow> int"
  sampleSizeOut :: "'e \<Rightarrow> int"
  decode :: "'e \<Rightarrow> byte list \<Rightarrow> bool \<times> 'e"
  rxTakeData :: "'e \<Rightarrow> int \<times> byte list \<times> 'e"
  encode :: "'e \<Rightarrow> 32 word \<times> 'e"
  txWaveform :: "'e \<Rightarrow> byte list"

text \<open>Calls to SDL and to the engine, and lines written to the console, in program order.\<close>

datatype event =
    Call_SDL_Init
  | Call_SDL_SetHint
  | Call_SDL_GetNumAudioDevices int
  | Call_SDL_GetAudioDeviceName int int
  | Call_SDL_OpenAudioDevice "string option" int SDL_AudioSpec
  | Call_SDL_CloseAudio
  | Call_SDL_PauseAudioDevice SDL_AudioDeviceID int
  | Call_SDL_GetQueuedAudioSize SDL_AudioDeviceID
  | Call_SDL_DequeueAudio SDL_AudioDeviceID "32 word"
  | Call_SDL_ClearQueuedAudio SDL_AudioDeviceID
  | Call_SDL_QueueAudio SDL_AudioDeviceID "byte list"
  | Call_new_GGWave Parameters
  | Call_delete_GGWave
  | Call_decode "byte list"
  | Call_rxTakeData
  | Call_encode
  | Warning_failed_to_decode
  | Warning_slow_processing "32 word"
  | Printed_Received "byte list"

text \<open>An open SDL audio device: whether it is paused, and the bytes in its queue.\<close>

record SDL_device =
  paused :: bool
  queue :: "byte list"

record 'e world =
  g_defaultCaptureDeviceName :: string
  g_devIdInp :: SDL_AudioDeviceID
  g_devIdOut :: SDL_AudioDeviceID
  g_obtainedSpecInp :: SDL_AudioSpec
  g_obtainedSpecOut :: SDL_AudioSpec
  g_ggWave :: "'e option"
  tLastNoData :: "int option"
  dataInp :: "byte list option"
  devices :: "SDL_AudioDeviceID \<rightharpoonup> SDL_device"
  trace :: "event list"

text \<open>What stops a call short of returning: undefined behaviour and exceptions of C++.\<close>

datatype error =
    NullPointer
  | SignedOverflow
  | LengthError
  | BufferOverrun

subsection \<open>The audio device API\<close>

definition log_call :: "event \<Rightarrow> 'e world \<Rightarrow> 'e world" where
  "log_call ev w = w\<lparr>trace := trace w @ [ev]\<rparr>"

text \<open>
  Modelled from the spec: the Audio Device API (SDL2) is external and not under src/; the
  spec lists its operations: pause/resume a device, query the queued-byte count, enqueue
  bytes for playback, dequeue bytes from capture, clear a device's queue, close a device.
  \<open>SDL_PauseAudioDevice dev pause_on\<close> pauses the device when \<open>pause_on\<close> is nonzero
  and resumes it when \<open>pause_on\<close> is zero. Every operation on an id that is not an open
  device changes nothing and reports zero bytes.
\<close>

definition SDL_PauseAudioDevice :: "SDL_AudioDeviceID \<Rightarrow> int \<Rightarrow> 'e world \<Rightarrow> 'e world" where
  "SDL_PauseAudioDevice dev pause_on w =
     log_call (Call_SDL_PauseAudioDevice dev pause_on)
       (case devices w dev of
          None \<Rightarrow> w
        | Some d \<Rightarrow> w\<lparr>devices := (devices w)(dev \<mapsto> d\<lparr>paused := (pause_on \<noteq> 0)\<rparr>)\<rparr>)"

definition SDL_GetQueuedAudioSize :: "SDL_AudioDeviceID \<Rightarrow> 'e world \<Rightarrow> 32 word \<times> 'e world" where
  "SDL_GetQueuedAudioSize dev w =
     ((case devices w dev of None \<Rightarrow> 0 | Some d \<Rightarrow> word_of_nat (length (queue d))),
      log_call (Call_SDL_GetQueuedAudioSize dev) w)"

definition SDL_DequeueAudio :: "SDL_AudioDeviceID \<Rightarrow> 32 word \<Rightarrow> 'e world \<Rightarrow> byte list \<times> 'e world" where
  "SDL_DequeueAudio dev len w =
     (case devices w dev of
        None \<Rightarrow> ([], log_call (Call_SDL_DequeueAudio dev len) w)
      | Some d \<Rightarrow>
          (take (unat len) (queue d),
           log_call (Call_SDL_DequeueAudio dev len)
             (w\<lparr>devices := (devices w)(dev \<mapsto> d\<lparr>queue := drop (unat len) (queue d)\<rparr>)\<rparr>)))"

definition SDL_ClearQueuedAudio :: "SDL_AudioDeviceID \<Rightarrow> 'e world \<Rightarrow> 'e world" where
  "SDL_ClearQueuedAudio dev w =
     log_call (Call_SDL_ClearQueuedAudio dev)
       (case devices w dev of
          None \<Rightarrow> w
        | Some d \<Rightarrow> w\<lparr>devices := (devices w)(dev \<mapsto> d\<lparr>queue := []\<rparr>)\<rparr>)"

definition SDL_QueueAudio :: "SDL_AudioDeviceID \<Rightarrow> byte list \<Rightarrow> 'e world \<Rightarrow> 'e world" where
  "SDL_QueueAudio dev bytes w =
     log_call (Call_SDL_QueueAudio dev bytes)
       (case devices w dev of
          None \<Rightarrow> w
        | Some d \<Rightarrow> w\<lparr>devices := (devices w)(dev \<mapsto> d\<lparr>queue := queue d @ bytes\<rparr>)\<rparr>)"

text \<open>
  Modelled from the spec: \<open>getTime_ms\<close> is defined in ggwave-common.h, which is not under
  src/; the spec calls its result the elapsed time since the timestamp, compared with the
  500 ms debounce window. Clock readings are in microseconds, and the float result is the
  exact quotient.
\<close>

definition getTime_ms :: "int \<Rightarrow> int \<Rightarrow> real" where
  "getTime_ms tStart tEnd = real_of_int (tEnd - tStart) / 1000"

text \<open>
  The product of two \<open>int\<close> values in C++: overflow is undefined behaviour, an error here.
\<close>

definition int_times :: "int \<Rightarrow> int \<Rightarrow> error + int" where
  "int_times a b =
     (if - (2 ^ 31) \<le> a * b \<and> a * b < 2 ^ 31 then Inr (a * b) else Inl SignedOverflow)"

subsection \<open>GGWave_mainLoop\<close>

text \<open>
  Lines 268-279: the frame in \<open>dataInp\<close> goes to \<open>decode\<close>; a failure is reported, a
  success is followed by \<open>rxTakeData\<close> and, for a completed payload, the printed line:
  \<open>%s\<close> prints the bytes of \<open>rxData\<close> before the first zero byte.
\<close>

definition mainLoop_report :: "'e GGWave_class \<Rightarrow> 'e \<Rightarrow> byte list \<Rightarrow> 'e world \<Rightarrow> 'e world" where
  "mainLoop_report G e buf w =
     (let (ok, e1) = decode G e buf;
          w1 = log_call (Call_decode buf) (w\<lparr>g_ggWave := Some e1\<rparr>)
      in if ok = False then log_call Warning_failed_to_decode w1
         else
           let (n, rxData, e2) = rxTakeData G e1;
               w2 = log_call Call_rxTakeData (w1\<lparr>g_ggWave := Some e2\<rparr>)
           in if n > 0 then log_call (Printed_Received (takeWhile (\<lambda>b. b \<noteq> 0) rxData)) w2
              else w2)"

text \<open>Lines 281-284: the overflow guard, on the \<open>nHave\<close> read before the dequeue.\<close>

definition mainLoop_guard :: "int \<Rightarrow> int \<Rightarrow> 'e world \<Rightarrow> error + 'e world" where
  "mainLoop_guard nHave nNeed w =
     (case int_times 32 nNeed of
        Inl err \<Rightarrow> Inl err
      | Inr n32 \<Rightarrow>
          if nHave > n32 then
            let (sz, w1) = SDL_GetQueuedAudioSize (g_devIdInp w) w
            in Inr (SDL_ClearQueuedAudio (g_devIdInp w1) (log_call (Warning_slow_processing sz) w1))
          else Inr w)"

text \<open>
  Lines 265-284: the branch that dequeues and decodes. \<open>dataInp\<close> is a static vector,
  sized by \<open>nNeed\<close> when control first reaches it (a negative size throws); a dequeue
  of more bytes than it holds overruns it. \<open>decode\<close> receives the whole vector.
\<close>

definition mainLoop_decode ::
  "'e GGWave_class \<Rightarrow> 'e \<Rightarrow> int \<Rightarrow> int \<Rightarrow> 'e world \<Rightarrow> error + 'e world" where
  "mainLoop_decode G e nHave nNeed w =
     (if dataInp w = None \<and> nNeed < 0 then Inl LengthError
      else
        let buf = (case dataInp w of None \<Rightarrow> replicate (nat nNeed) 0 | Some b \<Rightarrow> b);
            (got, w1) = SDL_DequeueAudio (g_devIdInp w) (word_of_int nNeed) w
        in if length buf < length got then Inl BufferOverrun
           else
             let buf' = got @ drop (length got) buf
             in mainLoop_guard nHave nNeed (mainLoop_report G e buf' (w1\<lparr>dataInp := Some buf'\<rparr>)))"

text \<open>Lines 261-287: the capture logic, reached when the playback queue has drained.\<close>

definition mainLoop_capture ::
  "'e GGWave_class \<Rightarrow> 'e \<Rightarrow> int \<Rightarrow> int \<Rightarrow> 'e world \<Rightarrow> error + 'e world" where
  "mainLoop_capture G e tLast tNow w =
     (let w1 = SDL_PauseAudioDevice (g_devIdInp w) SDL_FALSE w;
          (sz, w2) = SDL_GetQueuedAudioSize (g_devIdInp w1) w1;
          nHave = sint sz
      in case int_times (samplesPerFrame G e) (sampleSizeInp G e) of
           Inl err \<Rightarrow> Inl err
         | Inr nNeed \<Rightarrow>
             if getTime_ms tLast tNow > 500 \<and> nHave \<ge> nNeed
             then mainLoop_decode G e nHave nNeed w2
             else Inr (SDL_ClearQueuedAudio (g_devIdInp w2) w2))"

text \<open>
  Lines 255-290: the branch for \<open>txHasData() == false\<close>. \<open>tLastNoData\<close> is a static,
  set from the clock when control first reaches it; \<open>tNow\<close> is the clock reading of
  this call.
\<close>

definition mainLoop_listen ::
  "'e GGWave_class \<Rightarrow> 'e \<Rightarrow> int \<Rightarrow> 'e world \<Rightarrow> error + 'e world" where
  "mainLoop_listen G e tNow w =
     (let w1 = SDL_PauseAudioDevice (g_devIdOut w) SDL_FALSE w;
          tLast = (case tLastNoData w1 of None \<Rightarrow> tNow | Some t \<Rightarrow> t);
          w2 = w1\<lparr>tLastNoData := Some tLast\<rparr>;
          (sz, w3) = SDL_GetQueuedAudioSize (g_devIdOut w2) w2
      in case int_times (samplesPerFrame G e) (sampleSizeOut G e) of
           Inl err \<Rightarrow> Inl err
         | Inr nOut \<Rightarrow>
             if sint sz < nOut then mainLoop_capture G e tLast tNow w3
             else Inr (w3\<lparr>tLastNoData := Some tNow\<rparr>))"

text \<open>Lines 292-296: the branch for pending outbound data.\<close>

definition mainLoop_transmit :: "'e GGWave_class \<Rightarrow> 'e \<Rightarrow> 'e world \<Rightarrow> 'e world" where
  "mainLoop_transmit G e w =
     (let w1 = SDL_PauseAudioDevice (g_devIdOut w) SDL_TRUE w;
          w2 = SDL_PauseAudioDevice (g_devIdInp w1) SDL_TRUE w1;
          (nBytes, e1) = encode G e;
          w3 = log_call Call_encode (w2\<lparr>g_ggWave := Some e1\<rparr>)
      in SDL_QueueAudio (g_devIdOut w3) (take (unat nBytes) (txWaveform G e1)) w3)"

text \<open>
  \<open>GGWave_mainLoop\<close>, lines 249-300. \<open>tNow\<close> is what the clock reads during the call.
  The result is the returned boolean and the state after the call.
\<close>

definition GGWave_mainLoop ::
  "'e GGWave_class \<Rightarrow> int \<Rightarrow> 'e world \<Rightarrow> error + bool \<times> 'e world" where
  "GGWave_mainLoop G tNow w =
     (if g_devIdInp w = 0 \<and> g_devIdOut w = 0 then Inr (False, w)
      else
        case g_ggWave w of
          None \<Rightarrow> Inl NullPointer
        | Some e \<Rightarrow>
            if txHasData G e = False then
              (case mainLoop_listen G e tNow w of
                 Inl err \<Rightarrow> Inl err
               | Inr w' \<Rightarrow> Inr (True, w'))
            else Inr (True, mainLoop_transmit G e w))"

text \<open>\<open>sendData\<close>, lines 47-50: the text is handed to the engine, which then has data to send.\<close>

definition sendData ::
  "'e GGWave_class \<Rightarrow> int \<Rightarrow> byte list \<Rightarrow> int \<Rightarrow> int \<Rightarrow> 'e world \<Rightarrow> error + int \<times> 'e world" where
  "sendData G textLength text protocolId volume w =
     (case g_ggWave w of
        None \<Rightarrow> Inl NullPointer
      | Some e \<Rightarrow> Inr (0, w\<lparr>g_ggWave := Some (init G e textLength text protocolId volume)\<rparr>))"

text \<open>
  Between two calls the audio subsystem appends what it captured to the queue of an open
  capture device.
\<close>

definition capture_audio :: "SDL_AudioDeviceID \<Rightarrow> byte list \<Rightarrow> 'e world \<Rightarrow> 'e world" where
  "capture_audio dev bytes w =
     (case devices w dev of
        None \<Rightarrow> w
      | Some d \<Rightarrow> w\<lparr>devices := (devices w)(dev \<mapsto> d\<lparr>queue := queue d @ bytes\<rparr>)\<rparr>)"

subsection \<open>GGWave_init\<close>

text \<open>
  What the host answers to the calls of \<open>GGWave_init\<close>: the result of \<open>SDL_Init\<close>,
  the number of devices and their names per direction (a name may be \<open>NULL\<close>), and for
  an open request the device id (0 on failure) with the obtained spec.
\<close>

record SDL_host =
  init_result :: int
  num_devices :: "int \<Rightarrow> int"
  device_name :: "int \<Rightarrow> int \<Rightarrow> string option"
  open_device :: "string option \<Rightarrow> int \<Rightarrow> SDL_AudioSpec \<Rightarrow> SDL_AudioDeviceID \<times> SDL_AudioSpec"

definition log_calls :: "event list \<Rightarrow> 'e world \<Rightarrow> 'e world" where
  "log_calls evs w = w\<lparr>trace := trace w @ evs\<rparr>"

text \<open>
  Modelled from the spec: opening a device by name or default with a requested spec returns
  the obtained spec. SDL opens a device paused, with an empty queue.
\<close>

definition SDL_OpenAudioDevice ::
  "SDL_host \<Rightarrow> string option \<Rightarrow> int \<Rightarrow> SDL_AudioSpec \<Rightarrow> 'e world
     \<Rightarrow> (SDL_AudioDeviceID \<times> SDL_AudioSpec) \<times> 'e world" where
  "SDL_OpenAudioDevice H name iscapture desired w =
     (let (dev, obtained) = open_device H name iscapture desired
      in ((dev, obtained),
          log_call (Call_SDL_OpenAudioDevice name iscapture desired)
            (if dev = 0 then w
             else w\<lparr>devices := (devices w)(dev \<mapsto> \<lparr>paused = True, queue = []\<rparr>)\<rparr>)))"

text \<open>
  \<open>SDL_CloseAudio\<close> is the legacy call of SDL: it closes the device with id 1, the one
  that the legacy \<open>SDL_OpenAudio\<close> opens. \<open>SDL_OpenAudioDevice\<close> never returns id 1.
\<close>

definition SDL_CloseAudio :: "'e world \<Rightarrow> 'e world" where
  "SDL_CloseAudio w = log_call Call_SDL_CloseAudio (w\<lparr>devices := (devices w)(1 := None)\<rparr>)"

text \<open>
  The sample rates are \<open>float\<close> values in the source. \<open>float32_of_int n\<close> is the
  \<open>float\<close> nearest to the integer \<open>n\<close> (24 significant bits, ties to even), which is
  again an integer: the conversion \<open>(float) n\<close>, and the rounding of a \<open>float\<close> sum of
  integers. It is exact below \<open>2 ^ 24\<close>.
\<close>

function bits_above_24 :: "nat \<Rightarrow> nat" where
  "bits_above_24 a = (if a < 2 ^ 24 then 0 else Suc (bits_above_24 (a div 2)))"
  by pat_completeness auto
termination
  by (relation "measure id") auto

declare bits_above_24.simps [simp del]

definition float32_of_int :: "int \<Rightarrow> int" where
  "float32_of_int n =
     (let a = nat \<bar>n\<bar>;
          k = bits_above_24 a;
          q = a div 2 ^ k;
          r = a mod 2 ^ k
      in sgn n * int ((if 2 * r > 2 ^ k \<or> (2 * r = 2 ^ k \<and> odd q) then q + 1 else q) * 2 ^ k))"

text \<open>
  Modelled from the spec: \<open>GGWave::kDefaultSampleRate\<close> is declared in ggwave/ggwave.h,
  not under src/; the spec's scenario negotiates at the base rate 48000.
\<close>

definition kDefaultSampleRate :: int where
  "kDefaultSampleRate = 48000"

text \<open>
  Lines 132 and 175: \<open>GGWave::kDefaultSampleRate + sampleRateOffset\<close>, a \<open>float\<close> sum
  assigned to the \<open>int\<close> field \<open>freq\<close>. The offset is the integer the caller passes,
  converted to \<open>float\<close> at the call.
\<close>

definition requested_freq :: "int \<Rightarrow> int" where
  "requested_freq sampleRateOffset =
     float32_of_int (kDefaultSampleRate + float32_of_int sampleRateOffset)"

text \<open>Lines 109-121: the two listings of device names.\<close>

definition init_enumerate :: "SDL_host \<Rightarrow> int \<Rightarrow> event list" where
  "init_enumerate H iscapture =
     Call_SDL_GetNumAudioDevices iscapture #
     map (\<lambda>i. Call_SDL_GetAudioDeviceName (int i) iscapture) [0..<nat (num_devices H iscapture)]"

text \<open>Lines 129-136: the spec requested for playback.\<close>

definition playbackSpec :: "int \<Rightarrow> SDL_AudioSpec" where
  "playbackSpec sampleRateOffset =
     \<lparr>freq = requested_freq sampleRateOffset, format = AUDIO_S16SYS,
      channels = 1, samples = 16 * 1024\<rparr>"

text \<open>Lines 140-146: the device name passed to \<open>SDL_OpenAudioDevice\<close> for playback.\<close>

definition playback_name :: "SDL_host \<Rightarrow> int \<Rightarrow> string option" where
  "playback_name H playbackId =
     (if playbackId \<ge> 0 then device_name H playbackId SDL_FALSE else None)"

text \<open>Lines 158-160: the test on the obtained playback spec.\<close>

definition spec_mismatch :: "SDL_AudioSpec \<Rightarrow> SDL_AudioSpec \<Rightarrow> bool" where
  "spec_mismatch obtained requested =
     (format obtained \<noteq> format requested \<or>
      channels obtained \<noteq> channels requested \<or>
      samples obtained \<noteq> samples requested)"

text \<open>
  Lines 126-170. \<open>Inl\<close> is the \<open>return false\<close> of line 165; \<open>Inr\<close> carries the local
  \<open>reinit\<close> on to the rest of the function.
\<close>

definition init_playback ::
  "SDL_host \<Rightarrow> int \<Rightarrow> int \<Rightarrow> 'e world \<Rightarrow> 'e world + bool \<times> 'e world" where
  "init_playback H playbackId sampleRateOffset w =
     (if g_devIdOut w = 0 then
        let w1 = w\<lparr>g_obtainedSpecOut := SDL_zero\<rparr>;
            w2 = (if playbackId \<ge> 0
                  then log_calls [Call_SDL_GetAudioDeviceName playbackId SDL_FALSE,
                                  Call_SDL_GetAudioDeviceName playbackId SDL_FALSE] w1
                  else w1);
            ((dev, obtained), w3) =
              SDL_OpenAudioDevice H (playback_name H playbackId) SDL_FALSE
                (playbackSpec sampleRateOffset) w2;
            w4 = w3\<lparr>g_devIdOut := dev, g_obtainedSpecOut := obtained\<rparr>
        in if dev = 0 then Inr (False, w4\<lparr>g_devIdOut := 0\<rparr>)
           else if spec_mismatch obtained (playbackSpec sampleRateOffset)
                then Inl (SDL_CloseAudio (w4\<lparr>g_devIdOut := 0\<rparr>))
                else Inr (True, w4)
      else Inr (False, w))"

text \<open>Lines 172-201, entered with the current value of \<open>reinit\<close>.\<close>

definition init_capture ::
  "SDL_host \<Rightarrow> int \<Rightarrow> int \<Rightarrow> bool \<Rightarrow> 'e world \<Rightarrow> bool \<times> 'e world" where
  "init_capture H captureId sampleRateOffset reinit w =
     (if g_devIdInp w = 0 then
        let captureSpec = (g_obtainedSpecOut w)\<lparr>freq := requested_freq sampleRateOffset,
                                                format := AUDIO_F32SYS, samples := 1024\<rparr>;
            w1 = w\<lparr>g_obtainedSpecInp := SDL_zero\<rparr>;
            name = (if captureId \<ge> 0 then device_name H captureId SDL_TRUE
                    else if g_defaultCaptureDeviceName w = [] then None
                    else Some (g_defaultCaptureDeviceName w));
            w2 = (if captureId \<ge> 0
                  then log_calls [Call_SDL_GetAudioDeviceName captureId SDL_TRUE,
                                  Call_SDL_GetAudioDeviceName captureId SDL_TRUE] w1
                  else w1);
            ((dev, obtained), w3) = SDL_OpenAudioDevice H name SDL_TRUE captureSpec w2;
            w4 = w3\<lparr>g_devIdInp := dev, g_obtainedSpecInp := obtained\<rparr>
        in if dev = 0 then (reinit, w4\<lparr>g_devIdInp := 0\<rparr>) else (True, w4)
      else (reinit, w))"

text \<open>
  Lines 206-213 and 215-223: the two \<open>switch\<close> statements, which are the same mapping from
  the obtained hardware format to the engine's format. The variable starts as
  \<open>GGWAVE_SAMPLE_FORMAT_UNDEFINED\<close> and there is no \<open>default\<close> label.
\<close>

definition switch_format :: "SDL_AudioFormat \<Rightarrow> SampleFormat" where
  "switch_format f =
     (if f = AUDIO_U8 then GGWAVE_SAMPLE_FORMAT_U8
      else if f = AUDIO_S8 then GGWAVE_SAMPLE_FORMAT_I8
      else if f = AUDIO_U16SYS then GGWAVE_SAMPLE_FORMAT_U16
      else if f = AUDIO_S16SYS then GGWAVE_SAMPLE_FORMAT_I16
      else if f = AUDIO_S32SYS then GGWAVE_SAMPLE_FORMAT_F32
      else if f = AUDIO_F32SYS then GGWAVE_SAMPLE_FORMAT_F32
      else GGWAVE_SAMPLE_FORMAT_UNDEFINED)"

text \<open>
  Lines 225-242: the engine is deleted if there is one, and built anew. The two obtained
  rates are cast to \<open>float\<close>.
\<close>

definition init_engine ::
  "'e GGWave_class \<Rightarrow> int \<Rightarrow> bool \<Rightarrow> SampleFormat \<Rightarrow> SampleFormat \<Rightarrow> 'e world \<Rightarrow> 'e world" where
  "init_engine G payloadLength useDSS sampleFormatInp sampleFormatOut w =
     (let w1 = (if g_ggWave w \<noteq> None then log_call Call_delete_GGWave (w\<lparr>g_ggWave := None\<rparr>) else w);
          mode = GGWAVE_OPERATING_MODE_RX_AND_TX #
                 (if useDSS then [GGWAVE_OPERATING_MODE_USE_DSS] else []);
          params = \<lparr>p_payloadLength = payloadLength,
                    p_sampleRateInp = float32_of_int (freq (g_obtainedSpecInp w1)),
                    p_sampleRateOut = float32_of_int (freq (g_obtainedSpecOut w1)),
                    p_sampleRate = kDefaultSampleRate,
                    p_samplesPerFrame = 512,
                    p_soundMarkerThreshold = kDefaultSoundMarkerThreshold,
                    p_sampleFormatInp = sampleFormatInp,
                    p_sampleFormatOut = sampleFormatOut,
                    p_operatingMode = mode\<rparr>
      in log_call (Call_new_GGWave params) (w1\<lparr>g_ggWave := Some (new_GGWave G params)\<rparr>))"

text \<open>
  \<open>GGWave_init\<close>, lines 87-245: the returned boolean and the state after the call. When
  \<open>SDL_Init\<close> fails the function returns \<open>(1)\<close>, which is \<open>true\<close>.
\<close>

definition GGWave_init ::
  "'e GGWave_class \<Rightarrow> SDL_host \<Rightarrow> int \<Rightarrow> int \<Rightarrow> int \<Rightarrow> int \<Rightarrow> bool \<Rightarrow> 'e world \<Rightarrow> bool \<times> 'e world" where
  "GGWave_init G H playbackId captureId payloadLength sampleRateOffset useDSS w =
     (if g_devIdInp w \<noteq> 0 \<and> g_devIdOut w \<noteq> 0 then (False, w)
      else if g_devIdInp w = 0 \<and> g_devIdOut w = 0 \<and> init_result H < 0
      then (True, log_call Call_SDL_Init w)
      else
        let w1 = (if g_devIdInp w = 0 \<and> g_devIdOut w = 0
                  then log_calls ([Call_SDL_Init, Call_SDL_SetHint] @
                                  init_enumerate H SDL_FALSE @ init_enumerate H SDL_TRUE) w
                  else w)
        in case init_playback H playbackId sampleRateOffset w1 of
             Inl w2 \<Rightarrow> (False, w2)
           | Inr (reinit1, w2) \<Rightarrow>
               let (reinit, w3) = init_capture H captureId sampleRateOffset reinit1 w2;
                   sampleFormatInp = switch_format (format (g_obtainedSpecInp w3));
                   sampleFormatOut = switch_format (format (g_obtainedSpecOut w3))
               in (True,
                   if reinit then init_engine G payloadLength useDSS sampleFormatInp sampleFormatOut w3
                   else w3))"

subsection \<open>Observations of a state\<close>

text \<open>The bytes queued on a device, whether it is open, and whether it is open and unpaused.\<close>

definition queued :: "SDL_AudioDeviceID \<Rightarrow> 'e world \<Rightarrow> byte list" where
  "queued dev w = (case devices w dev of None \<Rightarrow> [] | Some d \<Rightarrow> queue d)"

definition is_open :: "SDL_AudioDeviceID \<Rightarrow> 'e world \<Rightarrow> bool" where
  "is_open dev w = (devices w dev \<noteq> None)"

definition resumed :: "SDL_AudioDeviceID \<Rightarrow> 'e world \<Rightarrow> bool" where
  "resumed dev w = (case devices w dev of None \<Rightarrow> False | Some d \<Rightarrow> \<not> paused d)"

text \<open>\<open>(int) SDL_GetQueuedAudioSize(dev)\<close>, as lines 260 and 262 read it.\<close>

definition queued_size :: "SDL_AudioDeviceID \<Rightarrow> 'e world \<Rightarrow> int" where
  "queued_size dev w = sint (fst (SDL_GetQueuedAudioSize dev w))"

text \<open>
  The elapsed time that line 264 compares with 500: from the stored \<open>tLastNoData\<close>, or
  from this call's clock reading when the static is not initialised yet.
\<close>

definition elapsed_ms :: "int \<Rightarrow> 'e world \<Rightarrow> real" where
  "elapsed_ms tNow w = getTime_ms (case tLastNoData w of None \<Rightarrow> tNow | Some t \<Rightarrow> t) tNow"

text \<open>The events that a call added to the trace.\<close>

definition tick_events :: "'e world \<Rightarrow> 'e world \<Rightarrow> event list" where
  "tick_events w w' = drop (length (trace w)) (trace w')"

definition half_duplex :: "'e world \<Rightarrow> bool" where
  "half_duplex w = (\<not> (resumed (g_devIdOut w) w \<and> resumed (g_devIdInp w) w))"

fun is_decode :: "event \<Rightarrow> bool" where
  "is_decode (Call_decode b) = True"
| "is_decode ev = False"

fun is_dequeue :: "event \<Rightarrow> bool" where
  "is_dequeue (Call_SDL_DequeueAudio d n) = True"
| "is_dequeue ev = False"

fun is_slow_warning :: "event \<Rightarrow> bool" where
  "is_slow_warning (Warning_slow_processing n) = True"
| "is_slow_warning ev = False"

fun is_open_capture :: "event \<Rightarrow> bool" where
  "is_open_capture (Call_SDL_OpenAudioDevice name iscapture desired) = (iscapture \<noteq> 0)"
| "is_open_capture ev = False"

text \<open>
  Frame sizes with which a listening tick cannot fail: the products fit an \<open>int\<close>, 32
  input frames do too, and the static buffer, once allocated, holds an input frame.
\<close>

definition frame_sizes_ok :: "'e GGWave_class \<Rightarrow> 'e \<Rightarrow> 'e world \<Rightarrow> bool" where
  "frame_sizes_ok G e w =
     (- (2 ^ 31) \<le> samplesPerFrame G e * sampleSizeOut G e \<and>
      samplesPerFrame G e * sampleSizeOut G e < 2 ^ 31 \<and>
      0 \<le> samplesPerFrame G e * sampleSizeInp G e \<and>
      32 * (samplesPerFrame G e * sampleSizeInp G e) < 2 ^ 31 \<and>
      (case dataInp w of
         None \<Rightarrow> True
       | Some b \<Rightarrow> nat (samplesPerFrame G e * sampleSizeInp G e) \<le> length b))"

subsection \<open>An example engine, host and states\<close>

text \<open>
  A small engine to run the loop on: \<open>init\<close> queues the text as one waveform, it sends
  the waveforms of \<open>tx_pending\<close> one per \<open>encode\<close>, accepts every frame given to
  \<open>decode\<close>, and never completes a payload.
\<close>

record example_engine =
  params :: Parameters
  tx_pending :: "byte list list"
  tx_waveform :: "byte list"
  rx_frames :: "byte list list"

fun example_sample_size :: "SampleFormat \<Rightarrow> int" where
  "example_sample_size GGWAVE_SAMPLE_FORMAT_UNDEFINED = 0"
| "example_sample_size GGWAVE_SAMPLE_FORMAT_U8 = 1"
| "example_sample_size GGWAVE_SAMPLE_FORMAT_I8 = 1"
| "example_sample_size GGWAVE_SAMPLE_FORMAT_U16 = 2"
| "example_sample_size GGWAVE_SAMPLE_FORMAT_I16 = 2"
| "example_sample_size GGWAVE_SAMPLE_FORMAT_F32 = 4"

definition example_GGWave :: "example_engine GGWave_class" where
  "example_GGWave =
     \<lparr>new_GGWave = (\<lambda>p. \<lparr>params = p, tx_pending = [], tx_waveform = [], rx_frames = []\<rparr>),
      init = (\<lambda>e textLength text protocolId volume.
                e\<lparr>tx_pending := tx_pending e @ [take (nat textLength) text]\<rparr>),
      txHasData = (\<lambda>e. tx_pending e \<noteq> []),
      samplesPerFrame = (\<lambda>e. p_samplesPerFrame (params e)),
      sampleSizeInp = (\<lambda>e. example_sample_size (p_sampleFormatInp (params e))),
      sampleSizeOut = (\<lambda>e. example_sample_size (p_sampleFormatOut (params e))),
      decode = (\<lambda>e bs. (True, e\<lparr>rx_frames := rx_frames e @ [bs]\<rparr>)),
      rxTakeData = (\<lambda>e. (0, [], e)),
      encode = (\<lambda>e. case tx_pending e of
                       [] \<Rightarrow> (0, e)
                     | b # bs \<Rightarrow> (word_of_nat (length b), e\<lparr>tx_pending := bs, tx_waveform := b\<rparr>)),
      txWaveform = tx_waveform\<rparr>"

text \<open>The parameters that \<open>GGWave_init\<close> builds when both devices obtain what was asked.\<close>

definition example_params :: Parameters where
  "example_params =
     \<lparr>p_payloadLength = 16, p_sampleRateInp = 48000, p_sampleRateOut = 48000,
      p_sampleRate = 48000, p_samplesPerFrame = 512,
      p_soundMarkerThreshold = kDefaultSoundMarkerThreshold,
      p_sampleFormatInp = GGWAVE_SAMPLE_FORMAT_F32, p_sampleFormatOut = GGWAVE_SAMPLE_FORMAT_I16,
      p_operatingMode = [GGWAVE_OPERATING_MODE_RX_AND_TX, GGWAVE_OPERATING_MODE_USE_DSS]\<rparr>"

definition example_engine :: "byte list list \<Rightarrow> example_engine" where
  "example_engine pending =
     \<lparr>params = example_params, tx_pending = pending, tx_waveform = [], rx_frames = []\<rparr>"

text \<open>
  A state with the playback handle \<open>out\<close> and the capture handle \<open>inp\<close> (a handle 0 is
  a device that is not open), the pause flag and the queue of each device, an engine, and
  \<open>tLastNoData\<close>.
\<close>

definition example_devices ::
  "SDL_AudioDeviceID \<Rightarrow> SDL_device \<Rightarrow> SDL_AudioDeviceID \<Rightarrow> SDL_device
     \<Rightarrow> SDL_AudioDeviceID \<rightharpoonup> SDL_device" where
  "example_devices out out_dev inp inp_dev =
     (\<lambda>d. if d = 0 then None
          else if d = out then Some out_dev
          else if d = inp then Some inp_dev
          else None)"

definition example_world ::
  "SDL_AudioDeviceID \<Rightarrow> bool \<Rightarrow> byte list \<Rightarrow> SDL_AudioDeviceID \<Rightarrow> bool \<Rightarrow> byte list
     \<Rightarrow> example_engine \<Rightarrow> int option \<Rightarrow> example_engine world" where
  "example_world out out_paused out_queue inp inp_paused inp_queue e tLast =
     \<lparr>g_defaultCaptureDeviceName = [],
      g_devIdInp = inp, g_devIdOut = out,
      g_obtainedSpecInp = \<lparr>freq = 48000, format = AUDIO_F32SYS, channels = 1, samples = 1024\<rparr>,
      g_obtainedSpecOut = \<lparr>freq = 48000, format = AUDIO_S16SYS, channels = 1, samples = 16384\<rparr>,
      g_ggWave = Some e,
      tLastNoData = tLast,
      dataInp = None,
      devices = example_devices out \<lparr>paused = out_paused, queue = out_queue\<rparr>
                                inp \<lparr>paused = inp_paused, queue = inp_queue\<rparr>,
      trace = []\<rparr>"

text \<open>The state before the first \<open>GGWave_init\<close>.\<close>

definition boot_world :: "example_engine world" where
  "boot_world =
     \<lparr>g_defaultCaptureDeviceName = [],
      g_devIdInp = 0, g_devIdOut = 0,
      g_obtainedSpecInp = SDL_zero, g_obtainedSpecOut = SDL_zero,
      g_ggWave = None, tLastNoData = None, dataInp = None,
      devices = Map.empty, trace = []\<rparr>"

text \<open>
  Hosts with one device per direction: one grants every request as asked, one grants
  playback with 8192 samples per buffer, one fails to open playback.
\<close>

definition example_host ::
  "(SDL_AudioSpec \<Rightarrow> SDL_AudioDeviceID \<times> SDL_AudioSpec) \<Rightarrow> SDL_host" where
  "example_host playback =
     \<lparr>init_result = 0,
      num_devices = (\<lambda>iscapture. 1),
      device_name = (\<lambda>i iscapture. if i = 0 then Some ''device'' else None),
      open_device = (\<lambda>name iscapture desired. if iscapture = 0 then playback desired
                                                 else (3, desired))\<rparr>"

definition granting_host :: SDL_host where
  "granting_host = example_host (\<lambda>desired. (2, desired))"

definition halving_host :: SDL_host where
  "halving_host = example_host (\<lambda>desired. (2, desired\<lparr>samples := 8192\<rparr>))"

definition failing_host :: SDL_host where
  "failing_host = example_host (\<lambda>desired. (0, SDL_zero))"

text \<open>A host that grants playback as asked and fails to open any capture device.\<close>

definition deaf_host :: SDL_host where
  "deaf_host =
     \<lparr>init_result = 0,
      num_devices = (\<lambda>iscapture. 1),
      device_name = (\<lambda>i iscapture. if i = 0 then Some ''device'' else None),
      open_device = (\<lambda>name iscapture desired. if iscapture = 0 then (2, desired)
                                                 else (0, SDL_zero))\<rparr>"

text \<open>
  Runs of the program from the boot state, with the arguments of \<open>main\<close>:
  \<open>GGWave_init(0, captureId, payloadLength, 0, true)\<close> with capture device 0 and payload
  length 16. In the first run both devices open; after one tick either two frames of audio
  arrive or a text is given to \<open>sendData\<close>.
\<close>

definition run_init :: "example_engine world" where
  "run_init = snd (GGWave_init example_GGWave granting_host 0 0 16 0 True boot_world)"

definition run_tick :: "example_engine world" where
  "run_tick = snd (projr (GGWave_mainLoop example_GGWave 0 run_init))"

definition run_heard :: "example_engine world" where
  "run_heard = capture_audio 3 (replicate 4096 7) run_tick"

definition run_sending :: "example_engine world" where
  "run_sending = snd (projr (sendData example_GGWave 4 [1, 2, 3, 4] 1 50 run_tick))"

text \<open>In the second run playback cannot be opened, and only the capture device is open.\<close>

definition mute_init :: "example_engine world" where
  "mute_init = snd (GGWave_init example_GGWave failing_host 0 0 16 0 True boot_world)"

text \<open>
  In the third run the capture device cannot be opened at first. The loop runs with playback
  only for two ticks, 600 ms apart. Then \<open>GGWave_init\<close> is called again, as the exported
  \<open>doInit\<close> does, on a host that now grants the capture device, and two frames of audio
  arrive.
\<close>

definition retry_init :: "example_engine world" where
  "retry_init = snd (GGWave_init example_GGWave deaf_host 0 0 16 0 True boot_world)"

definition retry_tick1 :: "example_engine world" where
  "retry_tick1 = snd (projr (GGWave_mainLoop example_GGWave 0 retry_init))"

definition retry_tick2 :: "example_engine world" where
  "retry_tick2 = snd (projr (GGWave_mainLoop example_GGWave 600000 retry_tick1))"

definition retry_again :: "example_engine world" where
  "retry_again = snd (GGWave_init example_GGWave granting_host 0 0 16 0 True retry_tick2)"

definition retry_heard :: "example_engine world" where
  "retry_heard = capture_audio 3 (replicate 4096 7) retry_again"

section \<open>Properties\<close>

subsection \<open>Sample rates\<close>

lemma bits_above_24_small: "a < 2 ^ 24 \<Longrightarrow> bits_above_24 a = 0"
  by (subst bits_above_24.simps) simp

lemma bits_above_24_large: "\<not> a < 2 ^ 24 \<Longrightarrow> bits_above_24 a = Suc (bits_above_24 (a div 2))"
  by (subst bits_above_24.simps) simp

lemma float32_of_int_small: "\<bar>n\<bar> < 2 ^ 24 \<Longrightarrow> float32_of_int n = n"
proof -
  assume a: "\<bar>n\<bar> < 2 ^ 24"
  then have "nat \<bar>n\<bar> < nat (2 ^ 24)" by (simp only: nat_less_eq_zless abs_ge_zero)
  then have "nat \<bar>n\<bar> < 2 ^ 24" by simp
  then have "bits_above_24 (nat \<bar>n\<bar>) = 0" by (rule bits_above_24_small)
  then show ?thesis by (simp add: float32_of_int_def Let_def mult_sgn_abs)
qed

lemma requested_freq_0 [simp]: "requested_freq 0 = 48000"
  by (simp add: requested_freq_def kDefaultSampleRate_def float32_of_int_small)

text \<open>Above \<open>2 ^ 24\<close> the sum is rounded: an offset of 16777217 gives 16825216.\<close>

lemma requested_freq_rounds: "requested_freq 16777217 = 16825216"
  by (simp add: requested_freq_def kDefaultSampleRate_def float32_of_int_def
        bits_above_24_small bits_above_24_large Let_def)

subsection \<open>The device operations on the observations\<close>

lemma log_call_simps [simp]:
  "trace (log_call ev w) = trace w @ [ev]"
  "devices (log_call ev w) = devices w"
  "g_devIdInp (log_call ev w) = g_devIdInp w"
  "g_devIdOut (log_call ev w) = g_devIdOut w"
  "g_ggWave (log_call ev w) = g_ggWave w"
  "tLastNoData (log_call ev w) = tLastNoData w"
  "dataInp (log_call ev w) = dataInp w"
  by (simp_all add: log_call_def)

lemma Pause_simps [simp]:
  "trace (SDL_PauseAudioDevice dev p w) = trace w @ [Call_SDL_PauseAudioDevice dev p]"
  "g_devIdInp (SDL_PauseAudioDevice dev p w) = g_devIdInp w"
  "g_devIdOut (SDL_PauseAudioDevice dev p w) = g_devIdOut w"
  "g_ggWave (SDL_PauseAudioDevice dev p w) = g_ggWave w"
  "tLastNoData (SDL_PauseAudioDevice dev p w) = tLastNoData w"
  "dataInp (SDL_PauseAudioDevice dev p w) = dataInp w"
  "queued d (SDL_PauseAudioDevice dev p w) = queued d w"
  "is_open d (SDL_PauseAudioDevice dev p w) = is_open d w"
  "resumed d (SDL_PauseAudioDevice dev p w) = (if d = dev then is_open dev w \<and> p = 0 else resumed d w)"
  by (simp_all add: SDL_PauseAudioDevice_def queued_def resumed_def is_open_def split: option.split)

lemma GetQueued_simps [simp]:
  "snd (SDL_GetQueuedAudioSize dev w) = log_call (Call_SDL_GetQueuedAudioSize dev) w"
  "fst (SDL_GetQueuedAudioSize dev w) = word_of_nat (length (queued dev w))"
  by (simp_all add: SDL_GetQueuedAudioSize_def queued_def split: option.split)

lemma obs_log_call [simp]:
  "queued d (log_call ev w) = queued d w"
  "resumed d (log_call ev w) = resumed d w"
  "is_open d (log_call ev w) = is_open d w"
  by (simp_all add: queued_def resumed_def is_open_def)

lemma Clear_simps [simp]:
  "trace (SDL_ClearQueuedAudio dev w) = trace w @ [Call_SDL_ClearQueuedAudio dev]"
  "g_devIdInp (SDL_ClearQueuedAudio dev w) = g_devIdInp w"
  "g_devIdOut (SDL_ClearQueuedAudio dev w) = g_devIdOut w"
  "g_ggWave (SDL_ClearQueuedAudio dev w) = g_ggWave w"
  "tLastNoData (SDL_ClearQueuedAudio dev w) = tLastNoData w"
  "dataInp (SDL_ClearQueuedAudio dev w) = dataInp w"
  "queued d (SDL_ClearQueuedAudio dev w) = (if d = dev then [] else queued d w)"
  "is_open d (SDL_ClearQueuedAudio dev w) = is_open d w"
  "resumed d (SDL_ClearQueuedAudio dev w) = resumed d w"
  by (simp_all add: SDL_ClearQueuedAudio_def queued_def resumed_def is_open_def split: option.split)

lemma Queue_simps [simp]:
  "trace (SDL_QueueAudio dev bs w) = trace w @ [Call_SDL_QueueAudio dev bs]"
  "g_devIdInp (SDL_QueueAudio dev bs w) = g_devIdInp w"
  "g_devIdOut (SDL_QueueAudio dev bs w) = g_devIdOut w"
  "g_ggWave (SDL_QueueAudio dev bs w) = g_ggWave w"
  "tLastNoData (SDL_QueueAudio dev bs w) = tLastNoData w"
  "dataInp (SDL_QueueAudio dev bs w) = dataInp w"
  "queued d (SDL_QueueAudio dev bs w) = (if d = dev \<and> is_open dev w then queued d w @ bs else queued d w)"
  "is_open d (SDL_QueueAudio dev bs w) = is_open d w"
  "resumed d (SDL_QueueAudio dev bs w) = resumed d w"
  by (simp_all add: SDL_QueueAudio_def queued_def resumed_def is_open_def split: option.split)

lemma Dequeue_simps [simp]:
  "fst (SDL_DequeueAudio dev len w) = take (unat len) (queued dev w)"
  "trace (snd (SDL_DequeueAudio dev len w)) = trace w @ [Call_SDL_DequeueAudio dev len]"
  "g_devIdInp (snd (SDL_DequeueAudio dev len w)) = g_devIdInp w"
  "g_devIdOut (snd (SDL_DequeueAudio dev len w)) = g_devIdOut w"
  "g_ggWave (snd (SDL_DequeueAudio dev len w)) = g_ggWave w"
  "tLastNoData (snd (SDL_DequeueAudio dev len w)) = tLastNoData w"
  "dataInp (snd (SDL_DequeueAudio dev len w)) = dataInp w"
  "queued d (snd (SDL_DequeueAudio dev len w)) = (if d = dev then drop (unat len) (queued d w) else queued d w)"
  "is_open d (snd (SDL_DequeueAudio dev len w)) = is_open d w"
  "resumed d (snd (SDL_DequeueAudio dev len w)) = resumed d w"
  by (simp_all add: SDL_DequeueAudio_def queued_def resumed_def is_open_def split: option.split)

lemma upd_obs [simp]:
  "queued d (w\<lparr>tLastNoData := t\<rparr>) = queued d w"
  "resumed d (w\<lparr>tLastNoData := t\<rparr>) = resumed d w"
  "is_open d (w\<lparr>tLastNoData := t\<rparr>) = is_open d w"
  "queued d (w\<lparr>g_ggWave := g\<rparr>) = queued d w"
  "resumed d (w\<lparr>g_ggWave := g\<rparr>) = resumed d w"
  "is_open d (w\<lparr>g_ggWave := g\<rparr>) = is_open d w"
  "queued d (w\<lparr>dataInp := b\<rparr>) = queued d w"
  "resumed d (w\<lparr>dataInp := b\<rparr>) = resumed d w"
  "is_open d (w\<lparr>dataInp := b\<rparr>) = is_open d w"
  by (simp_all add: queued_def resumed_def is_open_def)

lemma resumed_imp_open: "resumed d w \<Longrightarrow> is_open d w"
  by (simp add: resumed_def is_open_def split: option.splits)

lemma queued_closed: "\<not> is_open d w \<Longrightarrow> queued d w = []"
  by (simp add: queued_def is_open_def)

lemma queued_size_eq: "queued_size dev w = sint (word_of_nat (length (queued dev w)) :: 32 word)"
  by (simp add: queued_size_def)

lemma transmit_trace:
  assumes "encode G e = (nBytes, e')"
  shows "trace (mainLoop_transmit G e w) = trace w @
           [Call_SDL_PauseAudioDevice (g_devIdOut w) SDL_TRUE,
            Call_SDL_PauseAudioDevice (g_devIdInp w) SDL_TRUE,
            Call_encode,
            Call_SDL_QueueAudio (g_devIdOut w) (take (unat nBytes) (txWaveform G e'))]"
  using assms by (simp add: mainLoop_transmit_def Let_def)

lemma transmit_paused:
  "\<not> resumed (g_devIdOut w) (mainLoop_transmit G e w)"
  "\<not> resumed (g_devIdInp w) (mainLoop_transmit G e w)"
  using resumed_imp_open [of _ w]
  by (auto simp add: mainLoop_transmit_def Let_def SDL_TRUE_def split: prod.splits)

lemma transmit_engine:
  assumes "encode G e = (nBytes, e')"
  shows "g_ggWave (mainLoop_transmit G e w) = Some e'"
  using assms by (simp add: mainLoop_transmit_def Let_def)

lemma transmit_queued:
  assumes "encode G e = (nBytes, e')"
  shows "queued (g_devIdOut w) (mainLoop_transmit G e w) =
           (if is_open (g_devIdOut w) w
            then queued (g_devIdOut w) w @ take (unat nBytes) (txWaveform G e')
            else [])"
    and "d \<noteq> g_devIdOut w \<Longrightarrow> queued d (mainLoop_transmit G e w) = queued d w"
  using assms by (simp_all add: mainLoop_transmit_def Let_def queued_closed)

text \<open>The listening branch, case by case.\<close>

lemma listen_draining:
  assumes "int_times (samplesPerFrame G e) (sampleSizeOut G e) = Inr nOut"
    and "\<not> queued_size (g_devIdOut w) w < nOut"
  shows "mainLoop_listen G e tNow w =
           Inr ((log_call (Call_SDL_GetQueuedAudioSize (g_devIdOut w))
                  (SDL_PauseAudioDevice (g_devIdOut w) SDL_FALSE w))\<lparr>tLastNoData := Some tNow\<rparr>)"
  using assms
  by (simp add: mainLoop_listen_def Let_def queued_size_eq case_prod_beta log_call_def)

lemma listen_drained:
  assumes "int_times (samplesPerFrame G e) (sampleSizeOut G e) = Inr nOut"
    and "queued_size (g_devIdOut w) w < nOut"
  shows "mainLoop_listen G e tNow w =
           mainLoop_capture G e (case tLastNoData w of None \<Rightarrow> tNow | Some t \<Rightarrow> t) tNow
             (log_call (Call_SDL_GetQueuedAudioSize (g_devIdOut w))
                ((SDL_PauseAudioDevice (g_devIdOut w) SDL_FALSE w)
                   \<lparr>tLastNoData := Some (case tLastNoData w of None \<Rightarrow> tNow | Some t \<Rightarrow> t)\<rparr>))"
  using assms
  by (simp add: mainLoop_listen_def Let_def queued_size_eq case_prod_beta)

lemma listen_overflow:
  assumes "int_times (samplesPerFrame G e) (sampleSizeOut G e) = Inl err"
  shows "mainLoop_listen G e tNow w = Inl err"
  using assms by (simp add: mainLoop_listen_def Let_def case_prod_beta)

lemma capture_idle:
  assumes "int_times (samplesPerFrame G e) (sampleSizeInp G e) = Inr nNeed"
    and "\<not> (getTime_ms tLast tNow > 500 \<and> queued_size (g_devIdInp w) w \<ge> nNeed)"
  shows "mainLoop_capture G e tLast tNow w =
           Inr (SDL_ClearQueuedAudio (g_devIdInp w)
                  (log_call (Call_SDL_GetQueuedAudioSize (g_devIdInp w))
                     (SDL_PauseAudioDevice (g_devIdInp w) SDL_FALSE w)))"
  using assms
  by (auto simp add: mainLoop_capture_def Let_def queued_size_eq case_prod_beta)

lemma capture_ready:
  assumes "int_times (samplesPerFrame G e) (sampleSizeInp G e) = Inr nNeed"
    and "getTime_ms tLast tNow > 500" and "queued_size (g_devIdInp w) w \<ge> nNeed"
  shows "mainLoop_capture G e tLast tNow w =
           mainLoop_decode G e (queued_size (g_devIdInp w) w) nNeed
             (log_call (Call_SDL_GetQueuedAudioSize (g_devIdInp w))
                (SDL_PauseAudioDevice (g_devIdInp w) SDL_FALSE w))"
  using assms
  by (simp add: mainLoop_capture_def Let_def queued_size_eq case_prod_beta)

lemma capture_overflow:
  assumes "int_times (samplesPerFrame G e) (sampleSizeInp G e) = Inl err"
  shows "mainLoop_capture G e tLast tNow w = Inl err"
  using assms by (simp add: mainLoop_capture_def Let_def case_prod_beta)

lemma report_simps [simp]:
  "g_devIdInp (mainLoop_report G e buf w) = g_devIdInp w"
  "g_devIdOut (mainLoop_report G e buf w) = g_devIdOut w"
  "tLastNoData (mainLoop_report G e buf w) = tLastNoData w"
  "dataInp (mainLoop_report G e buf w) = dataInp w"
  "queued d (mainLoop_report G e buf w) = queued d w"
  "resumed d (mainLoop_report G e buf w) = resumed d w"
  "is_open d (mainLoop_report G e buf w) = is_open d w"
  "g_ggWave (mainLoop_report G e buf w) \<noteq> None"
  by (simp_all add: mainLoop_report_def Let_def case_prod_beta)

lemma report_trace:
  "\<exists>evs. trace (mainLoop_report G e buf w) = trace w @ Call_decode buf # evs
         \<and> filter is_decode evs = [] \<and> filter is_dequeue evs = []"
  by (simp add: mainLoop_report_def Let_def case_prod_beta)

lemma guard_keeps:
  assumes "mainLoop_guard nHave nNeed w = Inr w'"
  shows "g_devIdInp w' = g_devIdInp w" and "g_devIdOut w' = g_devIdOut w"
    and "tLastNoData w' = tLastNoData w"
    and "resumed d w' = resumed d w" and "is_open d w' = is_open d w"
    and "g_ggWave w' = g_ggWave w"
  using assms
  by (auto simp add: mainLoop_guard_def Let_def case_prod_beta split: sum.splits if_splits)

lemma guard_effect:
  assumes "mainLoop_guard nHave nNeed w = Inr w'"
  shows "\<exists>evs. trace w' = trace w @ evs
           \<and> filter is_decode evs = [] \<and> filter is_dequeue evs = []
           \<and> (32 * nNeed < nHave \<longrightarrow> filter is_slow_warning evs \<noteq> [])"
    and "queued (g_devIdInp w) w' = (if 32 * nNeed < nHave then [] else queued (g_devIdInp w) w)"
  using assms
  by (auto simp add: mainLoop_guard_def Let_def case_prod_beta int_times_def
           split: sum.splits if_splits)

lemma decode_Inr:
  assumes "mainLoop_decode G e nHave nNeed w = Inr w'"
  defines "got \<equiv> take (unat (word_of_int nNeed :: 32 word)) (queued (g_devIdInp w) w)"
  defines "buf \<equiv> got @ drop (length got)
                    (case dataInp w of None \<Rightarrow> replicate (nat nNeed) 0 | Some b \<Rightarrow> b)"
  shows "mainLoop_guard nHave nNeed
           (mainLoop_report G e buf
              ((snd (SDL_DequeueAudio (g_devIdInp w) (word_of_int nNeed) w))\<lparr>dataInp := Some buf\<rparr>))
         = Inr w'"
  using assms(1) unfolding got_def buf_def
  by (simp add: mainLoop_decode_def Let_def case_prod_beta split: if_splits)

lemma decode_trace:
  assumes "mainLoop_decode G e nHave nNeed w = Inr w'"
  shows "\<exists>evs. trace w' = trace w @
            Call_SDL_DequeueAudio (g_devIdInp w) (word_of_int nNeed) #
            Call_decode (take (unat (word_of_int nNeed :: 32 word)) (queued (g_devIdInp w) w) @
                         drop (length (take (unat (word_of_int nNeed :: 32 word)) (queued (g_devIdInp w) w)))
                           (case dataInp w of None \<Rightarrow> replicate (nat nNeed) 0 | Some b \<Rightarrow> b)) # evs
            \<and> filter is_decode evs = [] \<and> filter is_dequeue evs = []
            \<and> (32 * nNeed < nHave \<longrightarrow> filter is_slow_warning evs \<noteq> [])"
proof -
  let ?buf = "take (unat (word_of_int nNeed :: 32 word)) (queued (g_devIdInp w) w) @
              drop (length (take (unat (word_of_int nNeed :: 32 word)) (queued (g_devIdInp w) w)))
                (case dataInp w of None \<Rightarrow> replicate (nat nNeed) 0 | Some b \<Rightarrow> b)"
  let ?w1 = "(snd (SDL_DequeueAudio (g_devIdInp w) (word_of_int nNeed) w))\<lparr>dataInp := Some ?buf\<rparr>"
  from report_trace [of G e ?buf ?w1] obtain evs1 where
    r: "trace (mainLoop_report G e ?buf ?w1) = trace ?w1 @ Call_decode ?buf # evs1"
       "filter is_decode evs1 = []" "filter is_dequeue evs1 = []"
    by blast
  from guard_effect(1) [OF decode_Inr [OF assms]] obtain evs2 where
    g: "trace w' = trace (mainLoop_report G e ?buf ?w1) @ evs2"
       "filter is_decode evs2 = []" "filter is_dequeue evs2 = []"
       "32 * nNeed < nHave \<longrightarrow> filter is_slow_warning evs2 \<noteq> []"
    by blast
  have "trace w' = trace w @ Call_SDL_DequeueAudio (g_devIdInp w) (word_of_int nNeed) #
                   Call_decode ?buf # (evs1 @ evs2)"
    using r(1) g(1) by simp
  moreover have "filter is_decode (evs1 @ evs2) = []" "filter is_dequeue (evs1 @ evs2) = []"
    using r g by simp_all
  moreover have "32 * nNeed < nHave \<longrightarrow> filter is_slow_warning (evs1 @ evs2) \<noteq> []"
    using g(4) by simp
  ultimately show ?thesis by blast
qed

lemma decode_queue:
  assumes "mainLoop_decode G e nHave nNeed w = Inr w'"
  shows "queued (g_devIdInp w) w' =
           (if 32 * nNeed < nHave then []
            else drop (unat (word_of_int nNeed :: 32 word)) (queued (g_devIdInp w) w))"
  using guard_effect(2) [OF decode_Inr [OF assms]] by simp

lemma decode_keeps:
  assumes "mainLoop_decode G e nHave nNeed w = Inr w'"
  shows "g_devIdInp w' = g_devIdInp w" and "g_devIdOut w' = g_devIdOut w"
    and "tLastNoData w' = tLastNoData w"
    and "resumed d w' = resumed d w" and "is_open d w' = is_open d w"
    and "g_ggWave w' \<noteq> None"
  using guard_keeps [OF decode_Inr [OF assms]] by simp_all

lemma tick_events_append [simp]: "trace w' = trace w @ evs \<Longrightarrow> tick_events w w' = evs"
  by (simp add: tick_events_def)

lemma mainLoop_inactive:
  "g_devIdInp w = 0 \<and> g_devIdOut w = 0 \<Longrightarrow> GGWave_mainLoop G tNow w = Inr (False, w)"
  by (simp add: GGWave_mainLoop_def)

lemma mainLoop_transmitting:
  assumes "g_devIdInp w \<noteq> 0 \<or> g_devIdOut w \<noteq> 0" and "g_ggWave w = Some e" and "txHasData G e"
  shows "GGWave_mainLoop G tNow w = Inr (True, mainLoop_transmit G e w)"
  using assms by (auto simp add: GGWave_mainLoop_def)

lemma mainLoop_listening:
  assumes "g_devIdInp w \<noteq> 0 \<or> g_devIdOut w \<noteq> 0" and "g_ggWave w = Some e" and "\<not> txHasData G e"
  shows "GGWave_mainLoop G tNow w =
           (case mainLoop_listen G e tNow w of Inl err \<Rightarrow> Inl err | Inr w' \<Rightarrow> Inr (True, w'))"
  using assms by (auto simp add: GGWave_mainLoop_def)

lemma int_times_Inr: "int_times a b = Inr n \<Longrightarrow> n = a * b \<and> - (2 ^ 31) \<le> n \<and> n < 2 ^ 31"
  by (auto simp add: int_times_def split: if_splits)

lemma listen_Inr_nOut:
  "mainLoop_listen G e tNow w = Inr w' \<Longrightarrow>
     int_times (samplesPerFrame G e) (sampleSizeOut G e) = Inr (samplesPerFrame G e * sampleSizeOut G e)"
  by (cases "int_times (samplesPerFrame G e) (sampleSizeOut G e)")
     (auto simp add: listen_overflow dest: int_times_Inr)

lemma capture_Inr_nNeed:
  "mainLoop_capture G e tLast tNow w = Inr w' \<Longrightarrow>
     int_times (samplesPerFrame G e) (sampleSizeInp G e) = Inr (samplesPerFrame G e * sampleSizeInp G e)"
  by (cases "int_times (samplesPerFrame G e) (sampleSizeInp G e)")
     (auto simp add: capture_overflow dest: int_times_Inr)

text \<open>What a listening tick that returns has done, in each of its three cases.\<close>

lemma listening_cases:
  assumes run: "mainLoop_listen G e tNow w = Inr w'"
  defines "nOut \<equiv> samplesPerFrame G e * sampleSizeOut G e"
    and "nNeed \<equiv> samplesPerFrame G e * sampleSizeInp G e"
    and "w3 \<equiv> log_call (Call_SDL_GetQueuedAudioSize (g_devIdOut w))
                ((SDL_PauseAudioDevice (g_devIdOut w) SDL_FALSE w)
                   \<lparr>tLastNoData := Some (case tLastNoData w of None \<Rightarrow> tNow | Some t \<Rightarrow> t)\<rparr>)"
  defines "w5 \<equiv> log_call (Call_SDL_GetQueuedAudioSize (g_devIdInp w))
                (SDL_PauseAudioDevice (g_devIdInp w) SDL_FALSE w3)"
  shows "(\<not> queued_size (g_devIdOut w) w < nOut \<and>
            w' = (log_call (Call_SDL_GetQueuedAudioSize (g_devIdOut w))
                   (SDL_PauseAudioDevice (g_devIdOut w) SDL_FALSE w))\<lparr>tLastNoData := Some tNow\<rparr>)
       \<or> (queued_size (g_devIdOut w) w < nOut \<and>
            \<not> (elapsed_ms tNow w > 500 \<and> queued_size (g_devIdInp w) w \<ge> nNeed) \<and>
            w' = SDL_ClearQueuedAudio (g_devIdInp w) w5)
       \<or> (queued_size (g_devIdOut w) w < nOut \<and>
            elapsed_ms tNow w > 500 \<and> queued_size (g_devIdInp w) w \<ge> nNeed \<and>
            mainLoop_decode G e (queued_size (g_devIdInp w) w) nNeed w5 = Inr w')"
proof -
  have nOut: "int_times (samplesPerFrame G e) (sampleSizeOut G e) = Inr nOut"
    unfolding nOut_def using run by (rule listen_Inr_nOut)
  show ?thesis
  proof (cases "queued_size (g_devIdOut w) w < nOut")
    case False
    with run nOut show ?thesis by (simp add: listen_draining)
  next
    case True
    let ?tLast = "case tLastNoData w of None \<Rightarrow> tNow | Some t \<Rightarrow> t"
    from run nOut True have cap: "mainLoop_capture G e ?tLast tNow w3 = Inr w'"
      by (simp add: listen_drained w3_def)
    then have nNeed: "int_times (samplesPerFrame G e) (sampleSizeInp G e) = Inr nNeed"
      unfolding nNeed_def by (rule capture_Inr_nNeed)
    have inp3: "g_devIdInp w3 = g_devIdInp w" by (simp add: w3_def)
    have q3: "queued_size (g_devIdInp w) w3 = queued_size (g_devIdInp w) w"
      by (simp add: w3_def queued_size_eq)
    have el: "getTime_ms ?tLast tNow = elapsed_ms tNow w" by (simp add: elapsed_ms_def)
    show ?thesis
    proof (cases "elapsed_ms tNow w > 500 \<and> queued_size (g_devIdInp w) w \<ge> nNeed")
      case False
      with cap nNeed True show ?thesis
        using capture_idle [of G e nNeed ?tLast tNow w3]
        by (simp add: inp3 q3 el w5_def del: not_less not_le)
    next
      case True
      with cap nNeed \<open>queued_size (g_devIdOut w) w < nOut\<close> show ?thesis
        using capture_ready [of G e nNeed ?tLast tNow w3]
        by (simp add: inp3 q3 el w5_def)
    qed
  qed
qed

lemma unat_word_of_int_32:
  assumes "0 \<le> n" and "n < 2 ^ 31"
  shows "unat (word_of_int n :: 32 word) = nat n"
proof -
  have "uint (word_of_int n :: 32 word) = n"
    using assms by (simp add: uint_word_of_int take_bit_int_eq_self)
  then show ?thesis by (simp add: unat_eq_nat_uint)
qed

lemma decode_returns:
  assumes "0 \<le> nNeed" and "32 * nNeed < 2 ^ 31"
    and "case dataInp w of None \<Rightarrow> True | Some b \<Rightarrow> nat nNeed \<le> length b"
  shows "\<exists>w'. mainLoop_decode G e nHave nNeed w = Inr w'"
proof -
  have len: "unat (word_of_int nNeed :: 32 word) = nat nNeed"
    using assms by (intro unat_word_of_int_32) auto
  have n32: "int_times 32 nNeed = Inr (32 * nNeed)"
    using assms by (simp add: int_times_def)
  have guard: "\<exists>w'. mainLoop_guard nHave nNeed v = Inr w'" for v :: "'a world"
    using n32 by (simp add: mainLoop_guard_def Let_def case_prod_beta)
  show ?thesis
    using assms len guard
    by (auto simp add: mainLoop_decode_def Let_def case_prod_beta split: option.splits)
qed

lemma listen_returns:
  assumes "frame_sizes_ok G e w"
  shows "\<exists>w'. mainLoop_listen G e tNow w = Inr w'"
proof -
  let ?nOut = "samplesPerFrame G e * sampleSizeOut G e"
  let ?nNeed = "samplesPerFrame G e * sampleSizeInp G e"
  let ?tLast = "case tLastNoData w of None \<Rightarrow> tNow | Some t \<Rightarrow> t"
  let ?w3 = "log_call (Call_SDL_GetQueuedAudioSize (g_devIdOut w))
               ((SDL_PauseAudioDevice (g_devIdOut w) SDL_FALSE w)\<lparr>tLastNoData := Some ?tLast\<rparr>)"
  let ?w5 = "log_call (Call_SDL_GetQueuedAudioSize (g_devIdInp ?w3))
               (SDL_PauseAudioDevice (g_devIdInp ?w3) SDL_FALSE ?w3)"
  from assms have o1: "- (2 ^ 31) \<le> ?nOut" and o2: "?nOut < 2 ^ 31"
    and b1: "0 \<le> ?nNeed" and b2: "32 * ?nNeed < 2 ^ 31"
    and b3: "case dataInp w of None \<Rightarrow> True | Some b \<Rightarrow> nat ?nNeed \<le> length b"
    unfolding frame_sizes_ok_def by blast+
  from b1 b2 have b4: "?nNeed < 2 ^ 31" by linarith
  have nOut: "int_times (samplesPerFrame G e) (sampleSizeOut G e) = Inr ?nOut"
    using o1 o2 unfolding int_times_def by simp
  have nNeed: "int_times (samplesPerFrame G e) (sampleSizeInp G e) = Inr ?nNeed"
    using b1 b4 unfolding int_times_def by simp
  show ?thesis
  proof (cases "queued_size (g_devIdOut w) w < ?nOut")
    case False
    with nOut show ?thesis by (simp add: listen_draining)
  next
    case True
    then have step: "mainLoop_listen G e tNow w = mainLoop_capture G e ?tLast tNow ?w3"
      using nOut by (simp add: listen_drained)
    show ?thesis
    proof (cases "getTime_ms ?tLast tNow > 500 \<and> queued_size (g_devIdInp ?w3) ?w3 \<ge> ?nNeed")
      case False
      then show ?thesis
        unfolding step using capture_idle [OF nNeed, of ?tLast tNow ?w3] by simp
    next
      case True
      have "\<exists>w'. mainLoop_decode G e (queued_size (g_devIdInp ?w3) ?w3) ?nNeed ?w5 = Inr w'"
        using b1 b2 b3 by (intro decode_returns) simp_all
      then show ?thesis
        unfolding step using capture_ready [OF nNeed, of ?tLast tNow ?w3] True by simp
    qed
  qed
qed

text \<open>The trace and the devices after a listening tick, in each of its three cases.\<close>

lemma listening_effects:
  assumes run: "mainLoop_listen G e tNow w = Inr w'"
  defines "out \<equiv> g_devIdOut w" and "inp \<equiv> g_devIdInp w"
    and "nOut \<equiv> samplesPerFrame G e * sampleSizeOut G e"
    and "nNeed \<equiv> samplesPerFrame G e * sampleSizeInp G e"
  shows "g_devIdInp w' = inp" and "g_devIdOut w' = out"
    and "resumed out w' = is_open out w"
    and "\<not> queued_size out w < nOut \<Longrightarrow>
           trace w' = trace w @ [Call_SDL_PauseAudioDevice out SDL_FALSE, Call_SDL_GetQueuedAudioSize out]
           \<and> tLastNoData w' = Some tNow \<and> (inp \<noteq> out \<longrightarrow> resumed inp w' = resumed inp w)
           \<and> queued inp w' = queued inp w"
    and "queued_size out w < nOut \<Longrightarrow> resumed inp w' = is_open inp w"
    and "queued_size out w < nOut \<Longrightarrow>
           \<not> (elapsed_ms tNow w > 500 \<and> queued_size inp w \<ge> nNeed) \<Longrightarrow>
           trace w' = trace w @ [Call_SDL_PauseAudioDevice out SDL_FALSE, Call_SDL_GetQueuedAudioSize out,
                                 Call_SDL_PauseAudioDevice inp SDL_FALSE, Call_SDL_GetQueuedAudioSize inp,
                                 Call_SDL_ClearQueuedAudio inp]
           \<and> queued inp w' = []"
    and "queued_size out w < nOut \<Longrightarrow>
           elapsed_ms tNow w > 500 \<and> queued_size inp w \<ge> nNeed \<Longrightarrow>
           (\<exists>evs. trace w' = trace w @
                [Call_SDL_PauseAudioDevice out SDL_FALSE, Call_SDL_GetQueuedAudioSize out,
                 Call_SDL_PauseAudioDevice inp SDL_FALSE, Call_SDL_GetQueuedAudioSize inp,
                 Call_SDL_DequeueAudio inp (word_of_int nNeed),
                 Call_decode (take (unat (word_of_int nNeed :: 32 word)) (queued inp w) @
                              drop (length (take (unat (word_of_int nNeed :: 32 word)) (queued inp w)))
                                (case dataInp w of None \<Rightarrow> replicate (nat nNeed) 0 | Some b \<Rightarrow> b))] @ evs
              \<and> filter is_decode evs = [] \<and> filter is_dequeue evs = []
              \<and> (32 * nNeed < queued_size inp w \<longrightarrow> filter is_slow_warning evs \<noteq> []))
           \<and> queued inp w' = (if 32 * nNeed < queued_size inp w then []
                                else drop (unat (word_of_int nNeed :: 32 word)) (queued inp w))"
proof -
  let ?w1 = "SDL_PauseAudioDevice (g_devIdOut w) SDL_FALSE w"
  let ?w3 = "log_call (Call_SDL_GetQueuedAudioSize (g_devIdOut w))
                (?w1\<lparr>tLastNoData := Some (case tLastNoData w of None \<Rightarrow> tNow | Some t \<Rightarrow> t)\<rparr>)"
  let ?w5 = "log_call (Call_SDL_GetQueuedAudioSize (g_devIdInp w))
                (SDL_PauseAudioDevice (g_devIdInp w) SDL_FALSE ?w3)"
  note cases = listening_cases [OF run, folded nOut_def nNeed_def]
  have draining: "w' = (log_call (Call_SDL_GetQueuedAudioSize (g_devIdOut w)) ?w1)\<lparr>tLastNoData := Some tNow\<rparr>"
    if "\<not> queued_size out w < nOut"
    using cases that unfolding out_def by blast
  have idle: "w' = SDL_ClearQueuedAudio (g_devIdInp w) ?w5"
    if "queued_size out w < nOut" "\<not> (elapsed_ms tNow w > 500 \<and> queued_size inp w \<ge> nNeed)"
    using cases that unfolding out_def inp_def by blast
  have ready: "mainLoop_decode G e (queued_size (g_devIdInp w) w) nNeed ?w5 = Inr w'"
    if "queued_size out w < nOut" "elapsed_ms tNow w > 500 \<and> queued_size inp w \<ge> nNeed"
    using cases that unfolding out_def inp_def by blast
  have w5: "g_devIdInp ?w5 = g_devIdInp w" "g_devIdOut ?w5 = g_devIdOut w" "dataInp ?w5 = dataInp w"
    "queued d ?w5 = queued d w"
    "trace ?w5 = trace w @ [Call_SDL_PauseAudioDevice (g_devIdOut w) SDL_FALSE,
                            Call_SDL_GetQueuedAudioSize (g_devIdOut w),
                            Call_SDL_PauseAudioDevice (g_devIdInp w) SDL_FALSE,
                            Call_SDL_GetQueuedAudioSize (g_devIdInp w)]" for d
    by simp_all
  consider (a) "\<not> queued_size out w < nOut"
    | (b) "queued_size out w < nOut" "\<not> (elapsed_ms tNow w > 500 \<and> queued_size inp w \<ge> nNeed)"
    | (c) "queued_size out w < nOut" "elapsed_ms tNow w > 500 \<and> queued_size inp w \<ge> nNeed"
    by blast
  then have ids: "g_devIdInp w' = inp \<and> g_devIdOut w' = out \<and> resumed out w' = is_open out w
                  \<and> (queued_size out w < nOut \<longrightarrow> resumed inp w' = is_open inp w)"
  proof cases
    case a
    show ?thesis unfolding draining [OF a] using a by (simp add: out_def inp_def SDL_FALSE_def)
  next
    case b
    show ?thesis unfolding idle [OF b] by (simp add: out_def inp_def SDL_FALSE_def)
  next
    case c
    from decode_keeps [OF ready [OF c]] show ?thesis by (simp add: out_def inp_def SDL_FALSE_def)
  qed
  from ids show "g_devIdInp w' = inp" by blast
  from ids show "g_devIdOut w' = out" by blast
  from ids show "resumed out w' = is_open out w" by blast
  from ids show "queued_size out w < nOut \<Longrightarrow> resumed inp w' = is_open inp w" by blast
  show "\<not> queued_size out w < nOut \<Longrightarrow>
           trace w' = trace w @ [Call_SDL_PauseAudioDevice out SDL_FALSE, Call_SDL_GetQueuedAudioSize out]
           \<and> tLastNoData w' = Some tNow \<and> (inp \<noteq> out \<longrightarrow> resumed inp w' = resumed inp w)
           \<and> queued inp w' = queued inp w"
  proof -
    assume a: "\<not> queued_size out w < nOut"
    show ?thesis unfolding draining [OF a] by (simp add: out_def inp_def)
  qed
  show "queued_size out w < nOut \<Longrightarrow>
           \<not> (elapsed_ms tNow w > 500 \<and> queued_size inp w \<ge> nNeed) \<Longrightarrow>
           trace w' = trace w @ [Call_SDL_PauseAudioDevice out SDL_FALSE, Call_SDL_GetQueuedAudioSize out,
                                 Call_SDL_PauseAudioDevice inp SDL_FALSE, Call_SDL_GetQueuedAudioSize inp,
                                 Call_SDL_ClearQueuedAudio inp]
           \<and> queued inp w' = []"
  proof -
    assume b: "queued_size out w < nOut" "\<not> (elapsed_ms tNow w > 500 \<and> queued_size inp w \<ge> nNeed)"
    show ?thesis unfolding idle [OF b] by (simp add: w5 out_def inp_def)
  qed
  show "queued_size out w < nOut \<Longrightarrow>
           elapsed_ms tNow w > 500 \<and> queued_size inp w \<ge> nNeed \<Longrightarrow>
           (\<exists>evs. trace w' = trace w @
                [Call_SDL_PauseAudioDevice out SDL_FALSE, Call_SDL_GetQueuedAudioSize out,
                 Call_SDL_PauseAudioDevice inp SDL_FALSE, Call_SDL_GetQueuedAudioSize inp,
                 Call_SDL_DequeueAudio inp (word_of_int nNeed),
                 Call_decode (take (unat (word_of_int nNeed :: 32 word)) (queued inp w) @
                              drop (length (take (unat (word_of_int nNeed :: 32 word)) (queued inp w)))
                                (case dataInp w of None \<Rightarrow> replicate (nat nNeed) 0 | Some b \<Rightarrow> b))] @ evs
              \<and> filter is_decode evs = [] \<and> filter is_dequeue evs = []
              \<and> (32 * nNeed < queued_size inp w \<longrightarrow> filter is_slow_warning evs \<noteq> []))
           \<and> queued inp w' = (if 32 * nNeed < queued_size inp w then []
                                else drop (unat (word_of_int nNeed :: 32 word)) (queued inp w))"
  proof -
    assume c: "queued_size out w < nOut" "elapsed_ms tNow w > 500 \<and> queued_size inp w \<ge> nNeed"
    note dec = ready [OF c]
    show ?thesis
      using decode_trace [OF dec] decode_queue [OF dec]
      unfolding w5 by (simp add: inp_def [symmetric] out_def [symmetric])
  qed
qed

lemma mainLoop_listening_Inr:
  assumes "GGWave_mainLoop G tNow w = Inr (r, w')"
    and "g_devIdInp w \<noteq> 0 \<or> g_devIdOut w \<noteq> 0" and "g_ggWave w = Some e" and "\<not> txHasData G e"
  shows "r = True \<and> mainLoop_listen G e tNow w = Inr w'"
  using assms by (auto simp add: GGWave_mainLoop_def split: sum.splits)

lemma mainLoop_Inr_engine:
  assumes "GGWave_mainLoop G tNow w = Inr (r, w')"
    and "g_devIdInp w \<noteq> 0 \<or> g_devIdOut w \<noteq> 0"
  shows "\<exists>e. g_ggWave w = Some e"
  using assms by (auto simp add: GGWave_mainLoop_def split: option.splits)

lemma sint_word_of_nat_le: "sint (word_of_nat n :: 32 word) \<le> int n"
proof -
  have "sint (word_of_nat n :: 32 word) = (int n + 2 ^ 31) mod 2 ^ 32 - 2 ^ 31"
    using int_word_sint [where 'a = 32, of "int n"] by simp
  moreover have "(int n + 2 ^ 31) mod 2 ^ 32 \<le> int n + 2 ^ 31"
    by (rule zmod_le_nonneg_dividend) simp
  ultimately show ?thesis by simp
qed

lemma sint_word_of_nat_small: "n < 2 ^ 31 \<Longrightarrow> sint (word_of_nat n :: 32 word) = int n"
proof -
  assume "n < 2 ^ 31"
  then have "int n < 2 ^ 31" by (metis of_nat_less_iff of_nat_numeral of_nat_power)
  then have "signed_take_bit 31 (int n) = int n"
    by (intro signed_take_bit_int_eq_self) simp_all
  moreover have "sint (word_of_nat n :: 32 word) = signed_take_bit 31 (int n)"
    using sint_sbintrunc' [where 'a = 32, of "int n"] by simp
  ultimately show ?thesis by simp
qed

lemma queued_size_le: "queued_size dev w \<le> int (length (queued dev w))"
  unfolding queued_size_eq by (rule sint_word_of_nat_le)

lemma queued_size_small:
  "length (queued dev w) < 2 ^ 31 \<Longrightarrow> queued_size dev w = int (length (queued dev w))"
  unfolding queued_size_eq by (rule sint_word_of_nat_small)

lemma mainLoop_returns:
  assumes "g_devIdInp w \<noteq> 0 \<or> g_devIdOut w \<noteq> 0" and "g_ggWave w = Some e"
    and "frame_sizes_ok G e w"
  shows "\<exists>w'. GGWave_mainLoop G tNow w = Inr (True, w')"
proof (cases "txHasData G e")
  case True
  from mainLoop_transmitting [OF assms(1,2) True, of tNow] show ?thesis by simp
next
  case False
  from listen_returns [OF assms(3), of tNow] obtain w' where "mainLoop_listen G e tNow w = Inr w'"
    by blast
  with mainLoop_listening [OF assms(1,2) False, of tNow] show ?thesis by simp
qed

lemma mainLoop_keeps_handles:
  assumes "GGWave_mainLoop G tNow w = Inr (r, w')"
  shows "g_devIdInp w' = g_devIdInp w \<and> g_devIdOut w' = g_devIdOut w"
proof (cases "g_devIdInp w = 0 \<and> g_devIdOut w = 0")
  case True
  with assms show ?thesis by (simp add: mainLoop_inactive)
next
  case False
  then have dev: "g_devIdInp w \<noteq> 0 \<or> g_devIdOut w \<noteq> 0" by simp
  from mainLoop_Inr_engine [OF assms dev] obtain e where e: "g_ggWave w = Some e" ..
  show ?thesis
  proof (cases "txHasData G e")
    case True
    from assms mainLoop_transmitting [OF dev e True, of tNow] have "w' = mainLoop_transmit G e w"
      by simp
    then show ?thesis by (simp add: mainLoop_transmit_def Let_def case_prod_beta)
  next
    case False
    from mainLoop_listening_Inr [OF assms dev e False] listening_effects(1,2) [of G e tNow w w']
    show ?thesis by simp
  qed
qed

subsection \<open>The example engine and states\<close>

lemma example_engine_simps [simp]:
  "samplesPerFrame example_GGWave (example_engine p) = 512"
  "sampleSizeInp example_GGWave (example_engine p) = 4"
  "sampleSizeOut example_GGWave (example_engine p) = 2"
  "txHasData example_GGWave (example_engine p) = (p \<noteq> [])"
  by (simp_all add: example_GGWave_def example_engine_def example_params_def)

lemma example_world_simps [simp]:
  "g_devIdInp (example_world out op oq inp ip iq e t0) = inp"
  "g_devIdOut (example_world out op oq inp ip iq e t0) = out"
  "g_ggWave (example_world out op oq inp ip iq e t0) = Some e"
  "tLastNoData (example_world out op oq inp ip iq e t0) = t0"
  "dataInp (example_world out op oq inp ip iq e t0) = None"
  "trace (example_world out op oq inp ip iq e t0) = []"
  by (simp_all add: example_world_def)

lemma example_world_devices [simp]:
  "queued d (example_world out op oq inp ip iq e t0) =
     (if d = 0 then [] else if d = out then oq else if d = inp then iq else [])"
  "is_open d (example_world out op oq inp ip iq e t0) = (d \<noteq> 0 \<and> (d = out \<or> d = inp))"
  "resumed d (example_world out op oq inp ip iq e t0) =
     (d \<noteq> 0 \<and> (if d = out then \<not> op else d = inp \<and> \<not> ip))"
  by (simp_all add: example_world_def example_devices_def queued_def is_open_def resumed_def)

lemma example_frame_sizes_ok [simp]:
  "frame_sizes_ok example_GGWave (example_engine p) (example_world out op oq inp ip iq e t0)"
  by (simp add: frame_sizes_ok_def)

lemma example_tick_returns:
  assumes "inp \<noteq> 0 \<or> out \<noteq> 0"
  shows "\<exists>w'. GGWave_mainLoop example_GGWave tNow
                (example_world out op oq inp ip iq (example_engine p) t0) = Inr (True, w')"
  using assms by (intro mainLoop_returns [where e = "example_engine p"]) simp_all

subsection \<open>Claims about GGWave_mainLoop\<close>

text \<open>
  C2, as amended. In a tick with outbound data pending, the tick pauses the playback device
  and pauses the capture device, asks the engine for one waveform, and enqueues that one
  buffer on the playback device; these four calls are all it does.
\<close>

theorem transmit_tick_pauses_both_and_queues_one:
  assumes "g_devIdInp w \<noteq> 0 \<or> g_devIdOut w \<noteq> 0" and "g_ggWave w = Some e"
    and "txHasData G e" and "encode G e = (nBytes, e')"
  shows "\<exists>w'. GGWave_mainLoop G tNow w = Inr (True, w') \<and>
           \<not> resumed (g_devIdOut w) w' \<and> \<not> resumed (g_devIdInp w) w' \<and>
           g_ggWave w' = Some e' \<and>
           tick_events w w' =
             [Call_SDL_PauseAudioDevice (g_devIdOut w) SDL_TRUE,
              Call_SDL_PauseAudioDevice (g_devIdInp w) SDL_TRUE,
              Call_encode,
              Call_SDL_QueueAudio (g_devIdOut w) (take (unat nBytes) (txWaveform G e'))] \<and>
           queued (g_devIdOut w) w' =
             (if is_open (g_devIdOut w) w
              then queued (g_devIdOut w) w @ take (unat nBytes) (txWaveform G e') else [])"
  using mainLoop_transmitting [OF assms(1-3), of tNow]
    transmit_trace [OF assms(4), of w] transmit_paused [of w G e]
    transmit_engine [OF assms(4), of w] transmit_queued(1) [OF assms(4), of w]
  by simp

theorem transmit_tick_pauses_both_and_queues_one_witness:
  "g_devIdInp (example_world 2 False [] 3 False [] (example_engine [[1, 2, 3, 4]]) (Some 0)) = 3 \<and>
   g_ggWave (example_world 2 False [] 3 False [] (example_engine [[1, 2, 3, 4]]) (Some 0))
     = Some (example_engine [[1, 2, 3, 4]]) \<and>
   txHasData example_GGWave (example_engine [[1, 2, 3, 4]]) \<and>
   encode example_GGWave (example_engine [[1, 2, 3, 4]])
     = (4, (example_engine [])\<lparr>tx_waveform := [1, 2, 3, 4]\<rparr>) \<and>
   (\<exists>w'. GGWave_mainLoop example_GGWave 0
            (example_world 2 False [] 3 False [] (example_engine [[1, 2, 3, 4]]) (Some 0))
          = Inr (True, w') \<and>
      \<not> resumed 2 w' \<and> \<not> resumed 3 w' \<and>
      tick_events (example_world 2 False [] 3 False [] (example_engine [[1, 2, 3, 4]]) (Some 0)) w' =
        [Call_SDL_PauseAudioDevice 2 SDL_TRUE, Call_SDL_PauseAudioDevice 3 SDL_TRUE, Call_encode,
         Call_SDL_QueueAudio 2 [1, 2, 3, 4]] \<and>
      queued 2 w' = [1, 2, 3, 4])"
proof -
  let ?e = "example_engine [[1, 2, 3, 4]]"
  let ?w = "example_world 2 False [] 3 False [] ?e (Some 0)"
  have enc: "encode example_GGWave ?e = (4, (example_engine [])\<lparr>tx_waveform := [1, 2, 3, 4]\<rparr>)"
    by (simp add: example_GGWave_def example_engine_def)
  have wf: "txWaveform example_GGWave ((example_engine [])\<lparr>tx_waveform := [1, 2, 3, 4]\<rparr>) = [1, 2, 3, 4]"
    by (simp add: example_GGWave_def)
  have dev: "g_devIdInp ?w \<noteq> 0 \<or> g_devIdOut ?w \<noteq> 0" by simp
  have e: "g_ggWave ?w = Some ?e" by simp
  have tx: "txHasData example_GGWave ?e" by simp
  from transmit_tick_pauses_both_and_queues_one [OF dev e tx enc, of 0]
  show ?thesis using enc by (auto simp add: wf)
qed

text \<open>
  C2 as stated fails: with outbound data pending the tick leaves the playback device paused,
  not resumed, also when it was running before.
\<close>

theorem transmit_tick_resumes_playback_counterexample:
  "txHasData example_GGWave (example_engine [[1, 2, 3, 4]]) \<and>
   resumed 2 (example_world 2 False [] 3 False [] (example_engine [[1, 2, 3, 4]]) (Some 0)) \<and>
   GGWave_mainLoop example_GGWave 0
       (example_world 2 False [] 3 False [] (example_engine [[1, 2, 3, 4]]) (Some 0))
     = Inr (True, mainLoop_transmit example_GGWave (example_engine [[1, 2, 3, 4]])
                    (example_world 2 False [] 3 False [] (example_engine [[1, 2, 3, 4]]) (Some 0))) \<and>
   \<not> resumed 2 (mainLoop_transmit example_GGWave (example_engine [[1, 2, 3, 4]])
                    (example_world 2 False [] 3 False [] (example_engine [[1, 2, 3, 4]]) (Some 0)))"
proof -
  let ?e = "example_engine [[1, 2, 3, 4]]"
  let ?w = "example_world 2 False [] 3 False [] ?e (Some 0)"
  have "GGWave_mainLoop example_GGWave 0 ?w = Inr (True, mainLoop_transmit example_GGWave ?e ?w)"
    by (rule mainLoop_transmitting) simp_all
  moreover have "\<not> resumed 2 (mainLoop_transmit example_GGWave ?e ?w)"
    using transmit_paused(1) [of ?w example_GGWave ?e] by simp
  ultimately show ?thesis by simp
qed

lemma tick_events_same [simp]: "tick_events w w = []"
  by (simp add: tick_events_def)

lemma listening_drained_range:
  assumes "mainLoop_listen G e tNow w = Inr w'"
    and "queued_size (g_devIdOut w) w < samplesPerFrame G e * sampleSizeOut G e"
  shows "- (2 ^ 31) \<le> samplesPerFrame G e * sampleSizeInp G e \<and>
         samplesPerFrame G e * sampleSizeInp G e < 2 ^ 31"
proof -
  from listen_Inr_nOut [OF assms(1)] assms
  have "\<exists>t v. mainLoop_capture G e t tNow v = Inr w'"
    by (auto simp add: listen_drained)
  then obtain t v where "mainLoop_capture G e t tNow v = Inr w'" by blast
  from int_times_Inr [OF capture_Inr_nNeed [OF this]] show ?thesis by simp
qed

text \<open>A tick whose events include a call of \<open>decode\<close> went through every gate before it.\<close>

lemma decode_only_when:
  assumes run: "GGWave_mainLoop G tNow w = Inr (r, w')" and e: "g_ggWave w = Some e"
    and dec: "filter is_decode (tick_events w w') \<noteq> []"
  shows "(g_devIdInp w \<noteq> 0 \<or> g_devIdOut w \<noteq> 0) \<and> \<not> txHasData G e \<and>
         queued_size (g_devIdOut w) w < samplesPerFrame G e * sampleSizeOut G e \<and>
         elapsed_ms tNow w > 500 \<and>
         samplesPerFrame G e * sampleSizeInp G e \<le> queued_size (g_devIdInp w) w"
proof -
  have dev: "g_devIdInp w \<noteq> 0 \<or> g_devIdOut w \<noteq> 0"
  proof (rule ccontr)
    assume "\<not> ?thesis"
    then have "g_devIdInp w = 0 \<and> g_devIdOut w = 0" by simp
    from run mainLoop_inactive [OF this, of G tNow] have "w' = w" by simp
    with dec show False by simp
  qed
  have tx: "\<not> txHasData G e"
  proof
    assume tx: "txHasData G e"
    obtain nBytes e' where enc: "encode G e = (nBytes, e')" by (cases "encode G e")
    from run mainLoop_transmitting [OF dev e tx, of tNow] have "w' = mainLoop_transmit G e w"
      by simp
    with transmit_trace [OF enc, of w] dec show False by simp
  qed
  from mainLoop_listening_Inr [OF run dev e tx]
  have lis: "mainLoop_listen G e tNow w = Inr w'" by simp
  note eff = listening_effects [OF lis]
  have drained: "queued_size (g_devIdOut w) w < samplesPerFrame G e * sampleSizeOut G e"
  proof (rule ccontr)
    assume "\<not> ?thesis"
    from eff(4) [OF this] dec show False by simp
  qed
  have ready: "elapsed_ms tNow w > 500 \<and>
               samplesPerFrame G e * sampleSizeInp G e \<le> queued_size (g_devIdInp w) w"
  proof (rule ccontr)
    assume "\<not> ?thesis"
    from eff(6) [OF drained this] dec show False by simp
  qed
  from dev tx drained ready show ?thesis by blast
qed

text \<open>
  C9. In a listening tick that reaches the capture logic, when the debounce window has not
  elapsed or the capture queue holds less than one input frame, the tick clears the capture
  queue: it is empty after the tick, and nothing was dequeued or decoded.
\<close>

theorem idle_tick_clears_capture_queue:
  assumes "GGWave_mainLoop G tNow w = Inr (r, w')"
    and "g_devIdInp w \<noteq> 0 \<or> g_devIdOut w \<noteq> 0" and "g_ggWave w = Some e"
    and "\<not> txHasData G e"
    and "queued_size (g_devIdOut w) w < samplesPerFrame G e * sampleSizeOut G e"
    and "\<not> elapsed_ms tNow w > 500 \<or>
         queued_size (g_devIdInp w) w < samplesPerFrame G e * sampleSizeInp G e"
  shows "queued (g_devIdInp w) w' = [] \<and>
         tick_events w w' =
           [Call_SDL_PauseAudioDevice (g_devIdOut w) SDL_FALSE,
            Call_SDL_GetQueuedAudioSize (g_devIdOut w),
            Call_SDL_PauseAudioDevice (g_devIdInp w) SDL_FALSE,
            Call_SDL_GetQueuedAudioSize (g_devIdInp w),
            Call_SDL_ClearQueuedAudio (g_devIdInp w)]"
proof -
  from mainLoop_listening_Inr [OF assms(1-4)]
  have lis: "mainLoop_listen G e tNow w = Inr w'" by simp
  from assms(6) have "\<not> (elapsed_ms tNow w > 500 \<and>
      samplesPerFrame G e * sampleSizeInp G e \<le> queued_size (g_devIdInp w) w)"
    by auto
  from listening_effects(6) [OF lis assms(5) this] show ?thesis by simp
qed

theorem idle_tick_clears_capture_queue_witness:
  "g_devIdInp (example_world 2 True [] 3 True (replicate 100 7) (example_engine []) (Some 0)) = 3 \<and>
   g_ggWave (example_world 2 True [] 3 True (replicate 100 7) (example_engine []) (Some 0))
     = Some (example_engine []) \<and>
   \<not> txHasData example_GGWave (example_engine []) \<and>
   queued_size 2 (example_world 2 True [] 3 True (replicate 100 7) (example_engine []) (Some 0)) < 512 * 2 \<and>
   queued_size 3 (example_world 2 True [] 3 True (replicate 100 7) (example_engine []) (Some 0)) < 512 * 4 \<and>
   (\<exists>w'. GGWave_mainLoop example_GGWave 600000
            (example_world 2 True [] 3 True (replicate 100 7) (example_engine []) (Some 0))
          = Inr (True, w') \<and>
      queued 3 w' = [])"
proof -
  let ?e = "example_engine []"
  let ?w = "example_world 2 True [] 3 True (replicate 100 7) ?e (Some 0)"
  have dev: "g_devIdInp ?w \<noteq> 0 \<or> g_devIdOut ?w \<noteq> 0" by simp
  have e: "g_ggWave ?w = Some ?e" by simp
  have tx: "\<not> txHasData example_GGWave ?e" by simp
  have q2: "queued_size 2 ?w < 512 * 2" by (simp add: queued_size_eq)
  have q3: "queued_size 3 ?w < 512 * 4" by (simp add: queued_size_eq)
  from example_tick_returns [of 3 2 600000 True "[]" True "replicate 100 7" "[]" "Some 0"]
  obtain w' where run: "GGWave_mainLoop example_GGWave 600000 ?w = Inr (True, w')" by auto
  from idle_tick_clears_capture_queue [OF run dev e tx] q2 q3
  have "queued 3 w' = []" by simp
  with run q2 q3 show ?thesis by auto
qed

text \<open>
  C3, as amended. In a tick with no outbound data pending, the tick resumes the playback
  device. It resumes the capture device when the playback queue holds less than one output
  frame's bytes; otherwise it leaves the capture device as it was, refreshes
  \<open>tLastNoData\<close> and does nothing else.
\<close>

theorem listening_tick_resumes_playback:
  assumes "GGWave_mainLoop G tNow w = Inr (r, w')"
    and "g_devIdInp w \<noteq> 0 \<or> g_devIdOut w \<noteq> 0" and "g_ggWave w = Some e"
    and "\<not> txHasData G e"
  shows "r = True \<and>
         resumed (g_devIdOut w) w' = is_open (g_devIdOut w) w \<and>
         (queued_size (g_devIdOut w) w < samplesPerFrame G e * sampleSizeOut G e \<longrightarrow>
            resumed (g_devIdInp w) w' = is_open (g_devIdInp w) w) \<and>
         (\<not> queued_size (g_devIdOut w) w < samplesPerFrame G e * sampleSizeOut G e \<longrightarrow>
            (g_devIdInp w \<noteq> g_devIdOut w \<longrightarrow> resumed (g_devIdInp w) w' = resumed (g_devIdInp w) w) \<and>
            tLastNoData w' = Some tNow \<and>
            tick_events w w' =
              [Call_SDL_PauseAudioDevice (g_devIdOut w) SDL_FALSE,
               Call_SDL_GetQueuedAudioSize (g_devIdOut w)])"
proof -
  from mainLoop_listening_Inr [OF assms]
  have r: "r = True" and lis: "mainLoop_listen G e tNow w = Inr w'" by simp_all
  note eff = listening_effects [OF lis]
  from r eff(3) eff(4) eff(5) show ?thesis by auto
qed

theorem listening_tick_resumes_playback_witness:
  "g_devIdInp (example_world 2 True [] 3 True [] (example_engine []) None) = 3 \<and>
   g_devIdOut (example_world 2 True [] 3 True [] (example_engine []) None) = 2 \<and>
   g_ggWave (example_world 2 True [] 3 True [] (example_engine []) None) = Some (example_engine []) \<and>
   \<not> txHasData example_GGWave (example_engine []) \<and>
   queued_size 2 (example_world 2 True [] 3 True [] (example_engine []) None) < 512 * 2 \<and>
   (\<exists>w'. GGWave_mainLoop example_GGWave 0
            (example_world 2 True [] 3 True [] (example_engine []) None) = Inr (True, w') \<and>
      resumed 2 w' \<and> resumed 3 w') \<and>
   \<not> queued_size 2 (example_world 2 True (replicate 2048 0) 3 True [] (example_engine []) None) < 512 * 2 \<and>
   (\<exists>w'. GGWave_mainLoop example_GGWave 0
            (example_world 2 True (replicate 2048 0) 3 True [] (example_engine []) None) = Inr (True, w') \<and>
      resumed 2 w' \<and> \<not> resumed 3 w' \<and> tLastNoData w' = Some 0)"
proof -
  let ?e = "example_engine []"
  let ?w = "example_world 2 True [] 3 True [] ?e None"
  let ?v = "example_world 2 True (replicate 2048 0) 3 True [] ?e None"
  have tx: "\<not> txHasData example_GGWave ?e" by simp
  have qw: "queued_size 2 ?w < 512 * 2" by (simp add: queued_size_eq)
  have qv: "\<not> queued_size 2 ?v < 512 * 2" by (simp add: queued_size_eq)
  from example_tick_returns [of 3 2 0 True "[]" True "[]" "[]" None]
  obtain w' where runw: "GGWave_mainLoop example_GGWave 0 ?w = Inr (True, w')" by auto
  from example_tick_returns [of 3 2 0 True "replicate 2048 0" True "[]" "[]" None]
  obtain v' where runv: "GGWave_mainLoop example_GGWave 0 ?v = Inr (True, v')" by auto
  have "resumed 2 w' \<and> resumed 3 w'"
    using listening_tick_resumes_playback [OF runw _ _ tx] qw by simp
  moreover have "resumed 2 v' \<and> \<not> resumed 3 v' \<and> tLastNoData v' = Some 0"
    using listening_tick_resumes_playback [OF runv _ _ tx] qv by simp
  ultimately show ?thesis using runw runv qw qv by auto
qed

text \<open>
  C3 as stated fails: with no outbound data pending and a playback queue that still holds
  two output frames, the tick leaves the playback device resumed, not paused, and the
  capture device paused, not resumed.
\<close>

theorem listening_tick_pauses_playback_counterexample:
  "\<not> txHasData example_GGWave (example_engine []) \<and>
   \<not> isl (GGWave_mainLoop example_GGWave 0
            (example_world 2 True (replicate 2048 0) 3 True [] (example_engine []) None)) \<and>
   resumed 2 (snd (projr (GGWave_mainLoop example_GGWave 0
            (example_world 2 True (replicate 2048 0) 3 True [] (example_engine []) None)))) \<and>
   \<not> resumed 3 (snd (projr (GGWave_mainLoop example_GGWave 0
            (example_world 2 True (replicate 2048 0) 3 True [] (example_engine []) None))))"
proof -
  let ?e = "example_engine []"
  let ?v = "example_world 2 True (replicate 2048 0) 3 True [] ?e None"
  have nOut: "int_times (samplesPerFrame example_GGWave ?e) (sampleSizeOut example_GGWave ?e) = Inr 1024"
    by (simp add: int_times_def)
  have qv: "\<not> queued_size (g_devIdOut ?v) ?v < 1024" by (simp add: queued_size_eq)
  have "GGWave_mainLoop example_GGWave 0 ?v =
          Inr (True, (log_call (Call_SDL_GetQueuedAudioSize (g_devIdOut ?v))
                       (SDL_PauseAudioDevice (g_devIdOut ?v) SDL_FALSE ?v))\<lparr>tLastNoData := Some 0\<rparr>)"
    using mainLoop_listening [of ?v ?e example_GGWave 0] listen_draining [OF nOut qv, of 0]
    by simp
  then show ?thesis by (simp add: SDL_FALSE_def)
qed

text \<open>
  C1, as amended. After a tick with outbound data pending both devices are paused. After a
  tick with no outbound data pending whose playback queue still holds at least one output
  frame's bytes, at most one device is unpaused if the capture device, a device other than
  the playback device, was not unpaused before. After a tick with no outbound data pending whose playback queue holds less than
  one output frame's bytes, both devices, when open, are unpaused.
\<close>

theorem half_duplex_while_transmitting_or_draining:
  assumes "GGWave_mainLoop G tNow w = Inr (r, w')"
    and "g_devIdInp w \<noteq> 0 \<or> g_devIdOut w \<noteq> 0" and "g_ggWave w = Some e"
  shows "(txHasData G e \<longrightarrow>
            \<not> resumed (g_devIdOut w') w' \<and> \<not> resumed (g_devIdInp w') w' \<and> half_duplex w') \<and>
         (\<not> txHasData G e \<and>
          \<not> queued_size (g_devIdOut w) w < samplesPerFrame G e * sampleSizeOut G e \<and>
          g_devIdInp w \<noteq> g_devIdOut w \<and> \<not> resumed (g_devIdInp w) w \<longrightarrow> half_duplex w') \<and>
         (\<not> txHasData G e \<and>
          queued_size (g_devIdOut w) w < samplesPerFrame G e * sampleSizeOut G e \<and>
          is_open (g_devIdOut w) w \<and> is_open (g_devIdInp w) w \<longrightarrow> \<not> half_duplex w')"
proof -
  note ids = mainLoop_keeps_handles [OF assms(1)]
  have transmitting: "\<not> resumed (g_devIdOut w') w' \<and> \<not> resumed (g_devIdInp w') w' \<and> half_duplex w'"
    if tx: "txHasData G e"
  proof -
    from assms(1) mainLoop_transmitting [OF assms(2,3) tx, of tNow]
    have w': "w' = mainLoop_transmit G e w" by simp
    from transmit_paused [of w G e] ids show ?thesis
      by (simp add: w' [symmetric] half_duplex_def)
  qed
  have draining: "half_duplex w'"
    if a: "\<not> txHasData G e \<and>
          \<not> queued_size (g_devIdOut w) w < samplesPerFrame G e * sampleSizeOut G e \<and>
          g_devIdInp w \<noteq> g_devIdOut w \<and> \<not> resumed (g_devIdInp w) w"
  proof -
    from a have tx: "\<not> txHasData G e" by simp
    from mainLoop_listening_Inr [OF assms tx]
    have lis: "mainLoop_listen G e tNow w = Inr w'" by simp
    from listening_effects(4) [OF lis] a ids show ?thesis
      by (simp add: half_duplex_def)
  qed
  have drained: "\<not> half_duplex w'"
    if a: "\<not> txHasData G e \<and>
          queued_size (g_devIdOut w) w < samplesPerFrame G e * sampleSizeOut G e \<and>
          is_open (g_devIdOut w) w \<and> is_open (g_devIdInp w) w"
  proof -
    from a have tx: "\<not> txHasData G e" by simp
    from mainLoop_listening_Inr [OF assms tx]
    have lis: "mainLoop_listen G e tNow w = Inr w'" by simp
    from listening_effects(3,5) [OF lis] a ids show ?thesis
      by (simp add: half_duplex_def)
  qed
  from transmitting draining drained show ?thesis by blast
qed

theorem half_duplex_while_transmitting_or_draining_witness:
  "g_devIdInp (example_world 2 False [] 3 False [] (example_engine [[1, 2]]) (Some 0)) = 3 \<and>
   g_devIdOut (example_world 2 False [] 3 False [] (example_engine [[1, 2]]) (Some 0)) = 2 \<and>
   txHasData example_GGWave (example_engine [[1, 2]]) \<and>
   (\<exists>w'. GGWave_mainLoop example_GGWave 0
            (example_world 2 False [] 3 False [] (example_engine [[1, 2]]) (Some 0)) = Inr (True, w') \<and>
      half_duplex w') \<and>
   \<not> txHasData example_GGWave (example_engine []) \<and>
   \<not> queued_size 2 (example_world 2 True (replicate 2048 0) 3 True [] (example_engine []) None) < 512 * 2 \<and>
   \<not> resumed 3 (example_world 2 True (replicate 2048 0) 3 True [] (example_engine []) None) \<and>
   (\<exists>w'. GGWave_mainLoop example_GGWave 0
            (example_world 2 True (replicate 2048 0) 3 True [] (example_engine []) None) = Inr (True, w') \<and>
      half_duplex w') \<and>
   queued_size 2 (example_world 2 True [] 3 True [] (example_engine []) None) < 512 * 2 \<and>
   is_open 2 (example_world 2 True [] 3 True [] (example_engine []) None) \<and>
   is_open 3 (example_world 2 True [] 3 True [] (example_engine []) None) \<and>
   (\<exists>w'. GGWave_mainLoop example_GGWave 0
            (example_world 2 True [] 3 True [] (example_engine []) None) = Inr (True, w') \<and>
      \<not> half_duplex w')"
proof -
  let ?t = "example_world 2 False [] 3 False [] (example_engine [[1, 2]]) (Some 0)"
  let ?v = "example_world 2 True (replicate 2048 0) 3 True [] (example_engine []) None"
  let ?w = "example_world 2 True [] 3 True [] (example_engine []) None"
  have qv: "\<not> queued_size 2 ?v < 512 * 2" by (simp add: queued_size_eq)
  have qw: "queued_size 2 ?w < 512 * 2" by (simp add: queued_size_eq)
  from example_tick_returns [of 3 2 0 False "[]" False "[]" "[[1, 2]]" "Some 0"]
  obtain t' where runt: "GGWave_mainLoop example_GGWave 0 ?t = Inr (True, t')" by auto
  from example_tick_returns [of 3 2 0 True "replicate 2048 0" True "[]" "[]" None]
  obtain v' where runv: "GGWave_mainLoop example_GGWave 0 ?v = Inr (True, v')" by auto
  from example_tick_returns [of 3 2 0 True "[]" True "[]" "[]" None]
  obtain w' where runw: "GGWave_mainLoop example_GGWave 0 ?w = Inr (True, w')" by auto
  have "half_duplex t'"
    using half_duplex_while_transmitting_or_draining [OF runt, of "example_engine [[1, 2]]"] by simp
  moreover have "half_duplex v'"
    using half_duplex_while_transmitting_or_draining [OF runv, of "example_engine []"] qv by simp
  moreover have "\<not> half_duplex w'"
    using half_duplex_while_transmitting_or_draining [OF runw, of "example_engine []"] qw by simp
  ultimately show ?thesis using runt runv runw qv qw by auto
qed

text \<open>
  C1 as stated fails: from a state as \<open>GGWave_init\<close> leaves it (both devices open and
  paused, nothing queued, no outbound data) one tick leaves both devices unpaused.
\<close>

theorem half_duplex_counterexample:
  "half_duplex (example_world 2 True [] 3 True [] (example_engine []) None) \<and>
   \<not> isl (GGWave_mainLoop example_GGWave 0
            (example_world 2 True [] 3 True [] (example_engine []) None)) \<and>
   \<not> half_duplex (snd (projr (GGWave_mainLoop example_GGWave 0
            (example_world 2 True [] 3 True [] (example_engine []) None))))"
proof -
  let ?e = "example_engine []"
  let ?w = "example_world 2 True [] 3 True [] ?e None"
  from example_tick_returns [of 3 2 0 True "[]" True "[]" "[]" None]
  obtain w' where run: "GGWave_mainLoop example_GGWave 0 ?w = Inr (True, w')" by auto
  from mainLoop_listening_Inr [OF run, of ?e]
  have lis: "mainLoop_listen example_GGWave ?e 0 ?w = Inr w'" by simp
  have q: "queued_size (g_devIdOut ?w) ?w
             < samplesPerFrame example_GGWave ?e * sampleSizeOut example_GGWave ?e"
    by (simp add: queued_size_eq)
  from listening_effects(1,2,3) [OF lis] listening_effects(5) [OF lis q]
  have "\<not> half_duplex w'" by (simp add: half_duplex_def)
  moreover have "half_duplex ?w" by (simp add: half_duplex_def)
  ultimately show ?thesis using run by simp
qed

text \<open>The dequeue and the decode of a tick that passes every gate.\<close>

lemma ready_tick_events:
  assumes run: "GGWave_mainLoop G tNow w = Inr (r, w')" and e: "g_ggWave w = Some e"
    and dev: "g_devIdInp w \<noteq> 0 \<or> g_devIdOut w \<noteq> 0" and tx: "\<not> txHasData G e"
    and drained: "queued_size (g_devIdOut w) w < samplesPerFrame G e * sampleSizeOut G e"
    and ready: "elapsed_ms tNow w > 500 \<and>
                samplesPerFrame G e * sampleSizeInp G e \<le> queued_size (g_devIdInp w) w"
    and pos: "0 \<le> samplesPerFrame G e * sampleSizeInp G e"
  defines "nNeed \<equiv> samplesPerFrame G e * sampleSizeInp G e"
  shows "length (take (nat nNeed) (queued (g_devIdInp w) w)) = nat nNeed \<and>
      filter is_dequeue (tick_events w w') = [Call_SDL_DequeueAudio (g_devIdInp w) (word_of_int nNeed)] \<and>
      filter is_decode (tick_events w w') =
        [Call_decode (take (nat nNeed) (queued (g_devIdInp w) w) @
           drop (nat nNeed) (case dataInp w of None \<Rightarrow> replicate (nat nNeed) 0 | Some b \<Rightarrow> b))]"
proof -
  let ?q = "queued (g_devIdInp w) w"
  from mainLoop_listening_Inr [OF run dev e tx]
  have lis: "mainLoop_listen G e tNow w = Inr w'" by simp
  from listening_drained_range [OF lis drained] have "nNeed < 2 ^ 31" by (simp add: nNeed_def)
  with pos have len: "unat (word_of_int nNeed :: 32 word) = nat nNeed"
    unfolding nNeed_def by (intro unat_word_of_int_32)
  from ready queued_size_le [of "g_devIdInp w" w] have "nNeed \<le> int (length ?q)"
    unfolding nNeed_def by linarith
  then have full: "length (take (nat nNeed) ?q) = nat nNeed" by simp
  from listening_effects(7) [OF lis drained ready, folded nNeed_def] obtain evs where
    tr: "trace w' = trace w @
           [Call_SDL_PauseAudioDevice (g_devIdOut w) SDL_FALSE,
            Call_SDL_GetQueuedAudioSize (g_devIdOut w),
            Call_SDL_PauseAudioDevice (g_devIdInp w) SDL_FALSE,
            Call_SDL_GetQueuedAudioSize (g_devIdInp w),
            Call_SDL_DequeueAudio (g_devIdInp w) (word_of_int nNeed),
            Call_decode (take (nat nNeed) ?q @
              drop (nat nNeed) (case dataInp w of None \<Rightarrow> replicate (nat nNeed) 0 | Some b \<Rightarrow> b))] @ evs"
    and no: "filter is_decode evs = []" "filter is_dequeue evs = []"
    unfolding len full by blast
  from tr no full show ?thesis by simp
qed

text \<open>
  C5. In a tick in which a frame is dequeued and decoded, if the capture queue right after
  the dequeue still holds more than 32 input frames' bytes, the capture queue is empty after
  the tick and the slow-processing warning was written. The queue after the dequeue is the
  queue at the start of the tick less the dequeued bytes (the calls before the dequeue do not
  change it). The capture queue holds less than \<open>2 ^ 31\<close> bytes, so that the \<open>int\<close>
  read at line 262 is its length.
\<close>

theorem overflow_guard_clears_capture_queue:
  assumes "GGWave_mainLoop G tNow w = Inr (r, w')" and "g_ggWave w = Some e"
    and "filter is_decode (tick_events w w') \<noteq> []"
    and "length (queued (g_devIdInp w) w) < 2 ^ 31"
    and "32 * (samplesPerFrame G e * sampleSizeInp G e)
           < int (length (queued (g_devIdInp w)
                   (snd (SDL_DequeueAudio (g_devIdInp w)
                          (word_of_int (samplesPerFrame G e * sampleSizeInp G e)) w))))"
  shows "queued (g_devIdInp w) w' = [] \<and> filter is_slow_warning (tick_events w w') \<noteq> []"
proof -
  let ?nNeed = "samplesPerFrame G e * sampleSizeInp G e"
  from decode_only_when [OF assms(1-3)]
  have dev: "g_devIdInp w \<noteq> 0 \<or> g_devIdOut w \<noteq> 0" and tx: "\<not> txHasData G e"
    and drained: "queued_size (g_devIdOut w) w < samplesPerFrame G e * sampleSizeOut G e"
    and ready: "elapsed_ms tNow w > 500 \<and> ?nNeed \<le> queued_size (g_devIdInp w) w"
    by blast+
  from mainLoop_listening_Inr [OF assms(1) dev assms(2) tx]
  have lis: "mainLoop_listen G e tNow w = Inr w'" by simp
  from assms(5) have "32 * ?nNeed < int (length (queued (g_devIdInp w) w))" by simp
  with queued_size_small [OF assms(4)] have over: "32 * ?nNeed < queued_size (g_devIdInp w) w"
    by simp
  from listening_effects(7) [OF lis drained ready] over
  obtain evs where
    tr: "trace w' = trace w @
             [Call_SDL_PauseAudioDevice (g_devIdOut w) SDL_FALSE,
              Call_SDL_GetQueuedAudioSize (g_devIdOut w),
              Call_SDL_PauseAudioDevice (g_devIdInp w) SDL_FALSE,
              Call_SDL_GetQueuedAudioSize (g_devIdInp w),
              Call_SDL_DequeueAudio (g_devIdInp w) (word_of_int ?nNeed),
              Call_decode (take (unat (word_of_int ?nNeed :: 32 word)) (queued (g_devIdInp w) w) @
                drop (length (take (unat (word_of_int ?nNeed :: 32 word)) (queued (g_devIdInp w) w)))
                  (case dataInp w of None \<Rightarrow> replicate (nat ?nNeed) 0 | Some b \<Rightarrow> b))] @ evs"
    and warn: "filter is_slow_warning evs \<noteq> []"
    and empty: "queued (g_devIdInp w) w' = []"
    by auto
  from tr warn empty show ?thesis by simp
qed

lemma example_ready_tick:
  fixes iq :: "byte list"
  assumes "2048 \<le> length iq" and "length iq < 2 ^ 31"
  defines "w \<equiv> example_world 2 True [] 3 True iq (example_engine []) (Some 0)"
  shows "\<exists>w'. GGWave_mainLoop example_GGWave 600000 w = Inr (True, w') \<and>
           filter is_dequeue (tick_events w w') = [Call_SDL_DequeueAudio 3 2048] \<and>
           filter is_decode (tick_events w w') = [Call_decode (take 2048 iq)]"
proof -
  let ?e = "example_engine []"
  have q3: "queued_size 3 w = int (length iq)"
    using queued_size_small [of 3 w] assms(2) by (simp add: w_def)
  have q2: "queued_size 2 w = 0" by (simp add: w_def queued_size_eq)
  have el: "elapsed_ms 600000 w = 600" by (simp add: w_def elapsed_ms_def getTime_ms_def)
  from example_tick_returns [of 3 2 600000 True "[]" True iq "[]" "Some 0"]
  obtain w' where run: "GGWave_mainLoop example_GGWave 600000 w = Inr (True, w')"
    by (auto simp add: w_def)
  have "g_ggWave w = Some ?e" "g_devIdInp w \<noteq> 0 \<or> g_devIdOut w \<noteq> 0"
    "\<not> txHasData example_GGWave ?e"
    "queued_size (g_devIdOut w) w < samplesPerFrame example_GGWave ?e * sampleSizeOut example_GGWave ?e"
    "elapsed_ms 600000 w > 500 \<and>
       samplesPerFrame example_GGWave ?e * sampleSizeInp example_GGWave ?e \<le> queued_size (g_devIdInp w) w"
    "0 \<le> samplesPerFrame example_GGWave ?e * sampleSizeInp example_GGWave ?e"
    using assms(1) q2 q3 el by (simp_all add: w_def)
  from ready_tick_events [OF run this] run show ?thesis by (simp add: w_def)
qed

theorem overflow_guard_clears_capture_queue_witness:
  "g_ggWave (example_world 2 True [] 3 True (replicate 70000 7) (example_engine []) (Some 0))
     = Some (example_engine []) \<and>
   length (queued 3 (example_world 2 True [] 3 True (replicate 70000 7) (example_engine []) (Some 0)))
     < 2 ^ 31 \<and>
   32 * (512 * 4) < int (length (queued 3 (snd (SDL_DequeueAudio 3 (word_of_int (512 * 4))
           (example_world 2 True [] 3 True (replicate 70000 7) (example_engine []) (Some 0)))))) \<and>
   (\<exists>w'. GGWave_mainLoop example_GGWave 600000
            (example_world 2 True [] 3 True (replicate 70000 7) (example_engine []) (Some 0))
          = Inr (True, w') \<and>
      filter is_decode
        (tick_events (example_world 2 True [] 3 True (replicate 70000 7) (example_engine []) (Some 0)) w')
        = [Call_decode (replicate 2048 7)] \<and>
      queued 3 w' = [] \<and>
      filter is_slow_warning
        (tick_events (example_world 2 True [] 3 True (replicate 70000 7) (example_engine []) (Some 0)) w')
        \<noteq> [])"
proof -
  let ?e = "example_engine []"
  let ?w = "example_world 2 True [] 3 True (replicate 70000 7) ?e (Some 0)"
  have small: "length (queued 3 ?w) < 2 ^ 31" by simp
  have over: "32 * (512 * 4) < int (length (queued 3 (snd (SDL_DequeueAudio 3 (word_of_int (512 * 4)) ?w))))"
    by simp
  from example_ready_tick [of "replicate 70000 7"]
  obtain w' where run: "GGWave_mainLoop example_GGWave 600000 ?w = Inr (True, w')"
    and dec: "filter is_decode (tick_events ?w w') = [Call_decode (replicate 2048 7)]"
    by auto
  from dec have dec': "filter is_decode (tick_events ?w w') \<noteq> []" by simp
  from overflow_guard_clears_capture_queue [OF run _ dec', of ?e] small over
  have "queued 3 w' = [] \<and> filter is_slow_warning (tick_events ?w w') \<noteq> []" by simp
  with run dec small over show ?thesis by auto
qed

subsection \<open>GGWave_init, case by case\<close>

lemma log_calls_simps [simp]:
  "trace (log_calls evs w) = trace w @ evs"
  "devices (log_calls evs w) = devices w"
  "g_devIdInp (log_calls evs w) = g_devIdInp w"
  "g_devIdOut (log_calls evs w) = g_devIdOut w"
  "g_obtainedSpecInp (log_calls evs w) = g_obtainedSpecInp w"
  "g_obtainedSpecOut (log_calls evs w) = g_obtainedSpecOut w"
  "g_defaultCaptureDeviceName (log_calls evs w) = g_defaultCaptureDeviceName w"
  "g_ggWave (log_calls evs w) = g_ggWave w"
  by (simp_all add: log_calls_def)

lemma log_call_more_simps [simp]:
  "g_obtainedSpecInp (log_call ev w) = g_obtainedSpecInp w"
  "g_obtainedSpecOut (log_call ev w) = g_obtainedSpecOut w"
  "g_defaultCaptureDeviceName (log_call ev w) = g_defaultCaptureDeviceName w"
  by (simp_all add: log_call_def)

lemma Open_simps [simp]:
  "fst (SDL_OpenAudioDevice H name c desired w) = open_device H name c desired"
  "trace (snd (SDL_OpenAudioDevice H name c desired w)) = trace w @ [Call_SDL_OpenAudioDevice name c desired]"
  "g_devIdInp (snd (SDL_OpenAudioDevice H name c desired w)) = g_devIdInp w"
  "g_devIdOut (snd (SDL_OpenAudioDevice H name c desired w)) = g_devIdOut w"
  "g_obtainedSpecInp (snd (SDL_OpenAudioDevice H name c desired w)) = g_obtainedSpecInp w"
  "g_obtainedSpecOut (snd (SDL_OpenAudioDevice H name c desired w)) = g_obtainedSpecOut w"
  "g_defaultCaptureDeviceName (snd (SDL_OpenAudioDevice H name c desired w)) = g_defaultCaptureDeviceName w"
  "g_ggWave (snd (SDL_OpenAudioDevice H name c desired w)) = g_ggWave w"
  "is_open d (snd (SDL_OpenAudioDevice H name c desired w)) =
     (is_open d w \<or> (d \<noteq> 0 \<and> d = fst (open_device H name c desired)))"
  by (auto simp add: SDL_OpenAudioDevice_def Let_def case_prod_beta is_open_def)

lemma Close_simps [simp]:
  "trace (SDL_CloseAudio w) = trace w @ [Call_SDL_CloseAudio]"
  "g_devIdInp (SDL_CloseAudio w) = g_devIdInp w"
  "g_devIdOut (SDL_CloseAudio w) = g_devIdOut w"
  "g_obtainedSpecInp (SDL_CloseAudio w) = g_obtainedSpecInp w"
  "g_obtainedSpecOut (SDL_CloseAudio w) = g_obtainedSpecOut w"
  "g_ggWave (SDL_CloseAudio w) = g_ggWave w"
  "is_open d (SDL_CloseAudio w) = (d \<noteq> 1 \<and> is_open d w)"
  by (auto simp add: SDL_CloseAudio_def is_open_def)

lemma upd_open [simp]:
  "is_open d (w\<lparr>g_devIdOut := x\<rparr>) = is_open d w"
  "is_open d (w\<lparr>g_devIdInp := x\<rparr>) = is_open d w"
  "is_open d (w\<lparr>g_obtainedSpecOut := y\<rparr>) = is_open d w"
  "is_open d (w\<lparr>g_obtainedSpecInp := y\<rparr>) = is_open d w"
  "is_open d (log_calls evs w) = is_open d w"
  by (simp_all add: is_open_def)

text \<open>The playback part of \<open>GGWave_init\<close>, case by case.\<close>

lemma init_playback_Inl:
  assumes "g_devIdOut w = 0"
    and "open_device H (playback_name H playbackId) SDL_FALSE (playbackSpec sampleRateOffset) = (dev, obtained)"
    and "dev \<noteq> 0" and "spec_mismatch obtained (playbackSpec sampleRateOffset)"
  shows "\<exists>w'. init_playback H playbackId sampleRateOffset w = Inl w' \<and>
           g_devIdOut w' = 0 \<and> g_devIdInp w' = g_devIdInp w \<and>
           g_obtainedSpecInp w' = g_obtainedSpecInp w \<and> g_ggWave w' = g_ggWave w \<and>
           (is_open dev w' = (dev \<noteq> 1)) \<and>
           trace w' = trace w @
             (if playbackId \<ge> 0
              then [Call_SDL_GetAudioDeviceName playbackId SDL_FALSE,
                    Call_SDL_GetAudioDeviceName playbackId SDL_FALSE]
              else []) @
             [Call_SDL_OpenAudioDevice (playback_name H playbackId) SDL_FALSE (playbackSpec sampleRateOffset),
              Call_SDL_CloseAudio]"
  using assms by (simp add: init_playback_def Let_def case_prod_beta)

lemma init_playback_Inl_iff:
  "(\<exists>w'. init_playback H playbackId sampleRateOffset w = Inl w') \<longleftrightarrow>
     g_devIdOut w = 0 \<and>
     fst (open_device H (playback_name H playbackId) SDL_FALSE (playbackSpec sampleRateOffset)) \<noteq> 0 \<and>
     spec_mismatch
       (snd (open_device H (playback_name H playbackId) SDL_FALSE (playbackSpec sampleRateOffset)))
       (playbackSpec sampleRateOffset)"
  by (simp add: init_playback_def Let_def case_prod_beta)

lemma filter_open_capture_enumerate [simp]:
  "filter is_open_capture (init_enumerate H c) = []"
  by (simp add: init_enumerate_def filter_map o_def)

lemma init_already_open:
  "g_devIdInp w \<noteq> 0 \<Longrightarrow> g_devIdOut w \<noteq> 0 \<Longrightarrow>
     GGWave_init G H playbackId captureId payloadLength sampleRateOffset useDSS w = (False, w)"
  by (simp add: GGWave_init_def)

lemma init_returns_false_iff:
  "fst (GGWave_init G H playbackId captureId payloadLength sampleRateOffset useDSS w) = False \<longleftrightarrow>
     (g_devIdInp w \<noteq> 0 \<and> g_devIdOut w \<noteq> 0) \<or>
     (g_devIdOut w = 0 \<and> \<not> (g_devIdInp w = 0 \<and> init_result H < 0) \<and>
      fst (open_device H (playback_name H playbackId) SDL_FALSE (playbackSpec sampleRateOffset)) \<noteq> 0 \<and>
      spec_mismatch
        (snd (open_device H (playback_name H playbackId) SDL_FALSE (playbackSpec sampleRateOffset)))
        (playbackSpec sampleRateOffset))"
proof -
  let ?w1 = "if g_devIdInp w = 0 \<and> g_devIdOut w = 0
             then log_calls ([Call_SDL_Init, Call_SDL_SetHint] @
                             init_enumerate H SDL_FALSE @ init_enumerate H SDL_TRUE) w
             else w"
  have out: "g_devIdOut ?w1 = g_devIdOut w" by simp
  show ?thesis
  proof (cases "g_devIdInp w \<noteq> 0 \<and> g_devIdOut w \<noteq> 0")
    case True
    then show ?thesis by (simp add: GGWave_init_def)
  next
    case open_some: False
    show ?thesis
    proof (cases "g_devIdInp w = 0 \<and> g_devIdOut w = 0 \<and> init_result H < 0")
      case True
      then show ?thesis by (simp add: GGWave_init_def)
    next
      case False
      show ?thesis
      proof (cases "init_playback H playbackId sampleRateOffset ?w1")
        case (Inl w2)
        then have "\<exists>w'. init_playback H playbackId sampleRateOffset ?w1 = Inl w'" by blast
        then have "g_devIdOut w = 0 \<and>
          fst (open_device H (playback_name H playbackId) SDL_FALSE (playbackSpec sampleRateOffset)) \<noteq> 0 \<and>
          spec_mismatch
            (snd (open_device H (playback_name H playbackId) SDL_FALSE (playbackSpec sampleRateOffset)))
            (playbackSpec sampleRateOffset)"
          unfolding init_playback_Inl_iff out .
        moreover have "fst (GGWave_init G H playbackId captureId payloadLength sampleRateOffset useDSS w) = False"
          using open_some False Inl by (simp add: GGWave_init_def Let_def)
        ultimately show ?thesis using False by auto
      next
        case (Inr p)
        then have "\<not> (\<exists>w'. init_playback H playbackId sampleRateOffset ?w1 = Inl w')" by simp
        then have "\<not> (g_devIdOut w = 0 \<and>
          fst (open_device H (playback_name H playbackId) SDL_FALSE (playbackSpec sampleRateOffset)) \<noteq> 0 \<and>
          spec_mismatch
            (snd (open_device H (playback_name H playbackId) SDL_FALSE (playbackSpec sampleRateOffset)))
            (playbackSpec sampleRateOffset))"
          unfolding init_playback_Inl_iff out .
        moreover have "fst (GGWave_init G H playbackId captureId payloadLength sampleRateOffset useDSS w) = True"
          using open_some False Inr
          by (simp add: GGWave_init_def Let_def case_prod_beta split: prod.splits)
        ultimately show ?thesis using open_some by auto
      qed
    qed
  qed
qed

lemma init_mismatch:
  assumes out: "g_devIdOut w = 0" and ini: "\<not> (g_devIdInp w = 0 \<and> init_result H < 0)"
    and opn: "open_device H (playback_name H playbackId) SDL_FALSE (playbackSpec sampleRateOffset)
                = (dev, obtained)"
    and dev: "dev \<noteq> 0" and mis: "spec_mismatch obtained (playbackSpec sampleRateOffset)"
  shows "\<exists>w'. GGWave_init G H playbackId captureId payloadLength sampleRateOffset useDSS w = (False, w') \<and>
           g_devIdOut w' = 0 \<and> g_devIdInp w' = g_devIdInp w \<and>
           g_obtainedSpecInp w' = g_obtainedSpecInp w \<and> g_ggWave w' = g_ggWave w \<and>
           is_open dev w' = (dev \<noteq> 1) \<and>
           filter is_open_capture (tick_events w w') = [] \<and>
           (\<exists>evs. tick_events w w' = evs @
              [Call_SDL_OpenAudioDevice (playback_name H playbackId) SDL_FALSE (playbackSpec sampleRateOffset),
               Call_SDL_CloseAudio])"
proof -
  let ?w1 = "if g_devIdInp w = 0 \<and> g_devIdOut w = 0
             then log_calls ([Call_SDL_Init, Call_SDL_SetHint] @
                             init_enumerate H SDL_FALSE @ init_enumerate H SDL_TRUE) w
             else w"
  have out1: "g_devIdOut ?w1 = 0" using out by simp
  from init_playback_Inl [OF out1 opn dev mis] obtain w' where
    pb: "init_playback H playbackId sampleRateOffset ?w1 = Inl w'"
    and fields: "g_devIdOut w' = 0" "g_devIdInp w' = g_devIdInp ?w1"
      "g_obtainedSpecInp w' = g_obtainedSpecInp ?w1" "g_ggWave w' = g_ggWave ?w1"
      "is_open dev w' = (dev \<noteq> 1)"
    and tr: "trace w' = trace ?w1 @
             (if playbackId \<ge> 0
              then [Call_SDL_GetAudioDeviceName playbackId SDL_FALSE,
                    Call_SDL_GetAudioDeviceName playbackId SDL_FALSE]
              else []) @
             [Call_SDL_OpenAudioDevice (playback_name H playbackId) SDL_FALSE (playbackSpec sampleRateOffset),
              Call_SDL_CloseAudio]"
    by blast
  have res: "GGWave_init G H playbackId captureId payloadLength sampleRateOffset useDSS w = (False, w')"
    using out ini pb by (simp add: GGWave_init_def Let_def)
  let ?pre = "(if g_devIdInp w = 0 \<and> g_devIdOut w = 0
               then [Call_SDL_Init, Call_SDL_SetHint] @
                    init_enumerate H SDL_FALSE @ init_enumerate H SDL_TRUE
               else []) @
              (if playbackId \<ge> 0
               then [Call_SDL_GetAudioDeviceName playbackId SDL_FALSE,
                     Call_SDL_GetAudioDeviceName playbackId SDL_FALSE]
               else [])"
  have ev: "tick_events w w' = ?pre @
              [Call_SDL_OpenAudioDevice (playback_name H playbackId) SDL_FALSE (playbackSpec sampleRateOffset),
               Call_SDL_CloseAudio]"
    using tr by (simp add: tick_events_def)
  have "filter is_open_capture (tick_events w w') = []"
    unfolding ev by (simp add: SDL_FALSE_def)
  with res fields ev show ?thesis by (intro exI [of _ w']) auto
qed

subsection \<open>Claims about GGWave_init\<close>

text \<open>
  C6, as amended. \<open>GGWave_init\<close> returns false exactly when both devices are already open,
  or when the playback device opens with a format, channel count or frame size other than
  the requested one. In that mismatch case the playback handle is reset to 0,
  \<open>SDL_CloseAudio\<close> is the last call, no capture device is opened, and the capture handle,
  the capture spec and the engine are as before. A device open call that fails does not make
  \<open>GGWave_init\<close> return false.
\<close>

theorem init_fails_on_playback_mismatch_only:
  "(g_devIdOut w = 0 \<and> \<not> (g_devIdInp w = 0 \<and> init_result H < 0) \<and>
    open_device H (playback_name H playbackId) SDL_FALSE (playbackSpec sampleRateOffset) = (dev, obtained) \<and>
    dev \<noteq> 0 \<and> spec_mismatch obtained (playbackSpec sampleRateOffset) \<longrightarrow>
      (\<exists>w'. GGWave_init G H playbackId captureId payloadLength sampleRateOffset useDSS w = (False, w') \<and>
         g_devIdOut w' = 0 \<and> g_devIdInp w' = g_devIdInp w \<and>
         g_obtainedSpecInp w' = g_obtainedSpecInp w \<and> g_ggWave w' = g_ggWave w \<and>
         filter is_open_capture (tick_events w w') = [] \<and>
         (\<exists>evs. tick_events w w' = evs @
            [Call_SDL_OpenAudioDevice (playback_name H playbackId) SDL_FALSE (playbackSpec sampleRateOffset),
             Call_SDL_CloseAudio]))) \<and>
   (fst (GGWave_init G H playbackId captureId payloadLength sampleRateOffset useDSS w) = False \<longleftrightarrow>
      (g_devIdInp w \<noteq> 0 \<and> g_devIdOut w \<noteq> 0) \<or>
      (g_devIdOut w = 0 \<and> \<not> (g_devIdInp w = 0 \<and> init_result H < 0) \<and>
       fst (open_device H (playback_name H playbackId) SDL_FALSE (playbackSpec sampleRateOffset)) \<noteq> 0 \<and>
       spec_mismatch
         (snd (open_device H (playback_name H playbackId) SDL_FALSE (playbackSpec sampleRateOffset)))
         (playbackSpec sampleRateOffset)))"
proof (intro conjI impI)
  assume a: "g_devIdOut w = 0 \<and> \<not> (g_devIdInp w = 0 \<and> init_result H < 0) \<and>
    open_device H (playback_name H playbackId) SDL_FALSE (playbackSpec sampleRateOffset) = (dev, obtained) \<and>
    dev \<noteq> 0 \<and> spec_mismatch obtained (playbackSpec sampleRateOffset)"
  then have "g_devIdOut w = 0" "\<not> (g_devIdInp w = 0 \<and> init_result H < 0)"
    "open_device H (playback_name H playbackId) SDL_FALSE (playbackSpec sampleRateOffset) = (dev, obtained)"
    "dev \<noteq> 0" "spec_mismatch obtained (playbackSpec sampleRateOffset)"
    by blast+
  from init_mismatch [OF this, of G captureId payloadLength useDSS]
  show "\<exists>w'. GGWave_init G H playbackId captureId payloadLength sampleRateOffset useDSS w = (False, w') \<and>
         g_devIdOut w' = 0 \<and> g_devIdInp w' = g_devIdInp w \<and>
         g_obtainedSpecInp w' = g_obtainedSpecInp w \<and> g_ggWave w' = g_ggWave w \<and>
         filter is_open_capture (tick_events w w') = [] \<and>
         (\<exists>evs. tick_events w w' = evs @
            [Call_SDL_OpenAudioDevice (playback_name H playbackId) SDL_FALSE (playbackSpec sampleRateOffset),
             Call_SDL_CloseAudio])"
    by blast
next
  show "fst (GGWave_init G H playbackId captureId payloadLength sampleRateOffset useDSS w) = False \<longleftrightarrow>
      (g_devIdInp w \<noteq> 0 \<and> g_devIdOut w \<noteq> 0) \<or>
      (g_devIdOut w = 0 \<and> \<not> (g_devIdInp w = 0 \<and> init_result H < 0) \<and>
       fst (open_device H (playback_name H playbackId) SDL_FALSE (playbackSpec sampleRateOffset)) \<noteq> 0 \<and>
       spec_mismatch
         (snd (open_device H (playback_name H playbackId) SDL_FALSE (playbackSpec sampleRateOffset)))
         (playbackSpec sampleRateOffset))"
    by (rule init_returns_false_iff)
qed

lemma example_host_simps [simp]:
  "init_result (example_host p) = 0"
  "open_device (example_host p) name SDL_FALSE desired = p desired"
  "open_device (example_host p) name SDL_TRUE desired = (3, desired)"
  by (simp_all add: example_host_def SDL_FALSE_def SDL_TRUE_def)

lemma boot_world_simps [simp]:
  "g_devIdInp boot_world = 0" "g_devIdOut boot_world = 0" "g_ggWave boot_world = None"
  "g_obtainedSpecInp boot_world = SDL_zero" "trace boot_world = []"
  by (simp_all add: boot_world_def)

theorem init_fails_on_playback_mismatch_only_witness:
  "g_devIdOut boot_world = 0 \<and> init_result halving_host = 0 \<and>
   open_device halving_host (playback_name halving_host 0) SDL_FALSE (playbackSpec 0)
     = (2, (playbackSpec 0)\<lparr>samples := 8192\<rparr>) \<and>
   spec_mismatch ((playbackSpec 0)\<lparr>samples := 8192\<rparr>) (playbackSpec 0) \<and>
   (\<exists>w'. GGWave_init example_GGWave halving_host 0 0 16 0 True boot_world = (False, w') \<and>
      g_devIdOut w' = 0 \<and> g_devIdInp w' = 0 \<and> g_ggWave w' = None \<and>
      filter is_open_capture (tick_events boot_world w') = []) \<and>
   fst (GGWave_init example_GGWave granting_host 0 0 16 0 True boot_world) = True"
proof -
  have opn: "open_device halving_host (playback_name halving_host 0) SDL_FALSE (playbackSpec 0)
               = (2, (playbackSpec 0)\<lparr>samples := 8192\<rparr>)"
    by (simp add: halving_host_def)
  have mis: "spec_mismatch ((playbackSpec 0)\<lparr>samples := 8192\<rparr>) (playbackSpec 0)"
    by (simp add: spec_mismatch_def playbackSpec_def)
  have ini: "init_result halving_host = 0" by (simp add: halving_host_def)
  have grant: "\<not> spec_mismatch
      (snd (open_device granting_host (playback_name granting_host 0) SDL_FALSE (playbackSpec 0)))
      (playbackSpec 0)"
    by (simp add: granting_host_def spec_mismatch_def)
  from init_fails_on_playback_mismatch_only
         [of boot_world halving_host 0 0 2 "(playbackSpec 0)\<lparr>samples := 8192\<rparr>" example_GGWave 0 16 True]
       opn mis ini
  have "\<exists>w'. GGWave_init example_GGWave halving_host 0 0 16 0 True boot_world = (False, w') \<and>
      g_devIdOut w' = 0 \<and> g_devIdInp w' = 0 \<and> g_ggWave w' = None \<and>
      filter is_open_capture (tick_events boot_world w') = []"
    by auto
  moreover from init_fails_on_playback_mismatch_only
         [of boot_world granting_host 0 0 2 "playbackSpec 0" example_GGWave 0 16 True] grant
  have "fst (GGWave_init example_GGWave granting_host 0 0 16 0 True boot_world) = True"
    by simp
  ultimately show ?thesis using opn mis ini by simp
qed

text \<open>
  C6 as stated fails: when the playback device cannot be opened (the open call returns 0),
  \<open>GGWave_init\<close> goes on to the capture device and returns true.
\<close>

theorem init_open_failure_counterexample:
  "fst (open_device failing_host (playback_name failing_host 0) SDL_FALSE (playbackSpec 0)) = 0 \<and>
   fst (GGWave_init example_GGWave failing_host 0 0 16 0 True boot_world) = True"
proof -
  have "fst (open_device failing_host (playback_name failing_host 0) SDL_FALSE (playbackSpec 0)) = 0"
    by (simp add: failing_host_def)
  then show ?thesis
    using init_returns_false_iff [of example_GGWave failing_host 0 0 16 0 True boot_world]
    by simp
qed

text \<open>
  C7. Each of the six recognised hardware formats maps to one engine format, signed 32-bit
  and float32 both to the engine's float32, and every other hardware format maps to the
  undefined sentinel.
\<close>

theorem format_mapping_total:
  "switch_format AUDIO_U8 = GGWAVE_SAMPLE_FORMAT_U8 \<and>
   switch_format AUDIO_S8 = GGWAVE_SAMPLE_FORMAT_I8 \<and>
   switch_format AUDIO_U16SYS = GGWAVE_SAMPLE_FORMAT_U16 \<and>
   switch_format AUDIO_S16SYS = GGWAVE_SAMPLE_FORMAT_I16 \<and>
   switch_format AUDIO_S32SYS = GGWAVE_SAMPLE_FORMAT_F32 \<and>
   switch_format AUDIO_F32SYS = GGWAVE_SAMPLE_FORMAT_F32 \<and>
   (\<forall>f. f \<notin> {AUDIO_U8, AUDIO_S8, AUDIO_U16SYS, AUDIO_S16SYS, AUDIO_S32SYS, AUDIO_F32SYS} \<longrightarrow>
      switch_format f = GGWAVE_SAMPLE_FORMAT_UNDEFINED)"
  by (simp add: switch_format_def AUDIO_U8_def AUDIO_S8_def AUDIO_U16SYS_def AUDIO_S16SYS_def
        AUDIO_S32SYS_def AUDIO_F32SYS_def)

theorem format_mapping_total_witness:
  "format SDL_zero \<notin> {AUDIO_U8, AUDIO_S8, AUDIO_U16SYS, AUDIO_S16SYS, AUDIO_S32SYS, AUDIO_F32SYS} \<and>
   switch_format (format SDL_zero) = GGWAVE_SAMPLE_FORMAT_UNDEFINED"
proof -
  have "format SDL_zero \<notin> {AUDIO_U8, AUDIO_S8, AUDIO_U16SYS, AUDIO_S16SYS, AUDIO_S32SYS, AUDIO_F32SYS}"
    by (simp add: SDL_zero_def AUDIO_U8_def AUDIO_S8_def AUDIO_U16SYS_def AUDIO_S16SYS_def
          AUDIO_S32SYS_def AUDIO_F32SYS_def)
  with format_mapping_total show ?thesis by blast
qed

text \<open>
  C8. When both device handles are already open, \<open>GGWave_init\<close> makes no call to SDL or to
  the engine and leaves the handles, and the whole state, unchanged. It returns false.
\<close>

theorem init_with_both_open_changes_nothing:
  assumes "g_devIdInp w \<noteq> 0" and "g_devIdOut w \<noteq> 0"
  shows "GGWave_init G H playbackId captureId payloadLength sampleRateOffset useDSS w = (False, w) \<and>
         tick_events w
           (snd (GGWave_init G H playbackId captureId payloadLength sampleRateOffset useDSS w)) = [] \<and>
         g_devIdInp (snd (GGWave_init G H playbackId captureId payloadLength sampleRateOffset useDSS w))
           = g_devIdInp w \<and>
         g_devIdOut (snd (GGWave_init G H playbackId captureId payloadLength sampleRateOffset useDSS w))
           = g_devIdOut w"
  using init_already_open [OF assms] by simp

theorem init_with_both_open_changes_nothing_witness:
  "g_devIdInp (example_world 2 False [] 3 False [] (example_engine []) (Some 0)) = 3 \<and>
   g_devIdOut (example_world 2 False [] 3 False [] (example_engine []) (Some 0)) = 2 \<and>
   GGWave_init example_GGWave granting_host 0 0 16 0 True
       (example_world 2 False [] 3 False [] (example_engine []) (Some 0))
     = (False, example_world 2 False [] 3 False [] (example_engine []) (Some 0))"
  using init_with_both_open_changes_nothing
          [of "example_world 2 False [] 3 False [] (example_engine []) (Some 0)"
              example_GGWave granting_host 0 0 16 0 True]
  by simp

text \<open>
  A successful \<open>GGWave_init\<close> from the boot state, on the host that grants every request:
  both devices are open and paused with empty queues, and the engine is built from the
  obtained formats.
\<close>

lemma init_granted:
  defines "w' \<equiv> snd (GGWave_init example_GGWave granting_host (- 1) (- 1) 16 0 True boot_world)"
  shows "fst (GGWave_init example_GGWave granting_host (- 1) (- 1) 16 0 True boot_world) = True"
    and "g_devIdOut w' = 2" and "g_devIdInp w' = 3"
    and "g_ggWave w' = Some (example_engine [])"
    and "is_open 2 w'" and "is_open 3 w'" and "\<not> resumed 2 w'" and "\<not> resumed 3 w'"
    and "queued 2 w' = []" and "queued 3 w' = []"
    and "tLastNoData w' = None" and "dataInp w' = None"
  unfolding w'_def
  by (simp_all add: GGWave_init_def init_playback_def init_capture_def init_engine_def
        SDL_OpenAudioDevice_def log_call_def log_calls_def Let_def case_prod_beta
        granting_host_def example_host_def boot_world_def playbackSpec_def playback_name_def
        spec_mismatch_def SDL_FALSE_def SDL_TRUE_def SDL_zero_def switch_format_def
        AUDIO_U8_def AUDIO_S8_def AUDIO_U16SYS_def AUDIO_S16SYS_def AUDIO_S32SYS_def AUDIO_F32SYS_def
        kDefaultSampleRate_def float32_of_int_small
        example_GGWave_def example_engine_def example_params_def
        is_open_def resumed_def queued_def)

subsection \<open>The engine of an open device\<close>

text \<open>
  An open device comes with an engine: \<open>GGWave_init\<close> builds one whenever it opens a
  device, and \<open>GGWave_mainLoop\<close> never removes it. So the loop, which \<open>main\<close> runs only
  after \<open>GGWave_init\<close>, does not dereference a null \<open>g_ggWave\<close>.
\<close>

lemma init_playback_Inr:
  assumes "init_playback H playbackId sampleRateOffset w = Inr (reinit, w')"
  shows "g_devIdInp w' = g_devIdInp w \<and> g_ggWave w' = g_ggWave w \<and>
         (if reinit then g_devIdOut w' \<noteq> 0 else g_devIdOut w' = g_devIdOut w)"
  using assms
  by (auto simp add: init_playback_def Let_def case_prod_beta split: if_splits)

lemma init_capture_result:
  assumes "init_capture H captureId sampleRateOffset reinit w = (reinit', w')"
  shows "g_devIdOut w' = g_devIdOut w \<and> g_ggWave w' = g_ggWave w \<and>
         ((g_devIdInp w' = g_devIdInp w \<and> reinit' = reinit) \<or> (g_devIdInp w' \<noteq> 0 \<and> reinit'))"
  using assms
  by (auto simp add: init_capture_def Let_def case_prod_beta split: if_splits)

lemma init_engine_simps [simp]:
  "g_ggWave (init_engine G payloadLength useDSS fi fo w) \<noteq> None"
  "g_devIdInp (init_engine G payloadLength useDSS fi fo w) = g_devIdInp w"
  "g_devIdOut (init_engine G payloadLength useDSS fi fo w) = g_devIdOut w"
  by (simp_all add: init_engine_def Let_def)

lemma init_keeps_engine:
  assumes inv: "g_devIdInp w \<noteq> 0 \<or> g_devIdOut w \<noteq> 0 \<longrightarrow> g_ggWave w \<noteq> None"
    and run: "GGWave_init G H playbackId captureId payloadLength sampleRateOffset useDSS w = (r, w')"
  shows "g_devIdInp w' \<noteq> 0 \<or> g_devIdOut w' \<noteq> 0 \<longrightarrow> g_ggWave w' \<noteq> None"
proof (cases "g_devIdInp w \<noteq> 0 \<and> g_devIdOut w \<noteq> 0")
  case True
  with run inv show ?thesis by (simp add: GGWave_init_def)
next
  case some: False
  show ?thesis
  proof (cases "g_devIdInp w = 0 \<and> g_devIdOut w = 0 \<and> init_result H < 0")
    case True
    with run have "w' = log_call Call_SDL_Init w" by (simp add: GGWave_init_def)
    with True show ?thesis by simp
  next
    case False
    let ?w1 = "if g_devIdInp w = 0 \<and> g_devIdOut w = 0
               then log_calls ([Call_SDL_Init, Call_SDL_SetHint] @
                               init_enumerate H SDL_FALSE @ init_enumerate H SDL_TRUE) w
               else w"
    have w1: "g_devIdInp ?w1 = g_devIdInp w" "g_devIdOut ?w1 = g_devIdOut w"
      "g_ggWave ?w1 = g_ggWave w"
      by simp_all
    show ?thesis
    proof (cases "init_playback H playbackId sampleRateOffset ?w1")
      case (Inl w2)
      with run some False have w': "w' = w2" by (simp add: GGWave_init_def Let_def)
      from Inl have "\<exists>v. init_playback H playbackId sampleRateOffset ?w1 = Inl v" by blast
      then have out: "g_devIdOut w = 0" by (simp add: init_playback_Inl_iff split: if_splits)
      obtain dev obtained where opn:
        "open_device H (playback_name H playbackId) SDL_FALSE (playbackSpec sampleRateOffset) = (dev, obtained)"
        by (cases "open_device H (playback_name H playbackId) SDL_FALSE (playbackSpec sampleRateOffset)")
      from Inl out opn have "g_devIdOut w2 = 0 \<and> g_devIdInp w2 = g_devIdInp w \<and> g_ggWave w2 = g_ggWave w"
        by (auto simp add: init_playback_def Let_def case_prod_beta split: if_splits)
      with inv w' show ?thesis by simp
    next
      case (Inr p)
      obtain reinit1 w2 where p: "p = (reinit1, w2)" by (cases p)
      obtain reinit w3 where cap: "init_capture H captureId sampleRateOffset reinit1 w2 = (reinit, w3)"
        by (cases "init_capture H captureId sampleRateOffset reinit1 w2")
      from init_playback_Inr [OF Inr [unfolded p]] w1
      have pb: "g_devIdInp w2 = g_devIdInp w" "g_ggWave w2 = g_ggWave w"
        "if reinit1 then g_devIdOut w2 \<noteq> 0 else g_devIdOut w2 = g_devIdOut w"
        by simp_all
      from init_capture_result [OF cap]
      have cp: "g_devIdOut w3 = g_devIdOut w2" "g_ggWave w3 = g_ggWave w2"
        "(g_devIdInp w3 = g_devIdInp w2 \<and> reinit = reinit1) \<or> (g_devIdInp w3 \<noteq> 0 \<and> reinit)"
        by simp_all
      have w': "w' = (if reinit
                      then init_engine G payloadLength useDSS
                             (switch_format (format (g_obtainedSpecInp w3)))
                             (switch_format (format (g_obtainedSpecOut w3))) w3
                      else w3)"
        using run some False Inr p cap by (simp add: GGWave_init_def Let_def)
      show ?thesis
      proof (cases reinit)
        case True
        with w' show ?thesis by simp
      next
        case False
        with cp(3) have "\<not> reinit1" and "g_devIdInp w3 = g_devIdInp w2" by blast+
        with False pb cp(1,2) w' inv show ?thesis by simp
      qed
    qed
  qed
qed

lemma mainLoop_keeps_engine:
  assumes run: "GGWave_mainLoop G tNow w = Inr (r, w')"
    and inv: "g_devIdInp w \<noteq> 0 \<or> g_devIdOut w \<noteq> 0 \<longrightarrow> g_ggWave w \<noteq> None"
  shows "g_devIdInp w' \<noteq> 0 \<or> g_devIdOut w' \<noteq> 0 \<longrightarrow> g_ggWave w' \<noteq> None"
proof (cases "g_devIdInp w = 0 \<and> g_devIdOut w = 0")
  case True
  with run inv show ?thesis by (simp add: mainLoop_inactive)
next
  case False
  then have dev: "g_devIdInp w \<noteq> 0 \<or> g_devIdOut w \<noteq> 0" by simp
  from mainLoop_Inr_engine [OF run dev] obtain e where e: "g_ggWave w = Some e" ..
  have "g_ggWave w' \<noteq> None"
  proof (cases "txHasData G e")
    case True
    obtain nBytes e' where enc: "encode G e = (nBytes, e')" by (cases "encode G e")
    from run mainLoop_transmitting [OF dev e True, of tNow] have "w' = mainLoop_transmit G e w"
      by simp
    with transmit_engine [OF enc, of w] show ?thesis by simp
  next
    case False
    from mainLoop_listening_Inr [OF run dev e False]
    have lis: "mainLoop_listen G e tNow w = Inr w'" by simp
    from listening_cases [OF lis] e show ?thesis
      by (auto dest: decode_keeps(6))
  qed
  then show ?thesis by simp
qed

subsection \<open>Runs of the program\<close>

lemma spec_simps [simp]:
  "g_obtainedSpecOut (SDL_PauseAudioDevice dev p w) = g_obtainedSpecOut w"
  "g_obtainedSpecOut (SDL_ClearQueuedAudio dev w) = g_obtainedSpecOut w"
  "g_obtainedSpecOut (snd (SDL_DequeueAudio dev len w)) = g_obtainedSpecOut w"
  "g_obtainedSpecOut (mainLoop_report G e buf w) = g_obtainedSpecOut w"
  by (simp_all add: SDL_PauseAudioDevice_def SDL_ClearQueuedAudio_def SDL_DequeueAudio_def
        mainLoop_report_def Let_def case_prod_beta split: option.split)

lemma capture_audio_simps [simp]:
  "g_devIdInp (capture_audio dev bytes w) = g_devIdInp w"
  "g_devIdOut (capture_audio dev bytes w) = g_devIdOut w"
  "g_ggWave (capture_audio dev bytes w) = g_ggWave w"
  "tLastNoData (capture_audio dev bytes w) = tLastNoData w"
  "dataInp (capture_audio dev bytes w) = dataInp w"
  "trace (capture_audio dev bytes w) = trace w"
  "is_open d (capture_audio dev bytes w) = is_open d w"
  "resumed d (capture_audio dev bytes w) = resumed d w"
  "queued d (capture_audio dev bytes w) =
     (if d = dev \<and> is_open dev w then queued d w @ bytes else queued d w)"
  by (simp_all add: capture_audio_def is_open_def resumed_def queued_def split: option.split)

lemma sendData_Some:
  "g_ggWave w = Some e \<Longrightarrow>
     sendData G textLength text protocolId volume w =
       Inr (0, w\<lparr>g_ggWave := Some (init G e textLength text protocolId volume)\<rparr>)"
  by (simp add: sendData_def)

lemma upd_engine_simps [simp]:
  "queued_size d (w\<lparr>g_ggWave := g\<rparr>) = queued_size d w"
  "elapsed_ms t (w\<lparr>g_ggWave := g\<rparr>) = elapsed_ms t w"
  by (simp_all add: queued_size_eq elapsed_ms_def)

text \<open>The state after a listening tick, in the two cases that do not decode.\<close>

lemma tick_draining:
  assumes "g_devIdInp w \<noteq> 0 \<or> g_devIdOut w \<noteq> 0" and "g_ggWave w = Some e" and "\<not> txHasData G e"
    and "int_times (samplesPerFrame G e) (sampleSizeOut G e) = Inr nOut"
    and "\<not> queued_size (g_devIdOut w) w < nOut"
  shows "GGWave_mainLoop G tNow w =
           Inr (True, (log_call (Call_SDL_GetQueuedAudioSize (g_devIdOut w))
                        (SDL_PauseAudioDevice (g_devIdOut w) SDL_FALSE w))\<lparr>tLastNoData := Some tNow\<rparr>)"
  using mainLoop_listening [OF assms(1-3), of tNow] listen_draining [OF assms(4,5), of tNow]
  by simp

lemma tick_idle:
  assumes "g_devIdInp w \<noteq> 0 \<or> g_devIdOut w \<noteq> 0" and "g_ggWave w = Some e" and "\<not> txHasData G e"
    and "int_times (samplesPerFrame G e) (sampleSizeOut G e) = Inr nOut"
    and "queued_size (g_devIdOut w) w < nOut"
    and "int_times (samplesPerFrame G e) (sampleSizeInp G e) = Inr nNeed"
    and "\<not> (elapsed_ms tNow w > 500 \<and> queued_size (g_devIdInp w) w \<ge> nNeed)"
  shows "GGWave_mainLoop G tNow w =
           Inr (True,
             SDL_ClearQueuedAudio (g_devIdInp w)
               (log_call (Call_SDL_GetQueuedAudioSize (g_devIdInp w))
                  (SDL_PauseAudioDevice (g_devIdInp w) SDL_FALSE
                     (log_call (Call_SDL_GetQueuedAudioSize (g_devIdOut w))
                        ((SDL_PauseAudioDevice (g_devIdOut w) SDL_FALSE w)
                           \<lparr>tLastNoData := Some (case tLastNoData w of None \<Rightarrow> tNow | Some t \<Rightarrow> t)\<rparr>)))))"
proof -
  let ?tLast = "case tLastNoData w of None \<Rightarrow> tNow | Some t \<Rightarrow> t"
  let ?w3 = "log_call (Call_SDL_GetQueuedAudioSize (g_devIdOut w))
               ((SDL_PauseAudioDevice (g_devIdOut w) SDL_FALSE w)\<lparr>tLastNoData := Some ?tLast\<rparr>)"
  have idle: "\<not> (getTime_ms ?tLast tNow > 500 \<and> queued_size (g_devIdInp ?w3) ?w3 \<ge> nNeed)"
    using assms(7) by (simp add: elapsed_ms_def queued_size_eq)
  from mainLoop_listening [OF assms(1-3), of tNow] listen_drained [OF assms(4,5), of tNow]
    capture_idle [OF assms(6) idle]
  show ?thesis by simp
qed

lemma tick_ready:
  assumes "g_devIdInp w \<noteq> 0 \<or> g_devIdOut w \<noteq> 0" and "g_ggWave w = Some e" and "\<not> txHasData G e"
    and "int_times (samplesPerFrame G e) (sampleSizeOut G e) = Inr nOut"
    and "queued_size (g_devIdOut w) w < nOut"
    and "int_times (samplesPerFrame G e) (sampleSizeInp G e) = Inr nNeed"
    and "elapsed_ms tNow w > 500" and "queued_size (g_devIdInp w) w \<ge> nNeed"
  shows "GGWave_mainLoop G tNow w =
           (case mainLoop_decode G e (queued_size (g_devIdInp w) w) nNeed
                   (log_call (Call_SDL_GetQueuedAudioSize (g_devIdInp w))
                      (SDL_PauseAudioDevice (g_devIdInp w) SDL_FALSE
                         (log_call (Call_SDL_GetQueuedAudioSize (g_devIdOut w))
                            ((SDL_PauseAudioDevice (g_devIdOut w) SDL_FALSE w)
                               \<lparr>tLastNoData := Some (case tLastNoData w of None \<Rightarrow> tNow | Some t \<Rightarrow> t)\<rparr>)))) of
              Inl err \<Rightarrow> Inl err
            | Inr w' \<Rightarrow> Inr (True, w'))"
proof -
  let ?tLast = "case tLastNoData w of None \<Rightarrow> tNow | Some t \<Rightarrow> t"
  let ?w3 = "log_call (Call_SDL_GetQueuedAudioSize (g_devIdOut w))
               ((SDL_PauseAudioDevice (g_devIdOut w) SDL_FALSE w)\<lparr>tLastNoData := Some ?tLast\<rparr>)"
  have el: "getTime_ms ?tLast tNow > 500" using assms(7) by (simp add: elapsed_ms_def)
  have q: "queued_size (g_devIdInp ?w3) ?w3 \<ge> nNeed" using assms(8) by (simp add: queued_size_eq)
  from mainLoop_listening [OF assms(1-3), of tNow] listen_drained [OF assms(4,5), of tNow]
    capture_ready [OF assms(6) el q]
  show ?thesis by (simp add: queued_size_eq)
qed

text \<open>
  The static vector \<open>dataInp\<close> keeps the size of its first allocation. A dequeue of a frame
  longer than that overruns it.
\<close>

lemma decode_overrun:
  assumes "dataInp w = Some b"
    and "length b < length (take (unat (word_of_int nNeed :: 32 word)) (queued (g_devIdInp w) w))"
  shows "mainLoop_decode G e nHave nNeed w = Inl BufferOverrun"
  using assms by (simp add: mainLoop_decode_def Let_def case_prod_beta)

lemma decode_quiet:
  assumes "dataInp w = None \<longrightarrow> 0 \<le> nNeed"
    and "\<not> length (case dataInp w of None \<Rightarrow> replicate (nat nNeed) 0 | Some b \<Rightarrow> b)
           < length (take (unat (word_of_int nNeed :: 32 word)) (queued (g_devIdInp w) w))"
    and "int_times 32 nNeed = Inr n32" and "\<not> nHave > n32"
  shows "mainLoop_decode G e nHave nNeed w =
           Inr (mainLoop_report G e
                  (take (unat (word_of_int nNeed :: 32 word)) (queued (g_devIdInp w) w) @
                   drop (length (take (unat (word_of_int nNeed :: 32 word)) (queued (g_devIdInp w) w)))
                     (case dataInp w of None \<Rightarrow> replicate (nat nNeed) 0 | Some b \<Rightarrow> b))
                  ((snd (SDL_DequeueAudio (g_devIdInp w) (word_of_int nNeed) w))
                     \<lparr>dataInp := Some
                        (take (unat (word_of_int nNeed :: 32 word)) (queued (g_devIdInp w) w) @
                         drop (length (take (unat (word_of_int nNeed :: 32 word)) (queued (g_devIdInp w) w)))
                           (case dataInp w of None \<Rightarrow> replicate (nat nNeed) 0 | Some b \<Rightarrow> b))\<rparr>))"
  using assms
  by (auto simp add: mainLoop_decode_def mainLoop_guard_def Let_def case_prod_beta)

lemma example_new_simps [simp]:
  "samplesPerFrame example_GGWave (new_GGWave example_GGWave p) = p_samplesPerFrame p"
  "sampleSizeInp example_GGWave (new_GGWave example_GGWave p) = example_sample_size (p_sampleFormatInp p)"
  "sampleSizeOut example_GGWave (new_GGWave example_GGWave p) = example_sample_size (p_sampleFormatOut p)"
  "txHasData example_GGWave (new_GGWave example_GGWave p) = False"
  "new_GGWave example_GGWave example_params = example_engine []"
  by (simp_all add: example_GGWave_def example_engine_def)

lemma example_init_simps [simp]:
  "txHasData example_GGWave (init example_GGWave e n text protocolId volume) = True"
  "encode example_GGWave (init example_GGWave (example_engine []) 4 [1, 2, 3, 4] protocolId volume)
     = (4, (example_engine [])\<lparr>tx_waveform := [1, 2, 3, 4]\<rparr>)"
  "txWaveform example_GGWave (e\<lparr>tx_waveform := b\<rparr>) = b"
  by (simp_all add: example_GGWave_def example_engine_def)

lemmas init_unfold =
  GGWave_init_def init_playback_def init_capture_def init_engine_def
  SDL_OpenAudioDevice_def log_call_def log_calls_def Let_def case_prod_beta
  playback_name_def spec_mismatch_def SDL_FALSE_def SDL_TRUE_def

lemmas example_unfold =
  example_host_def granting_host_def failing_host_def deaf_host_def boot_world_def
  playbackSpec_def SDL_zero_def switch_format_def
  AUDIO_U8_def AUDIO_S8_def AUDIO_U16SYS_def AUDIO_S16SYS_def AUDIO_S32SYS_def AUDIO_F32SYS_def
  kDefaultSampleRate_def float32_of_int_small example_params_def
  is_open_def resumed_def queued_def

text \<open>The first run: both devices open.\<close>

lemma run_init_facts:
  "fst (GGWave_init example_GGWave granting_host 0 0 16 0 True boot_world) = True"
  "g_devIdOut run_init = 2" "g_devIdInp run_init = 3"
  "g_ggWave run_init = Some (example_engine [])"
  "is_open 2 run_init" "is_open 3 run_init" "\<not> resumed 2 run_init" "\<not> resumed 3 run_init"
  "queued 2 run_init = []" "queued 3 run_init = []"
  "tLastNoData run_init = None" "dataInp run_init = None"
  unfolding run_init_def
  by (simp_all add: init_unfold example_unfold example_GGWave_def example_engine_def)

text \<open>The second run: playback did not open, and the engine has no output format.\<close>

lemma mute_init_facts:
  "fst (GGWave_init example_GGWave failing_host 0 0 16 0 True boot_world) = True"
  "g_devIdOut mute_init = 0" "g_devIdInp mute_init = 3"
  "g_ggWave mute_init =
     Some (new_GGWave example_GGWave
             (example_params\<lparr>p_sampleRateOut := 0, p_sampleFormatOut := GGWAVE_SAMPLE_FORMAT_UNDEFINED\<rparr>))"
  "is_open 3 mute_init" "\<not> is_open 0 mute_init" "\<not> resumed 3 mute_init"
  "queued 0 mute_init = []" "queued 3 mute_init = []"
  "tLastNoData mute_init = None" "dataInp mute_init = None"
  unfolding mute_init_def
  by (simp_all add: init_unfold example_unfold)

text \<open>The third run: capture did not open, and the engine has no input format.\<close>

lemma retry_init_facts:
  "fst (GGWave_init example_GGWave deaf_host 0 0 16 0 True boot_world) = True"
  "g_devIdOut retry_init = 2" "g_devIdInp retry_init = 0"
  "g_ggWave retry_init =
     Some (new_GGWave example_GGWave
             (example_params\<lparr>p_sampleRateInp := 0, p_sampleFormatInp := GGWAVE_SAMPLE_FORMAT_UNDEFINED\<rparr>))"
  "g_obtainedSpecOut retry_init = playbackSpec 0"
  "is_open 2 retry_init" "\<not> is_open 0 retry_init"
  "queued 0 retry_init = []" "queued 2 retry_init = []"
  "tLastNoData retry_init = None" "dataInp retry_init = None"
  unfolding retry_init_def
  by (simp_all add: init_unfold example_unfold)

text \<open>A second \<open>GGWave_init\<close> with playback open and capture not: only capture is opened.\<close>

lemma init_retry_capture:
  fixes G :: "'e GGWave_class" and w :: "'e world"
    and playbackId payloadLength :: int and useDSS :: bool
  assumes "g_devIdOut w \<noteq> 0" and "g_devIdInp w = 0" and "0 \<le> captureId"
    and "open_device H (device_name H captureId SDL_TRUE) SDL_TRUE
           ((g_obtainedSpecOut w)\<lparr>freq := requested_freq sampleRateOffset,
                                    format := AUDIO_F32SYS, samples := 1024\<rparr>) = (dev, obtained)"
    and "dev \<noteq> 0"
  defines "w' \<equiv> snd (GGWave_init G H playbackId captureId payloadLength sampleRateOffset useDSS w)"
  shows "fst (GGWave_init G H playbackId captureId payloadLength sampleRateOffset useDSS w) = True"
    and "g_devIdInp w' = dev" and "g_devIdOut w' = g_devIdOut w"
    and "g_ggWave w' =
           Some (new_GGWave G
             \<lparr>p_payloadLength = payloadLength,
              p_sampleRateInp = float32_of_int (freq obtained),
              p_sampleRateOut = float32_of_int (freq (g_obtainedSpecOut w)),
              p_sampleRate = kDefaultSampleRate,
              p_samplesPerFrame = 512,
              p_soundMarkerThreshold = kDefaultSoundMarkerThreshold,
              p_sampleFormatInp = switch_format (format obtained),
              p_sampleFormatOut = switch_format (format (g_obtainedSpecOut w)),
              p_operatingMode = GGWAVE_OPERATING_MODE_RX_AND_TX #
                 (if useDSS then [GGWAVE_OPERATING_MODE_USE_DSS] else [])\<rparr>)"
    and "dataInp w' = dataInp w" and "tLastNoData w' = tLastNoData w"
    and "queued d w' = (if d = dev then [] else queued d w)"
    and "is_open d w' = (d = dev \<or> is_open d w)"
  using assms(1-5) unfolding w'_def
  by (simp_all add: init_unfold queued_def is_open_def)

lemma int_times_small [simp]:
  "int_times 512 2 = Inr 1024" "int_times 512 4 = Inr 2048" "int_times 512 0 = Inr 0"
  "int_times 32 0 = Inr 0"
  by (simp_all add: int_times_def)

lemma retry_tick1_facts:
  "GGWave_mainLoop example_GGWave 0 retry_init = Inr (True, retry_tick1)"
  "g_devIdOut retry_tick1 = 2" "g_devIdInp retry_tick1 = 0"
  "g_ggWave retry_tick1 = g_ggWave retry_init"
  "g_obtainedSpecOut retry_tick1 = playbackSpec 0"
  "queued 0 retry_tick1 = []" "queued 2 retry_tick1 = []"
  "tLastNoData retry_tick1 = Some 0" "dataInp retry_tick1 = None"
proof -
  let ?e = "new_GGWave example_GGWave
              (example_params\<lparr>p_sampleRateInp := 0, p_sampleFormatInp := GGWAVE_SAMPLE_FORMAT_UNDEFINED\<rparr>)"
  note f = retry_init_facts
  have sz: "samplesPerFrame example_GGWave ?e = 512" "sampleSizeOut example_GGWave ?e = 2"
    "sampleSizeInp example_GGWave ?e = 0"
    by (simp_all add: example_params_def)
  have eq: "GGWave_mainLoop example_GGWave 0 retry_init =
      Inr (True,
        SDL_ClearQueuedAudio (g_devIdInp retry_init)
          (log_call (Call_SDL_GetQueuedAudioSize (g_devIdInp retry_init))
             (SDL_PauseAudioDevice (g_devIdInp retry_init) SDL_FALSE
                (log_call (Call_SDL_GetQueuedAudioSize (g_devIdOut retry_init))
                   ((SDL_PauseAudioDevice (g_devIdOut retry_init) SDL_FALSE retry_init)
                      \<lparr>tLastNoData := Some (case tLastNoData retry_init of None \<Rightarrow> 0 | Some t \<Rightarrow> t)\<rparr>)))))"
    by (rule tick_idle [where e = ?e and nOut = 1024 and nNeed = 0])
       (simp_all add: f sz example_params_def queued_size_eq elapsed_ms_def getTime_ms_def)
  then show "GGWave_mainLoop example_GGWave 0 retry_init = Inr (True, retry_tick1)"
    by (simp add: retry_tick1_def)
  show "g_devIdOut retry_tick1 = 2" "g_devIdInp retry_tick1 = 0"
    "g_ggWave retry_tick1 = g_ggWave retry_init"
    "g_obtainedSpecOut retry_tick1 = playbackSpec 0"
    "queued 0 retry_tick1 = []" "queued 2 retry_tick1 = []"
    "tLastNoData retry_tick1 = Some 0" "dataInp retry_tick1 = None"
    unfolding retry_tick1_def eq by (simp_all add: f)
qed

lemma retry_tick2_facts:
  "GGWave_mainLoop example_GGWave 600000 retry_tick1 = Inr (True, retry_tick2)"
  "filter is_decode (tick_events retry_tick1 retry_tick2) = [Call_decode []]"
  "g_devIdOut retry_tick2 = 2" "g_devIdInp retry_tick2 = 0"
  "g_obtainedSpecOut retry_tick2 = playbackSpec 0"
  "queued 2 retry_tick2 = []"
  "tLastNoData retry_tick2 = Some 0" "dataInp retry_tick2 = Some []"
proof -
  let ?e = "new_GGWave example_GGWave
              (example_params\<lparr>p_sampleRateInp := 0, p_sampleFormatInp := GGWAVE_SAMPLE_FORMAT_UNDEFINED\<rparr>)"
  note f = retry_tick1_facts(2-) retry_init_facts(4)
  let ?w5 = "log_call (Call_SDL_GetQueuedAudioSize (g_devIdInp retry_tick1))
               (SDL_PauseAudioDevice (g_devIdInp retry_tick1) SDL_FALSE
                  (log_call (Call_SDL_GetQueuedAudioSize (g_devIdOut retry_tick1))
                     ((SDL_PauseAudioDevice (g_devIdOut retry_tick1) SDL_FALSE retry_tick1)
                        \<lparr>tLastNoData := Some (case tLastNoData retry_tick1 of None \<Rightarrow> 600000 | Some t \<Rightarrow> t)\<rparr>)))"
  have sz: "samplesPerFrame example_GGWave ?e = 512" "sampleSizeOut example_GGWave ?e = 2"
    "sampleSizeInp example_GGWave ?e = 0"
    by (simp_all add: example_params_def)
  have tick: "GGWave_mainLoop example_GGWave 600000 retry_tick1 =
      (case mainLoop_decode example_GGWave ?e (queued_size (g_devIdInp retry_tick1) retry_tick1) 0 ?w5 of
         Inl err \<Rightarrow> Inl err | Inr w' \<Rightarrow> Inr (True, w'))"
    by (rule tick_ready [where nOut = 1024])
       (simp_all add: f sz example_params_def queued_size_eq elapsed_ms_def getTime_ms_def)
  have dec: "mainLoop_decode example_GGWave ?e (queued_size (g_devIdInp retry_tick1) retry_tick1) 0 ?w5 =
      Inr (mainLoop_report example_GGWave ?e []
             ((snd (SDL_DequeueAudio (g_devIdInp ?w5) (word_of_int 0) ?w5))\<lparr>dataInp := Some []\<rparr>))"
    using decode_quiet [of ?w5 0 0 "queued_size (g_devIdInp retry_tick1) retry_tick1" example_GGWave ?e]
    by (simp add: f queued_size_eq)
  have eq: "GGWave_mainLoop example_GGWave 600000 retry_tick1 =
      Inr (True, mainLoop_report example_GGWave ?e []
             ((snd (SDL_DequeueAudio (g_devIdInp ?w5) (word_of_int 0) ?w5))\<lparr>dataInp := Some []\<rparr>))"
    unfolding tick dec by simp
  then show "GGWave_mainLoop example_GGWave 600000 retry_tick1 = Inr (True, retry_tick2)"
    by (simp add: retry_tick2_def)
  show "g_devIdOut retry_tick2 = 2" "g_devIdInp retry_tick2 = 0"
    "g_obtainedSpecOut retry_tick2 = playbackSpec 0"
    "queued 2 retry_tick2 = []"
    "tLastNoData retry_tick2 = Some 0" "dataInp retry_tick2 = Some []"
    unfolding retry_tick2_def eq by (simp_all add: f)
  from report_trace [of example_GGWave ?e "[]"
         "(snd (SDL_DequeueAudio (g_devIdInp ?w5) (word_of_int 0) ?w5))\<lparr>dataInp := Some []\<rparr>"]
  show "filter is_decode (tick_events retry_tick1 retry_tick2) = [Call_decode []]"
    unfolding retry_tick2_def eq by (auto simp add: tick_events_def)
qed

lemma retry_heard_facts:
  "fst (GGWave_init example_GGWave granting_host 0 0 16 0 True retry_tick2) = True"
  "g_devIdOut retry_heard = 2" "g_devIdInp retry_heard = 3"
  "g_ggWave retry_heard = Some (example_engine [])"
  "queued 2 retry_heard = []" "queued 3 retry_heard = replicate 4096 7"
  "tLastNoData retry_heard = Some 0" "dataInp retry_heard = Some []"
proof -
  note f = retry_tick2_facts(3-)
  have opn: "open_device granting_host (device_name granting_host 0 SDL_TRUE) SDL_TRUE
               ((g_obtainedSpecOut retry_tick2)\<lparr>freq := requested_freq 0, format := AUDIO_F32SYS,
                                               samples := 1024\<rparr>)
             = (3, (g_obtainedSpecOut retry_tick2)\<lparr>freq := requested_freq 0, format := AUDIO_F32SYS,
                                                  samples := 1024\<rparr>)"
    by (simp add: granting_host_def)
  note r = init_retry_capture
             [where w = retry_tick2 and captureId = 0 and H = granting_host and sampleRateOffset = 0
                and dev = 3 and G = example_GGWave and playbackId = 0 and payloadLength = 16
                and useDSS = True, OF _ _ _ opn]
  have pre: "g_devIdOut retry_tick2 \<noteq> 0" "g_devIdInp retry_tick2 = 0" "(0::int) \<le> 0" "(3::32 word) \<noteq> 0"
    by (simp_all add: f)
  show "fst (GGWave_init example_GGWave granting_host 0 0 16 0 True retry_tick2) = True"
    using r(1) pre by simp
  have eng: "g_ggWave retry_again = Some (example_engine [])"
    unfolding retry_again_def
    using r(4) pre
    by (simp add: f playbackSpec_def switch_format_def AUDIO_U8_def AUDIO_S8_def AUDIO_U16SYS_def
          AUDIO_S16SYS_def AUDIO_S32SYS_def AUDIO_F32SYS_def float32_of_int_small
          kDefaultSampleRate_def example_GGWave_def example_engine_def example_params_def)
  have obs: "g_devIdOut retry_again = 2" "g_devIdInp retry_again = 3"
    "dataInp retry_again = Some []" "tLastNoData retry_again = Some 0"
    "queued 2 retry_again = []" "queued 3 retry_again = []" "is_open 3 retry_again"
    unfolding retry_again_def
    using r(2,3,5,6) r(7) [of 2] r(7) [of 3] r(8) [of 3] pre
    by (simp_all add: f)
  show "g_devIdOut retry_heard = 2" "g_devIdInp retry_heard = 3"
    "g_ggWave retry_heard = Some (example_engine [])"
    "queued 2 retry_heard = []" "queued 3 retry_heard = replicate 4096 7"
    "tLastNoData retry_heard = Some 0" "dataInp retry_heard = Some []"
    unfolding retry_heard_def by (simp_all add: obs eng)
qed

lemma run_tick_facts:
  "GGWave_mainLoop example_GGWave 0 run_init = Inr (True, run_tick)"
  "g_devIdOut run_tick = 2" "g_devIdInp run_tick = 3"
  "g_ggWave run_tick = Some (example_engine [])"
  "is_open 2 run_tick" "is_open 3 run_tick" "resumed 2 run_tick" "resumed 3 run_tick"
  "queued 2 run_tick = []" "queued 3 run_tick = []"
  "tLastNoData run_tick = Some 0" "dataInp run_tick = None"
proof -
  note f = run_init_facts(2-)
  have eq: "GGWave_mainLoop example_GGWave 0 run_init =
      Inr (True,
        SDL_ClearQueuedAudio (g_devIdInp run_init)
          (log_call (Call_SDL_GetQueuedAudioSize (g_devIdInp run_init))
             (SDL_PauseAudioDevice (g_devIdInp run_init) SDL_FALSE
                (log_call (Call_SDL_GetQueuedAudioSize (g_devIdOut run_init))
                   ((SDL_PauseAudioDevice (g_devIdOut run_init) SDL_FALSE run_init)
                      \<lparr>tLastNoData := Some (case tLastNoData run_init of None \<Rightarrow> 0 | Some t \<Rightarrow> t)\<rparr>)))))"
    by (rule tick_idle [where e = "example_engine []" and nOut = 1024 and nNeed = 2048])
       (simp_all add: f queued_size_eq elapsed_ms_def getTime_ms_def)
  then show "GGWave_mainLoop example_GGWave 0 run_init = Inr (True, run_tick)"
    by (simp add: run_tick_def)
  show "g_devIdOut run_tick = 2" "g_devIdInp run_tick = 3"
    "g_ggWave run_tick = Some (example_engine [])"
    "is_open 2 run_tick" "is_open 3 run_tick" "resumed 2 run_tick" "resumed 3 run_tick"
    "queued 2 run_tick = []" "queued 3 run_tick = []"
    "tLastNoData run_tick = Some 0" "dataInp run_tick = None"
    unfolding run_tick_def eq by (simp_all add: f SDL_FALSE_def)
qed

lemma run_heard_facts:
  "g_devIdOut run_heard = 2" "g_devIdInp run_heard = 3"
  "g_ggWave run_heard = Some (example_engine [])"
  "is_open 2 run_heard" "is_open 3 run_heard"
  "queued 2 run_heard = []" "queued 3 run_heard = replicate 4096 7"
  "tLastNoData run_heard = Some 0" "dataInp run_heard = None"
  unfolding run_heard_def by (simp_all add: run_tick_facts(2-))

lemma run_sending_facts:
  "sendData example_GGWave 4 [1, 2, 3, 4] 1 50 run_tick = Inr (0, run_sending)"
  "g_devIdOut run_sending = 2" "g_devIdInp run_sending = 3"
  "g_ggWave run_sending = Some (init example_GGWave (example_engine []) 4 [1, 2, 3, 4] 1 50)"
  "is_open 2 run_sending" "queued 2 run_sending = []"
  "resumed 2 run_sending" "resumed 3 run_sending" "dataInp run_sending = None"
proof -
  note f = run_tick_facts(2-)
  have eq: "sendData example_GGWave 4 [1, 2, 3, 4] 1 50 run_tick =
      Inr (0, run_tick\<lparr>g_ggWave := Some (init example_GGWave (example_engine []) 4 [1, 2, 3, 4] 1 50)\<rparr>)"
    by (rule sendData_Some) (simp add: f)
  then show "sendData example_GGWave 4 [1, 2, 3, 4] 1 50 run_tick = Inr (0, run_sending)"
    by (simp add: run_sending_def)
  show "g_devIdOut run_sending = 2" "g_devIdInp run_sending = 3"
    "g_ggWave run_sending = Some (init example_GGWave (example_engine []) 4 [1, 2, 3, 4] 1 50)"
    "is_open 2 run_sending" "queued 2 run_sending = []"
    "resumed 2 run_sending" "resumed 3 run_sending" "dataInp run_sending = None"
    unfolding run_sending_def eq by (simp_all add: f)
qed

lemma listening_timestamp:
  assumes run: "mainLoop_listen G e tNow w = Inr w'"
    and drained: "queued_size (g_devIdOut w) w < samplesPerFrame G e * sampleSizeOut G e"
  shows "tLastNoData w' = Some (case tLastNoData w of None \<Rightarrow> tNow | Some t \<Rightarrow> t)"
  using listening_cases [OF run] drained
  by (auto dest: decode_keeps(3))

text \<open>
  While \<open>dataInp\<close> is unallocated or has the size of the current frame, the tick that passes
  every gate dequeues one frame and \<open>decode\<close> receives exactly that frame.
\<close>

lemma sized_dataInp_decodes_frame:
  assumes run: "GGWave_mainLoop G tNow w = Inr (r, w')" and e: "g_ggWave w = Some e"
    and dev: "g_devIdInp w \<noteq> 0 \<or> g_devIdOut w \<noteq> 0" and tx: "\<not> txHasData G e"
    and drained: "queued_size (g_devIdOut w) w < samplesPerFrame G e * sampleSizeOut G e"
    and ready: "elapsed_ms tNow w > 500 \<and>
                samplesPerFrame G e * sampleSizeInp G e \<le> queued_size (g_devIdInp w) w"
    and pos: "0 \<le> samplesPerFrame G e * sampleSizeInp G e"
    and sized: "case dataInp w of None \<Rightarrow> True
                | Some b \<Rightarrow> length b = nat (samplesPerFrame G e * sampleSizeInp G e)"
  shows "filter is_dequeue (tick_events w w') =
           [Call_SDL_DequeueAudio (g_devIdInp w)
              (word_of_int (samplesPerFrame G e * sampleSizeInp G e))]"
    and "filter is_decode (tick_events w w') =
           [Call_decode (take (nat (samplesPerFrame G e * sampleSizeInp G e))
                           (queued (g_devIdInp w) w))]"
    and "length (take (nat (samplesPerFrame G e * sampleSizeInp G e)) (queued (g_devIdInp w) w))
           = nat (samplesPerFrame G e * sampleSizeInp G e)"
  using ready_tick_events [OF run e dev tx drained ready pos] sized
  by (simp_all split: option.splits)

text \<open>
  C4. The claim holds while the static vector \<open>dataInp\<close> has the size of the current frame,
  and the code breaks it when the frame size has changed since the vector was allocated:
  line 265 sizes \<open>dataInp\<close> once, line 266 dequeues the current \<open>nNeed\<close> bytes into it and
  line 268 passes \<open>dataInp.size()\<close> bytes to \<open>decode\<close>. In the third run the capture
  device does not open at first, so the engine has no input format and a frame of 0 bytes;
  the tick after 600 ms allocates \<open>dataInp\<close> with 0 bytes and decodes them. After the
  second \<open>GGWave_init\<close> has opened the capture device a frame has 2048 bytes; with the
  debounce window elapsed and two frames queued, the tick dequeues 2048 bytes into the
  0-byte vector and overruns it, and no frame of 2048 bytes reaches \<open>decode\<close>.
\<close>

theorem stale_dataInp_overrun:
  "fst (GGWave_init example_GGWave deaf_host 0 0 16 0 True boot_world) = True \<and>
   GGWave_mainLoop example_GGWave 0 retry_init = Inr (True, retry_tick1) \<and>
   GGWave_mainLoop example_GGWave 600000 retry_tick1 = Inr (True, retry_tick2) \<and>
   filter is_decode (tick_events retry_tick1 retry_tick2) = [Call_decode []] \<and>
   dataInp retry_tick2 = Some [] \<and>
   fst (GGWave_init example_GGWave granting_host 0 0 16 0 True retry_tick2) = True \<and>
   g_ggWave retry_heard = Some (example_engine []) \<and>
   \<not> txHasData example_GGWave (example_engine []) \<and>
   queued_size (g_devIdOut retry_heard) retry_heard
     < samplesPerFrame example_GGWave (example_engine []) * sampleSizeOut example_GGWave (example_engine []) \<and>
   500 < elapsed_ms 1200000 retry_heard \<and>
   samplesPerFrame example_GGWave (example_engine []) * sampleSizeInp example_GGWave (example_engine [])
     = 2048 \<and>
   2048 \<le> queued_size (g_devIdInp retry_heard) retry_heard \<and>
   GGWave_mainLoop example_GGWave 1200000 retry_heard = Inl BufferOverrun"
proof -
  note f = retry_heard_facts(2-)
  let ?w5 = "log_call (Call_SDL_GetQueuedAudioSize (g_devIdInp retry_heard))
               (SDL_PauseAudioDevice (g_devIdInp retry_heard) SDL_FALSE
                  (log_call (Call_SDL_GetQueuedAudioSize (g_devIdOut retry_heard))
                     ((SDL_PauseAudioDevice (g_devIdOut retry_heard) SDL_FALSE retry_heard)
                        \<lparr>tLastNoData := Some (case tLastNoData retry_heard of None \<Rightarrow> 1200000 | Some t \<Rightarrow> t)\<rparr>)))"
  have q2: "queued_size 2 retry_heard = 0"
    and q3: "queued_size 3 retry_heard = 4096"
    and el: "elapsed_ms 1200000 retry_heard = 1200"
    by (simp_all add: f queued_size_eq elapsed_ms_def getTime_ms_def)
  have tick: "GGWave_mainLoop example_GGWave 1200000 retry_heard =
      (case mainLoop_decode example_GGWave (example_engine [])
              (queued_size (g_devIdInp retry_heard) retry_heard) 2048 ?w5 of
         Inl err \<Rightarrow> Inl err | Inr w' \<Rightarrow> Inr (True, w'))"
    by (rule tick_ready [where nOut = 1024]) (simp_all add: f q2 q3 el)
  have "mainLoop_decode example_GGWave (example_engine [])
          (queued_size (g_devIdInp retry_heard) retry_heard) 2048 ?w5 = Inl BufferOverrun"
    by (rule decode_overrun [where b = "[]"]) (simp_all add: f)
  with tick have "GGWave_mainLoop example_GGWave 1200000 retry_heard = Inl BufferOverrun"
    by simp
  with retry_init_facts(1) retry_tick1_facts(1) retry_tick2_facts(1,2,8) retry_heard_facts(1,4)
    q2 q3 el
  show ?thesis by (simp add: f)
qed

text \<open>
  C10. When both handles are zero the tick returns false and changes nothing; otherwise it
  never returns false. A tick with a nonzero handle that returns has run the whole
  direction logic and returns true, also with only one device open: with outbound data it
  has paused both devices, called \<open>encode\<close> once and queued that waveform; without, it has
  resumed playback and then either refreshed \<open>tLastNoData\<close> (playback still draining), or
  resumed capture and cleared its queue, or resumed capture, dequeued one frame and decoded
  it. With an engine and frame sizes in range such a tick does return.
\<close>

theorem mainLoop_active_iff_device_open:
  "(g_devIdInp w = 0 \<and> g_devIdOut w = 0 \<longrightarrow> GGWave_mainLoop G tNow w = Inr (False, w)) \<and>
   (g_devIdInp w \<noteq> 0 \<or> g_devIdOut w \<noteq> 0 \<longrightarrow>
      (\<forall>r w'. GGWave_mainLoop G tNow w = Inr (r, w') \<longrightarrow>
         r = True \<and> g_devIdInp w' = g_devIdInp w \<and> g_devIdOut w' = g_devIdOut w \<and>
         (\<exists>e. g_ggWave w = Some e \<and>
            (txHasData G e \<longrightarrow>
               \<not> resumed (g_devIdOut w) w' \<and> \<not> resumed (g_devIdInp w) w' \<and>
               g_ggWave w' = Some (snd (encode G e)) \<and>
               tick_events w w' =
                 [Call_SDL_PauseAudioDevice (g_devIdOut w) SDL_TRUE,
                  Call_SDL_PauseAudioDevice (g_devIdInp w) SDL_TRUE,
                  Call_encode,
                  Call_SDL_QueueAudio (g_devIdOut w)
                    (take (unat (fst (encode G e))) (txWaveform G (snd (encode G e))))] \<and>
               queued (g_devIdOut w) w' =
                 (if is_open (g_devIdOut w) w
                  then queued (g_devIdOut w) w @
                       take (unat (fst (encode G e))) (txWaveform G (snd (encode G e)))
                  else [])) \<and>
            (\<not> txHasData G e \<longrightarrow>
               resumed (g_devIdOut w) w' = is_open (g_devIdOut w) w \<and>
               (\<not> queued_size (g_devIdOut w) w < samplesPerFrame G e * sampleSizeOut G e \<longrightarrow>
                  tick_events w w' =
                    [Call_SDL_PauseAudioDevice (g_devIdOut w) SDL_FALSE,
                     Call_SDL_GetQueuedAudioSize (g_devIdOut w)] \<and>
                  tLastNoData w' = Some tNow \<and>
                  queued (g_devIdInp w) w' = queued (g_devIdInp w) w \<and>
                  (g_devIdInp w \<noteq> g_devIdOut w \<longrightarrow>
                     resumed (g_devIdInp w) w' = resumed (g_devIdInp w) w)) \<and>
               (queued_size (g_devIdOut w) w < samplesPerFrame G e * sampleSizeOut G e \<longrightarrow>
                  resumed (g_devIdInp w) w' = is_open (g_devIdInp w) w \<and>
                  tLastNoData w' = Some (case tLastNoData w of None \<Rightarrow> tNow | Some t \<Rightarrow> t) \<and>
                  (\<not> (elapsed_ms tNow w > 500 \<and>
                       samplesPerFrame G e * sampleSizeInp G e \<le> queued_size (g_devIdInp w) w) \<longrightarrow>
                     tick_events w w' =
                       [Call_SDL_PauseAudioDevice (g_devIdOut w) SDL_FALSE,
                        Call_SDL_GetQueuedAudioSize (g_devIdOut w),
                        Call_SDL_PauseAudioDevice (g_devIdInp w) SDL_FALSE,
                        Call_SDL_GetQueuedAudioSize (g_devIdInp w),
                        Call_SDL_ClearQueuedAudio (g_devIdInp w)] \<and>
                     queued (g_devIdInp w) w' = []) \<and>
                  (elapsed_ms tNow w > 500 \<and>
                   samplesPerFrame G e * sampleSizeInp G e \<le> queued_size (g_devIdInp w) w \<longrightarrow>
                     (\<exists>evs. tick_events w w' =
                        [Call_SDL_PauseAudioDevice (g_devIdOut w) SDL_FALSE,
                         Call_SDL_GetQueuedAudioSize (g_devIdOut w),
                         Call_SDL_PauseAudioDevice (g_devIdInp w) SDL_FALSE,
                         Call_SDL_GetQueuedAudioSize (g_devIdInp w),
                         Call_SDL_DequeueAudio (g_devIdInp w)
                           (word_of_int (samplesPerFrame G e * sampleSizeInp G e)),
                         Call_decode
                           (take (unat (word_of_int (samplesPerFrame G e * sampleSizeInp G e) :: 32 word))
                              (queued (g_devIdInp w) w) @
                            drop (length
                                (take (unat (word_of_int (samplesPerFrame G e * sampleSizeInp G e) :: 32 word))
                                   (queued (g_devIdInp w) w)))
                              (case dataInp w of
                                 None \<Rightarrow> replicate (nat (samplesPerFrame G e * sampleSizeInp G e)) 0
                               | Some b \<Rightarrow> b))] @ evs \<and>
                        filter is_decode evs = [] \<and> filter is_dequeue evs = [] \<and>
                        (32 * (samplesPerFrame G e * sampleSizeInp G e) < queued_size (g_devIdInp w) w \<longrightarrow>
                           filter is_slow_warning evs \<noteq> [])) \<and>
                     queued (g_devIdInp w) w' =
                       (if 32 * (samplesPerFrame G e * sampleSizeInp G e) < queued_size (g_devIdInp w) w
                        then []
                        else drop (unat (word_of_int (samplesPerFrame G e * sampleSizeInp G e) :: 32 word))
                               (queued (g_devIdInp w) w))))))) \<and>
      (\<forall>e. g_ggWave w = Some e \<and> frame_sizes_ok G e w \<longrightarrow>
         (\<exists>w'. GGWave_mainLoop G tNow w = Inr (True, w'))))"
proof (intro conjI impI allI)
  assume "g_devIdInp w = 0 \<and> g_devIdOut w = 0"
  then show "GGWave_mainLoop G tNow w = Inr (False, w)" by (rule mainLoop_inactive)
next
  fix e
  assume dev: "g_devIdInp w \<noteq> 0 \<or> g_devIdOut w \<noteq> 0"
    and "g_ggWave w = Some e \<and> frame_sizes_ok G e w"
  then have e: "g_ggWave w = Some e" and ok: "frame_sizes_ok G e w" by simp_all
  from mainLoop_returns [OF dev e ok]
  show "\<exists>w'. GGWave_mainLoop G tNow w = Inr (True, w')" .
next
  fix r w'
  assume dev: "g_devIdInp w \<noteq> 0 \<or> g_devIdOut w \<noteq> 0"
    and run: "GGWave_mainLoop G tNow w = Inr (r, w')"
  from mainLoop_keeps_handles [OF run]
  show "g_devIdInp w' = g_devIdInp w" and "g_devIdOut w' = g_devIdOut w" by simp_all
  from mainLoop_Inr_engine [OF run dev] obtain e where e: "g_ggWave w = Some e" ..
  show "r = True"
  proof (cases "txHasData G e")
    case True
    from run mainLoop_transmitting [OF dev e True, of tNow] show ?thesis by simp
  next
    case False
    from mainLoop_listening_Inr [OF run dev e False] show ?thesis by simp
  qed
  have transmitting:
       "\<not> resumed (g_devIdOut w) w' \<and> \<not> resumed (g_devIdInp w) w' \<and>
        g_ggWave w' = Some (snd (encode G e)) \<and>
        tick_events w w' =
          [Call_SDL_PauseAudioDevice (g_devIdOut w) SDL_TRUE,
           Call_SDL_PauseAudioDevice (g_devIdInp w) SDL_TRUE,
           Call_encode,
           Call_SDL_QueueAudio (g_devIdOut w)
             (take (unat (fst (encode G e))) (txWaveform G (snd (encode G e))))] \<and>
        queued (g_devIdOut w) w' =
          (if is_open (g_devIdOut w) w
           then queued (g_devIdOut w) w @
                take (unat (fst (encode G e))) (txWaveform G (snd (encode G e)))
           else [])"
    if tx: "txHasData G e"
  proof -
    have enc: "encode G e = (fst (encode G e), snd (encode G e))" by simp
    from run mainLoop_transmitting [OF dev e tx, of tNow] have w': "w' = mainLoop_transmit G e w"
      by simp
    from transmit_trace [OF enc, of w] transmit_paused [of w G e]
      transmit_engine [OF enc, of w] transmit_queued(1) [OF enc, of w]
    show ?thesis unfolding w' by simp
  qed
  have listening:
       "resumed (g_devIdOut w) w' = is_open (g_devIdOut w) w \<and>
        (\<not> queued_size (g_devIdOut w) w < samplesPerFrame G e * sampleSizeOut G e \<longrightarrow>
           tick_events w w' =
             [Call_SDL_PauseAudioDevice (g_devIdOut w) SDL_FALSE,
              Call_SDL_GetQueuedAudioSize (g_devIdOut w)] \<and>
           tLastNoData w' = Some tNow \<and>
           queued (g_devIdInp w) w' = queued (g_devIdInp w) w \<and>
           (g_devIdInp w \<noteq> g_devIdOut w \<longrightarrow>
              resumed (g_devIdInp w) w' = resumed (g_devIdInp w) w)) \<and>
        (queued_size (g_devIdOut w) w < samplesPerFrame G e * sampleSizeOut G e \<longrightarrow>
           resumed (g_devIdInp w) w' = is_open (g_devIdInp w) w \<and>
           tLastNoData w' = Some (case tLastNoData w of None \<Rightarrow> tNow | Some t \<Rightarrow> t) \<and>
           (\<not> (elapsed_ms tNow w > 500 \<and>
                samplesPerFrame G e * sampleSizeInp G e \<le> queued_size (g_devIdInp w) w) \<longrightarrow>
              tick_events w w' =
                [Call_SDL_PauseAudioDevice (g_devIdOut w) SDL_FALSE,
                 Call_SDL_GetQueuedAudioSize (g_devIdOut w),
                 Call_SDL_PauseAudioDevice (g_devIdInp w) SDL_FALSE,
                 Call_SDL_GetQueuedAudioSize (g_devIdInp w),
                 Call_SDL_ClearQueuedAudio (g_devIdInp w)] \<and>
              queued (g_devIdInp w) w' = []) \<and>
           (elapsed_ms tNow w > 500 \<and>
            samplesPerFrame G e * sampleSizeInp G e \<le> queued_size (g_devIdInp w) w \<longrightarrow>
              (\<exists>evs. tick_events w w' =
                 [Call_SDL_PauseAudioDevice (g_devIdOut w) SDL_FALSE,
                  Call_SDL_GetQueuedAudioSize (g_devIdOut w),
                  Call_SDL_PauseAudioDevice (g_devIdInp w) SDL_FALSE,
                  Call_SDL_GetQueuedAudioSize (g_devIdInp w),
                  Call_SDL_DequeueAudio (g_devIdInp w)
                    (word_of_int (samplesPerFrame G e * sampleSizeInp G e)),
                  Call_decode
                    (take (unat (word_of_int (samplesPerFrame G e * sampleSizeInp G e) :: 32 word))
                       (queued (g_devIdInp w) w) @
                     drop (length
                         (take (unat (word_of_int (samplesPerFrame G e * sampleSizeInp G e) :: 32 word))
                            (queued (g_devIdInp w) w)))
                       (case dataInp w of
                          None \<Rightarrow> replicate (nat (samplesPerFrame G e * sampleSizeInp G e)) 0
                        | Some b \<Rightarrow> b))] @ evs \<and>
                 filter is_decode evs = [] \<and> filter is_dequeue evs = [] \<and>
                 (32 * (samplesPerFrame G e * sampleSizeInp G e) < queued_size (g_devIdInp w) w \<longrightarrow>
                    filter is_slow_warning evs \<noteq> [])) \<and>
              queued (g_devIdInp w) w' =
                (if 32 * (samplesPerFrame G e * sampleSizeInp G e) < queued_size (g_devIdInp w) w
                 then []
                 else drop (unat (word_of_int (samplesPerFrame G e * sampleSizeInp G e) :: 32 word))
                        (queued (g_devIdInp w) w))))"
    if tx: "\<not> txHasData G e"
  proof -
    from mainLoop_listening_Inr [OF run dev e tx]
    have lis: "mainLoop_listen G e tNow w = Inr w'" by simp
    note eff = listening_effects [OF lis]
    have a: "tick_events w w' =
             [Call_SDL_PauseAudioDevice (g_devIdOut w) SDL_FALSE,
              Call_SDL_GetQueuedAudioSize (g_devIdOut w)] \<and>
           tLastNoData w' = Some tNow \<and>
           queued (g_devIdInp w) w' = queued (g_devIdInp w) w \<and>
           (g_devIdInp w \<noteq> g_devIdOut w \<longrightarrow>
              resumed (g_devIdInp w) w' = resumed (g_devIdInp w) w)"
      if "\<not> queued_size (g_devIdOut w) w < samplesPerFrame G e * sampleSizeOut G e"
      using eff(4) [OF that] by simp
    have b: "tick_events w w' =
                [Call_SDL_PauseAudioDevice (g_devIdOut w) SDL_FALSE,
                 Call_SDL_GetQueuedAudioSize (g_devIdOut w),
                 Call_SDL_PauseAudioDevice (g_devIdInp w) SDL_FALSE,
                 Call_SDL_GetQueuedAudioSize (g_devIdInp w),
                 Call_SDL_ClearQueuedAudio (g_devIdInp w)] \<and>
              queued (g_devIdInp w) w' = []"
      if "queued_size (g_devIdOut w) w < samplesPerFrame G e * sampleSizeOut G e"
        and "\<not> (elapsed_ms tNow w > 500 \<and>
                samplesPerFrame G e * sampleSizeInp G e \<le> queued_size (g_devIdInp w) w)"
      using eff(6) [OF that] by simp
    have c: "(\<exists>evs. tick_events w w' =
                 [Call_SDL_PauseAudioDevice (g_devIdOut w) SDL_FALSE,
                  Call_SDL_GetQueuedAudioSize (g_devIdOut w),
                  Call_SDL_PauseAudioDevice (g_devIdInp w) SDL_FALSE,
                  Call_SDL_GetQueuedAudioSize (g_devIdInp w),
                  Call_SDL_DequeueAudio (g_devIdInp w)
                    (word_of_int (samplesPerFrame G e * sampleSizeInp G e)),
                  Call_decode
                    (take (unat (word_of_int (samplesPerFrame G e * sampleSizeInp G e) :: 32 word))
                       (queued (g_devIdInp w) w) @
                     drop (length
                         (take (unat (word_of_int (samplesPerFrame G e * sampleSizeInp G e) :: 32 word))
                            (queued (g_devIdInp w) w)))
                       (case dataInp w of
                          None \<Rightarrow> replicate (nat (samplesPerFrame G e * sampleSizeInp G e)) 0
                        | Some b \<Rightarrow> b))] @ evs \<and>
                 filter is_decode evs = [] \<and> filter is_dequeue evs = [] \<and>
                 (32 * (samplesPerFrame G e * sampleSizeInp G e) < queued_size (g_devIdInp w) w \<longrightarrow>
                    filter is_slow_warning evs \<noteq> [])) \<and>
              queued (g_devIdInp w) w' =
                (if 32 * (samplesPerFrame G e * sampleSizeInp G e) < queued_size (g_devIdInp w) w
                 then []
                 else drop (unat (word_of_int (samplesPerFrame G e * sampleSizeInp G e) :: 32 word))
                        (queued (g_devIdInp w) w))"
      if "queued_size (g_devIdOut w) w < samplesPerFrame G e * sampleSizeOut G e"
        and "elapsed_ms tNow w > 500 \<and>
             samplesPerFrame G e * sampleSizeInp G e \<le> queued_size (g_devIdInp w) w"
    proof -
      from eff(7) [OF that] obtain evs where
        tr: "trace w' = trace w @
                 [Call_SDL_PauseAudioDevice (g_devIdOut w) SDL_FALSE,
                  Call_SDL_GetQueuedAudioSize (g_devIdOut w),
                  Call_SDL_PauseAudioDevice (g_devIdInp w) SDL_FALSE,
                  Call_SDL_GetQueuedAudioSize (g_devIdInp w),
                  Call_SDL_DequeueAudio (g_devIdInp w)
                    (word_of_int (samplesPerFrame G e * sampleSizeInp G e)),
                  Call_decode
                    (take (unat (word_of_int (samplesPerFrame G e * sampleSizeInp G e) :: 32 word))
                       (queued (g_devIdInp w) w) @
                     drop (length
                         (take (unat (word_of_int (samplesPerFrame G e * sampleSizeInp G e) :: 32 word))
                            (queued (g_devIdInp w) w)))
                       (case dataInp w of
                          None \<Rightarrow> replicate (nat (samplesPerFrame G e * sampleSizeInp G e)) 0
                        | Some b \<Rightarrow> b))] @ evs"
        and fl: "filter is_decode evs = []" "filter is_dequeue evs = []"
          "32 * (samplesPerFrame G e * sampleSizeInp G e) < queued_size (g_devIdInp w) w \<longrightarrow>
             filter is_slow_warning evs \<noteq> []"
        and q: "queued (g_devIdInp w) w' =
                (if 32 * (samplesPerFrame G e * sampleSizeInp G e) < queued_size (g_devIdInp w) w
                 then []
                 else drop (unat (word_of_int (samplesPerFrame G e * sampleSizeInp G e) :: 32 word))
                        (queued (g_devIdInp w) w))"
        by blast
      from tick_events_append [OF tr] fl q show ?thesis by blast
    qed
    from eff(3) eff(5) listening_timestamp [OF lis] a b c show ?thesis by blast
  qed
  from e transmitting listening
  show "\<exists>e. g_ggWave w = Some e \<and>
            (txHasData G e \<longrightarrow>
               \<not> resumed (g_devIdOut w) w' \<and> \<not> resumed (g_devIdInp w) w' \<and>
               g_ggWave w' = Some (snd (encode G e)) \<and>
               tick_events w w' =
                 [Call_SDL_PauseAudioDevice (g_devIdOut w) SDL_TRUE,
                  Call_SDL_PauseAudioDevice (g_devIdInp w) SDL_TRUE,
                  Call_encode,
                  Call_SDL_QueueAudio (g_devIdOut w)
                    (take (unat (fst (encode G e))) (txWaveform G (snd (encode G e))))] \<and>
               queued (g_devIdOut w) w' =
                 (if is_open (g_devIdOut w) w
                  then queued (g_devIdOut w) w @
                       take (unat (fst (encode G e))) (txWaveform G (snd (encode G e)))
                  else [])) \<and>
            (\<not> txHasData G e \<longrightarrow>
               resumed (g_devIdOut w) w' = is_open (g_devIdOut w) w \<and>
               (\<not> queued_size (g_devIdOut w) w < samplesPerFrame G e * sampleSizeOut G e \<longrightarrow>
                  tick_events w w' =
                    [Call_SDL_PauseAudioDevice (g_devIdOut w) SDL_FALSE,
                     Call_SDL_GetQueuedAudioSize (g_devIdOut w)] \<and>
                  tLastNoData w' = Some tNow \<and>
                  queued (g_devIdInp w) w' = queued (g_devIdInp w) w \<and>
                  (g_devIdInp w \<noteq> g_devIdOut w \<longrightarrow>
                     resumed (g_devIdInp w) w' = resumed (g_devIdInp w) w)) \<and>
               (queued_size (g_devIdOut w) w < samplesPerFrame G e * sampleSizeOut G e \<longrightarrow>
                  resumed (g_devIdInp w) w' = is_open (g_devIdInp w) w \<and>
                  tLastNoData w' = Some (case tLastNoData w of None \<Rightarrow> tNow | Some t \<Rightarrow> t) \<and>
                  (\<not> (elapsed_ms tNow w > 500 \<and>
                       samplesPerFrame G e * sampleSizeInp G e \<le> queued_size (g_devIdInp w) w) \<longrightarrow>
                     tick_events w w' =
                       [Call_SDL_PauseAudioDevice (g_devIdOut w) SDL_FALSE,
                        Call_SDL_GetQueuedAudioSize (g_devIdOut w),
                        Call_SDL_PauseAudioDevice (g_devIdInp w) SDL_FALSE,
                        Call_SDL_GetQueuedAudioSize (g_devIdInp w),
                        Call_SDL_ClearQueuedAudio (g_devIdInp w)] \<and>
                     queued (g_devIdInp w) w' = []) \<and>
                  (elapsed_ms tNow w > 500 \<and>
                   samplesPerFrame G e * sampleSizeInp G e \<le> queued_size (g_devIdInp w) w \<longrightarrow>
                     (\<exists>evs. tick_events w w' =
                        [Call_SDL_PauseAudioDevice (g_devIdOut w) SDL_FALSE,
                         Call_SDL_GetQueuedAudioSize (g_devIdOut w),
                         Call_SDL_PauseAudioDevice (g_devIdInp w) SDL_FALSE,
                         Call_SDL_GetQueuedAudioSize (g_devIdInp w),
                         Call_SDL_DequeueAudio (g_devIdInp w)
                           (word_of_int (samplesPerFrame G e * sampleSizeInp G e)),
                         Call_decode
                           (take (unat (word_of_int (samplesPerFrame G e * sampleSizeInp G e) :: 32 word))
                              (queued (g_devIdInp w) w) @
                            drop (length
                                (take (unat (word_of_int (samplesPerFrame G e * sampleSizeInp G e) :: 32 word))
                                   (queued (g_devIdInp w) w)))
                              (case dataInp w of
                                 None \<Rightarrow> replicate (nat (samplesPerFrame G e * sampleSizeInp G e)) 0
                               | Some b \<Rightarrow> b))] @ evs \<and>
                        filter is_decode evs = [] \<and> filter is_dequeue evs = [] \<and>
                        (32 * (samplesPerFrame G e * sampleSizeInp G e) < queued_size (g_devIdInp w) w \<longrightarrow>
                           filter is_slow_warning evs \<noteq> [])) \<and>
                     queued (g_devIdInp w) w' =
                       (if 32 * (samplesPerFrame G e * sampleSizeInp G e) < queued_size (g_devIdInp w) w
                        then []
                        else drop (unat (word_of_int (samplesPerFrame G e * sampleSizeInp G e) :: 32 word))
                               (queued (g_devIdInp w) w)))))"
    by blast
qed

theorem mainLoop_active_iff_device_open_witness:
  "fst (GGWave_init example_GGWave granting_host 0 0 16 0 True boot_world) = True \<and>
   fst (GGWave_init example_GGWave failing_host 0 0 16 0 True boot_world) = True \<and>
   fst (GGWave_init example_GGWave deaf_host 0 0 16 0 True boot_world) = True \<and>
   g_devIdInp boot_world = 0 \<and> g_devIdOut boot_world = 0 \<and>
   GGWave_mainLoop example_GGWave 0 boot_world = Inr (False, boot_world) \<and>
   g_devIdInp mute_init = 3 \<and> g_devIdOut mute_init = 0 \<and>
   (\<exists>w'. GGWave_mainLoop example_GGWave 0 mute_init = Inr (True, w') \<and>
      tick_events mute_init w' =
        [Call_SDL_PauseAudioDevice 0 SDL_FALSE, Call_SDL_GetQueuedAudioSize 0] \<and>
      tLastNoData w' = Some 0 \<and> \<not> resumed 3 w') \<and>
   g_devIdInp retry_init = 0 \<and> g_devIdOut retry_init = 2 \<and>
   (\<exists>w'. GGWave_mainLoop example_GGWave 0 retry_init = Inr (True, w') \<and>
      tick_events retry_init w' =
        [Call_SDL_PauseAudioDevice 2 SDL_FALSE, Call_SDL_GetQueuedAudioSize 2,
         Call_SDL_PauseAudioDevice 0 SDL_FALSE, Call_SDL_GetQueuedAudioSize 0,
         Call_SDL_ClearQueuedAudio 0] \<and>
      tLastNoData w' = Some 0 \<and> resumed 2 w') \<and>
   g_devIdInp run_heard = 3 \<and> g_devIdOut run_heard = 2 \<and>
   (\<exists>w' evs. GGWave_mainLoop example_GGWave 600000 run_heard = Inr (True, w') \<and>
      tick_events run_heard w' =
        [Call_SDL_PauseAudioDevice 2 SDL_FALSE, Call_SDL_GetQueuedAudioSize 2,
         Call_SDL_PauseAudioDevice 3 SDL_FALSE, Call_SDL_GetQueuedAudioSize 3,
         Call_SDL_DequeueAudio 3 2048, Call_decode (replicate 2048 7)] @ evs \<and>
      filter is_decode evs = [] \<and> filter is_dequeue evs = [] \<and>
      queued 3 w' = replicate 2048 7 \<and> resumed 2 w' \<and> resumed 3 w') \<and>
   g_devIdInp run_sending = 3 \<and> g_devIdOut run_sending = 2 \<and>
   (\<exists>w'. GGWave_mainLoop example_GGWave 600000 run_sending = Inr (True, w') \<and>
      tick_events run_sending w' =
        [Call_SDL_PauseAudioDevice 2 SDL_TRUE, Call_SDL_PauseAudioDevice 3 SDL_TRUE,
         Call_encode, Call_SDL_QueueAudio 2 [1, 2, 3, 4]] \<and>
      queued 2 w' = [1, 2, 3, 4] \<and> \<not> resumed 2 w' \<and> \<not> resumed 3 w')"
proof -
  have boot: "GGWave_mainLoop example_GGWave 0 boot_world = Inr (False, boot_world)"
    using mainLoop_active_iff_device_open [where w = boot_world and G = example_GGWave and tNow = 0]
    by (simp add: boot_world_def)
  have mute: "\<exists>w'. GGWave_mainLoop example_GGWave 0 mute_init = Inr (True, w') \<and>
      tick_events mute_init w' =
        [Call_SDL_PauseAudioDevice 0 SDL_FALSE, Call_SDL_GetQueuedAudioSize 0] \<and>
      tLastNoData w' = Some 0 \<and> \<not> resumed 3 w'"
  proof -
    note f = mute_init_facts(2-)
    note t = mainLoop_active_iff_device_open [where w = mute_init and G = example_GGWave and tNow = 0]
    from t obtain w' where run: "GGWave_mainLoop example_GGWave 0 mute_init = Inr (True, w')"
      by (auto simp add: f frame_sizes_ok_def example_params_def)
    from t run have "tick_events mute_init w' =
        [Call_SDL_PauseAudioDevice 0 SDL_FALSE, Call_SDL_GetQueuedAudioSize 0] \<and>
      tLastNoData w' = Some 0 \<and> \<not> resumed 3 w'"
      by (auto simp add: f example_params_def queued_size_eq)
    with run show ?thesis by blast
  qed
  have retry: "\<exists>w'. GGWave_mainLoop example_GGWave 0 retry_init = Inr (True, w') \<and>
      tick_events retry_init w' =
        [Call_SDL_PauseAudioDevice 2 SDL_FALSE, Call_SDL_GetQueuedAudioSize 2,
         Call_SDL_PauseAudioDevice 0 SDL_FALSE, Call_SDL_GetQueuedAudioSize 0,
         Call_SDL_ClearQueuedAudio 0] \<and>
      tLastNoData w' = Some 0 \<and> resumed 2 w'"
  proof -
    note f = retry_init_facts(2-)
    note t = mainLoop_active_iff_device_open [where w = retry_init and G = example_GGWave and tNow = 0]
    from t obtain w' where run: "GGWave_mainLoop example_GGWave 0 retry_init = Inr (True, w')"
      by (auto simp add: f frame_sizes_ok_def example_params_def)
    from t run have "tick_events retry_init w' =
        [Call_SDL_PauseAudioDevice 2 SDL_FALSE, Call_SDL_GetQueuedAudioSize 2,
         Call_SDL_PauseAudioDevice 0 SDL_FALSE, Call_SDL_GetQueuedAudioSize 0,
         Call_SDL_ClearQueuedAudio 0] \<and>
      tLastNoData w' = Some 0 \<and> resumed 2 w'"
      by (auto simp add: f example_params_def queued_size_eq elapsed_ms_def getTime_ms_def)
    with run show ?thesis by blast
  qed
  have heard: "\<exists>w' evs. GGWave_mainLoop example_GGWave 600000 run_heard = Inr (True, w') \<and>
      tick_events run_heard w' =
        [Call_SDL_PauseAudioDevice 2 SDL_FALSE, Call_SDL_GetQueuedAudioSize 2,
         Call_SDL_PauseAudioDevice 3 SDL_FALSE, Call_SDL_GetQueuedAudioSize 3,
         Call_SDL_DequeueAudio 3 2048, Call_decode (replicate 2048 7)] @ evs \<and>
      filter is_decode evs = [] \<and> filter is_dequeue evs = [] \<and>
      queued 3 w' = replicate 2048 7 \<and> resumed 2 w' \<and> resumed 3 w'"
  proof -
    note f = run_heard_facts
    note t = mainLoop_active_iff_device_open [where w = run_heard and G = example_GGWave and tNow = 600000]
    from t obtain w' where run: "GGWave_mainLoop example_GGWave 600000 run_heard = Inr (True, w')"
      by (auto simp add: f frame_sizes_ok_def)
    from t run have "\<exists>evs. tick_events run_heard w' =
        [Call_SDL_PauseAudioDevice 2 SDL_FALSE, Call_SDL_GetQueuedAudioSize 2,
         Call_SDL_PauseAudioDevice 3 SDL_FALSE, Call_SDL_GetQueuedAudioSize 3,
         Call_SDL_DequeueAudio 3 2048, Call_decode (replicate 2048 7)] @ evs \<and>
      filter is_decode evs = [] \<and> filter is_dequeue evs = [] \<and>
      queued 3 w' = replicate 2048 7 \<and> resumed 2 w' \<and> resumed 3 w'"
      by (auto simp add: f queued_size_eq elapsed_ms_def getTime_ms_def)
    with run show ?thesis by blast
  qed
  have sending: "\<exists>w'. GGWave_mainLoop example_GGWave 600000 run_sending = Inr (True, w') \<and>
      tick_events run_sending w' =
        [Call_SDL_PauseAudioDevice 2 SDL_TRUE, Call_SDL_PauseAudioDevice 3 SDL_TRUE,
         Call_encode, Call_SDL_QueueAudio 2 [1, 2, 3, 4]] \<and>
      queued 2 w' = [1, 2, 3, 4] \<and> \<not> resumed 2 w' \<and> \<not> resumed 3 w'"
  proof -
    note f = run_sending_facts(2-)
    note t = mainLoop_active_iff_device_open [where w = run_sending and G = example_GGWave and tNow = 600000]
    from t obtain w' where run: "GGWave_mainLoop example_GGWave 600000 run_sending = Inr (True, w')"
      by (auto simp add: f frame_sizes_ok_def example_GGWave_def example_engine_def example_params_def
            )
    from t run have "tick_events run_sending w' =
        [Call_SDL_PauseAudioDevice 2 SDL_TRUE, Call_SDL_PauseAudioDevice 3 SDL_TRUE,
         Call_encode, Call_SDL_QueueAudio 2 [1, 2, 3, 4]] \<and>
      queued 2 w' = [1, 2, 3, 4] \<and> \<not> resumed 2 w' \<and> \<not> resumed 3 w'"
      by (auto simp add: f)
    with run show ?thesis by blast
  qed
  have handles: "g_devIdInp boot_world = 0" "g_devIdOut boot_world = 0"
    by (simp_all add: boot_world_def)
  note init = run_init_facts(1) mute_init_facts(1) retry_init_facts(1)
  note mute_handles = mute_init_facts(2,3)
  note retry_handles = retry_init_facts(2,3)
  note heard_handles = run_heard_facts(1,2)
  note sending_handles = run_sending_facts(2,3)
  show ?thesis
    by (intro conjI) (rule init handles boot mute mute_handles retry retry_handles
          heard heard_handles sending sending_handles)+
qed

end
